theory Spec2Isabelle
  imports Complex_Main "HOL-Library.Multiset"
begin

section \<open>Shared data model (types.ts)\<close>

text \<open>
  JavaScript numbers that hold coordinates, distances and durations are modelled as
  \<open>real\<close>, with exact arithmetic in place of double-precision rounding; numbers that the
  code only ever fills with integers (counts, won amounts, minutes, battery levels) are
  modelled as \<open>int\<close> or \<open>nat\<close>.  Where a floating-point product is floored, in the
  category counts, the double-precision rounding is modelled exactly.  Exceptions are
  values of \<open>error\<close>, and a function that can throw returns \<open>error + 'a\<close>.
\<close>

datatype error =
    TypeError      \<comment> \<open>property read on \<open>undefined\<close>/\<open>null\<close>, call of a non-function\<close>
  | FetchError     \<comment> \<open>rejected \<open>fetch\<close>, non-ok status turned into \<open>throw new Error\<close>, bad JSON\<close>

record coordinate =
  lng :: real
  lat :: real

datatype ScooterState = B | C

record scooter =
  scooter_id :: string
  location :: coordinate
  state :: ScooterState
  batteryLevel :: int
  service_time :: int
  score :: int

datatype poi_kind = subway_exit | bus_stop | subway_station

record RedZonePOI =
  poi_location :: coordinate
  poi_name :: string
  poi_type :: poi_kind

text \<open>
  A GeoJSON feature of the district file: its \<open>properties.name_eng\<close> and the answer of
  \<open>turf.booleanPointInPolygon(point, feature)\<close> (an external library) for every point.
\<close>

record feature =
  name_eng :: string
  pointInPolygon :: "coordinate \<Rightarrow> bool"

subsection \<open>Template literals: decimal rendering of a non-negative integer\<close>

definition digitChar :: "nat \<Rightarrow> char" where
  "digitChar d = ''0123456789'' ! d"

function toDecimal :: "nat \<Rightarrow> string" where
  "toDecimal n = (if n < 10 then [digitChar n] else toDecimal (n div 10) @ [digitChar (n mod 10)])"
  by pat_completeness auto
termination
  by (relation "measure id") auto

declare toDecimal.simps [simp del]

subsection \<open>Array reads\<close>

text \<open>\<open>xs[i]\<close> in JavaScript is \<open>undefined\<close> (here \<open>None\<close>) outside \<open>0 .. length - 1\<close>.\<close>

definition arrayGet :: "'a list \<Rightarrow> int \<Rightarrow> 'a option" where
  "arrayGet xs i = (if 0 \<le> i \<and> i < int (length xs) then Some (xs ! nat i) else None)"

section \<open>ScenarioGenerator.ts\<close>

subsection \<open>\<open>Math.floor(count * p)\<close> in double precision\<close>

text \<open>
  The category counts are \<open>Math.floor\<close> of a product of the integer \<open>count\<close> with a
  double-precision constant.  A constant is kept as its exact value \<open>mant / 2 ^ expo\<close>;
  the exact integer product \<open>count * mant\<close> is rounded to 53 significant bits, ties to
  even, as IEEE 754 multiplication does (exact for \<open>\<bar>count\<bar> < 2 ^ 53\<close>, where neither
  overflow nor underflow can occur), and then floored.
\<close>

record double_const =
  mant :: int
  expo :: nat

function bitLength :: "int \<Rightarrow> nat" where
  "bitLength p = (if p \<le> 0 then 0 else Suc (bitLength (p div 2)))"
  by pat_completeness auto
termination
  by (relation "measure nat") auto

declare bitLength.simps [simp del]

definition roundToDouble :: "int \<Rightarrow> int" where
  "roundToDouble p =
     (let a = \<bar>p\<bar>; sh = bitLength a - 53
      in if sh = 0 then p
         else (let q = a div 2 ^ sh; r = a mod 2 ^ sh; half = 2 ^ (sh - 1);
                   q' = (if half < r \<or> (r = half \<and> odd q) then q + 1 else q)
               in sgn p * q' * 2 ^ sh))"

definition floorMul :: "int \<Rightarrow> double_const \<Rightarrow> int" where
  "floorMul n c = roundToDouble (n * mant c) div 2 ^ expo c"

definition HIGH_RISK_PERCENTAGE :: double_const where
  "HIGH_RISK_PERCENTAGE = \<lparr>mant = 5404319552844595, expo = 55\<rparr>"   \<comment> \<open>0.15\<close>

definition COMMERCIAL_PERCENTAGE :: double_const where
  "COMMERCIAL_PERCENTAGE = \<lparr>mant = 5854679515581645, expo = 53\<rparr>"  \<comment> \<open>0.65\<close>

definition RESIDENTIAL_PERCENTAGE :: double_const where
  "RESIDENTIAL_PERCENTAGE = \<lparr>mant = 7205759403792794, expo = 55\<rparr>" \<comment> \<open>0.20\<close>

definition BUS_STOP_RATIO :: double_const where
  "BUS_STOP_RATIO = \<lparr>mant = 4503599627370496, expo = 54\<rparr>"         \<comment> \<open>0.25\<close>

definition RED_ZONE_RADIUS_METERS :: real where
  "RED_ZONE_RADIUS_METERS = 20"

definition TOWING_FINE :: int where
  "TOWING_FINE = 40000"

definition BATTERY_SWAP_REVENUE :: int where
  "BATTERY_SWAP_REVENUE = 5000"

definition countHighRisk :: "int \<Rightarrow> int" where
  "countHighRisk cnt = max 1 (floorMul cnt HIGH_RISK_PERCENTAGE)"

definition countNearBusStop :: "int \<Rightarrow> int" where
  "countNearBusStop cnt = max 0 (floorMul (countHighRisk cnt) BUS_STOP_RATIO)"

definition countNearSubway :: "int \<Rightarrow> int" where
  "countNearSubway cnt = countHighRisk cnt - countNearBusStop cnt"

definition countCommercial :: "int \<Rightarrow> int" where
  "countCommercial cnt = floorMul cnt COMMERCIAL_PERCENTAGE"

definition countResidential :: "int \<Rightarrow> int" where
  "countResidential cnt = floorMul cnt RESIDENTIAL_PERCENTAGE"

subsection \<open>Jittered points and the boundary test\<close>

text \<open>
  \<open>Math.random()\<close> is an explicit source: \<open>rnd k\<close> is the value of the \<open>k\<close>-th call, and
  every function that draws takes the number of draws made so far and returns it updated.
  For draws in \<open>[0, 1)\<close> and \<open>0 \<le> minRadiusMeters \<le> maxRadiusMeters\<close>, as at every call
  site, \<open>radiusSquared\<close> is not negative, where \<open>sqrt\<close> is \<open>Math.sqrt\<close>.
\<close>

type_synonym random_source = "nat \<Rightarrow> real"

definition generatePointNearLocation ::
  "random_source \<Rightarrow> nat \<Rightarrow> coordinate \<Rightarrow> real \<Rightarrow> real \<Rightarrow> coordinate \<times> nat" where
  "generatePointNearLocation rnd k center minRadiusMeters maxRadiusMeters =
     (let angle = rnd k * 2 * pi;
          radiusSquared = rnd (k + 1) * (maxRadiusMeters * maxRadiusMeters
                            - minRadiusMeters * minRadiusMeters)
                          + minRadiusMeters * minRadiusMeters;
          radius = sqrt radiusSquared;
          latOffset = (radius * cos angle) / 111000;
          lngOffset = (radius * sin angle) / 88000
      in (\<lparr>lng = lng center + lngOffset, lat = lat center + latOffset\<rparr>, k + 2))"

text \<open>
  The squared length, in metres, of the offset between two points when measured with the
  generator's own scale factors (111000 metres per degree of latitude, 88000 per degree
  of longitude); for a jittered point and its centre it is \<open>radiusSquared\<close>.
\<close>

definition flatDistanceSquared :: "coordinate \<Rightarrow> coordinate \<Rightarrow> real" where
  "flatDistanceSquared p c = (111000 * (lat p - lat c))\<^sup>2 + (88000 * (lng p - lng c))\<^sup>2"

fun isPointInDistricts :: "coordinate \<Rightarrow> feature list \<Rightarrow> bool" where
  "isPointInDistricts point [] = False"
| "isPointInDistricts point (f # features) =
     (if pointInPolygon f point then True else isPointInDistricts point features)"

text \<open>
  The retry loop of \<open>generateValidPointNearAnchor\<close>, with the number of attempts left.
\<close>

fun jitterAttempts ::
  "random_source \<Rightarrow> feature list \<Rightarrow> coordinate \<Rightarrow> real \<Rightarrow> real \<Rightarrow> nat \<Rightarrow> nat \<Rightarrow> coordinate \<times> nat" where
  "jitterAttempts rnd districtGeoJSON anchor minRadius maxRadius 0 k = (anchor, k)"
| "jitterAttempts rnd districtGeoJSON anchor minRadius maxRadius (Suc n) k =
     (let (jitteredPoint, k') = generatePointNearLocation rnd k anchor minRadius maxRadius
      in if isPointInDistricts jitteredPoint districtGeoJSON then (jitteredPoint, k')
         else jitterAttempts rnd districtGeoJSON anchor minRadius maxRadius n k')"

text \<open>
  The anchor is the result of an array read and may be \<open>undefined\<close>; the default
  \<open>maxAttempts = 10\<close> is used at every call site, so the first attempt reads
  \<open>center.lat\<close> and throws a TypeError on an undefined anchor.
\<close>

definition generateValidPointNearAnchor ::
  "random_source \<Rightarrow> feature list \<Rightarrow> coordinate option \<Rightarrow> real \<Rightarrow> real \<Rightarrow> nat
     \<Rightarrow> error + (coordinate \<times> nat)" where
  "generateValidPointNearAnchor rnd districtGeoJSON anchor minRadius maxRadius k =
     (case anchor of
        None \<Rightarrow> Inl TypeError
      | Some a \<Rightarrow> Inr (jitterAttempts rnd districtGeoJSON a minRadius maxRadius 10 k))"

subsection \<open>Module state and the outside world of \<open>generateScenario\<close>\<close>

text \<open>
  The module-level caches.  A cache variable is tested for truthiness, and an array or
  an object is truthy even when empty, so \<open>Some\<close> stands for "assigned".
\<close>

record gen_state =
  cachedDistrictBoundaries :: "feature list option"
  cachedSubwayExitPOIs :: "coordinate list option"
  cachedBusStopPOIs :: "coordinate list option"

definition initialState :: gen_state where
  "initialState = \<lparr>cachedDistrictBoundaries = None, cachedSubwayExitPOIs = None,
                     cachedBusStopPOIs = None\<rparr>"

text \<open>
  What one call of \<open>generateScenario\<close> receives from outside: the random source, the
  outcome of downloading the Seoul district file (its \<open>features\<close>, or the error thrown),
  the outcomes of the three OverpassService queries (a list, possibly empty, or the error
  thrown after the last mirror failed), and the permutation that
  \<open>Array.prototype.sort\<close> with the comparator \<open>() => Math.random() - 0.5\<close> applies.
\<close>

record gen_env =
  mathRandom :: random_source
  seoulFeatures :: "error + feature list"
  fetchRedZonePOIs :: "error + RedZonePOI list"
  fetchCommercialAnchors :: "error + coordinate list"
  fetchResidentialAnchors :: "error + coordinate list"
  shuffleSort :: "scooter list \<Rightarrow> scooter list"

definition targetDistricts :: "string list" where
  "targetDistricts = [''Gangnam-gu'', ''Seocho-gu'', ''Songpa-gu'']"

definition fetchDistrictBoundaries ::
  "gen_env \<Rightarrow> gen_state \<Rightarrow> gen_state \<times> (error + feature list)" where
  "fetchDistrictBoundaries env st =
     (case cachedDistrictBoundaries st of
        Some cached \<Rightarrow> (st, Inr cached)
      | None \<Rightarrow>
          (case seoulFeatures env of
             Inl e \<Rightarrow> (st, Inl e)
           | Inr features \<Rightarrow>
               (let filteredFeatures = filter (\<lambda>f. name_eng f \<in> set targetDistricts) features
                in (st\<lparr>cachedDistrictBoundaries := Some filteredFeatures\<rparr>,
                    Inr filteredFeatures))))"

text \<open>Lines 84--117: the red-zone anchors, from the cache or fetched, filtered and split.\<close>

definition loadRedZonePOIs ::
  "gen_env \<Rightarrow> gen_state \<Rightarrow> feature list
     \<Rightarrow> gen_state \<times> (error + coordinate list \<times> coordinate list)" where
  "loadRedZonePOIs env st districtGeoJSON =
     (case (cachedSubwayExitPOIs st, cachedBusStopPOIs st) of
        (Some subwayExitPOIs, Some busStopPOIs) \<Rightarrow> (st, Inr (subwayExitPOIs, busStopPOIs))
      | _ \<Rightarrow>
          (case fetchRedZonePOIs env of
             Inl e \<Rightarrow> (st, Inl e)
           | Inr osmPOIs \<Rightarrow>
               (let validPOIs =
                      filter (\<lambda>poi. isPointInDistricts (poi_location poi) districtGeoJSON) osmPOIs;
                    subwayPOIs = filter (\<lambda>p. poi_type p = subway_exit) validPOIs;
                    busPOIs = filter (\<lambda>p. poi_type p = bus_stop) validPOIs;
                    subwayExitPOIs = map poi_location subwayPOIs;
                    busStopPOIs = map poi_location busPOIs
                in (st\<lparr>cachedSubwayExitPOIs := Some subwayExitPOIs,
                       cachedBusStopPOIs := Some busStopPOIs\<rparr>,
                    Inr (subwayExitPOIs, busStopPOIs)))))"

subsection \<open>The generation loops\<close>

text \<open>
  One loop of batch A (lines 150--162 and 165--177): \<open>i\<close> is the loop index, the next
  argument the number of iterations left.  Each iteration draws the anchor index, the
  jitter, and the battery level, in this order.
\<close>

fun highRiskNear ::
  "random_source \<Rightarrow> feature list \<Rightarrow> string \<Rightarrow> coordinate list \<Rightarrow> nat \<Rightarrow> nat \<Rightarrow> nat
     \<Rightarrow> error + (scooter list \<times> nat)" where
  "highRiskNear rnd districtGeoJSON prefix pois i 0 k = Inr ([], k)"
| "highRiskNear rnd districtGeoJSON prefix pois i (Suc n) k =
     (let selectedPOI = arrayGet pois \<lfloor>rnd k * real (length pois)\<rfloor>
      in case generateValidPointNearAnchor rnd districtGeoJSON selectedPOI 0
                RED_ZONE_RADIUS_METERS (k + 1) of
           Inl e \<Rightarrow> Inl e
         | Inr (loc, k') \<Rightarrow>
             (case highRiskNear rnd districtGeoJSON prefix pois (i + 1) n (k' + 1) of
                Inl e \<Rightarrow> Inl e
              | Inr (rest, k'') \<Rightarrow>
                  Inr (\<lparr>scooter_id = prefix @ toDecimal (i + 1), location = loc, state = C,
                        batteryLevel = \<lfloor>rnd k' * 50\<rfloor> + 20, service_time = 5,
                        score = TOWING_FINE\<rparr> # rest, k'')))"

text \<open>The loops of batch B that collect locations (lines 212--216 and 234--238).\<close>

fun locationsNear ::
  "random_source \<Rightarrow> feature list \<Rightarrow> coordinate list \<Rightarrow> real \<Rightarrow> real \<Rightarrow> nat \<Rightarrow> nat
     \<Rightarrow> error + (coordinate list \<times> nat)" where
  "locationsNear rnd districtGeoJSON anchors minRadius maxRadius 0 k = Inr ([], k)"
| "locationsNear rnd districtGeoJSON anchors minRadius maxRadius (Suc n) k =
     (let anchor = arrayGet anchors \<lfloor>rnd k * real (length anchors)\<rfloor>
      in case generateValidPointNearAnchor rnd districtGeoJSON anchor minRadius maxRadius
                (k + 1) of
           Inl e \<Rightarrow> Inl e
         | Inr (loc, k') \<Rightarrow>
             (case locationsNear rnd districtGeoJSON anchors minRadius maxRadius n k' of
                Inl e \<Rightarrow> Inl e
              | Inr (rest, k'') \<Rightarrow> Inr (loc # rest, k'')))"

text \<open>\<open>allLowBatteryLocations.map((location, i) => ...)\<close>, lines 245--252.\<close>

fun lowBatteryScooters :: "random_source \<Rightarrow> coordinate list \<Rightarrow> nat \<Rightarrow> nat \<Rightarrow> scooter list" where
  "lowBatteryScooters rnd [] i k = []"
| "lowBatteryScooters rnd (loc # locs) i k =
     \<lparr>scooter_id = ''S-LB-'' @ toDecimal (i + 1), location = loc, state = B,
      batteryLevel = \<lfloor>rnd k * 20\<rfloor>, service_time = 1, score = BATTERY_SWAP_REVENUE\<rparr>
     # lowBatteryScooters rnd locs (i + 1) (k + 1)"

text \<open>\<open>allScooters.forEach((scooter, i) => { scooter.id = `S-${i + 1}` })\<close>.\<close>

fun reassignIds :: "scooter list \<Rightarrow> nat \<Rightarrow> scooter list" where
  "reassignIds [] i = []"
| "reassignIds (s # ss) i = s\<lparr>scooter_id := ''S-'' @ toDecimal (i + 1)\<rparr> # reassignIds ss (i + 1)"

subsection \<open>\<open>generateScenario\<close>\<close>

text \<open>
  \<open>scenarioBatches\<close> is the body of \<open>generateScenario\<close> up to line 239: it returns the
  high-risk scooters of batch A, the commercial locations and the residential locations
  of batch B, and the number of random draws made.  An error thrown on the way leaves the
  caches as they were assigned before it.
\<close>

record batches =
  highRiskScooters :: "scooter list"
  commercialLocations :: "coordinate list"
  residentialLocations :: "coordinate list"
  draws :: nat

definition batchB ::
  "gen_env \<Rightarrow> feature list \<Rightarrow> int \<Rightarrow> scooter list \<Rightarrow> nat \<Rightarrow> error + batches" where
  "batchB env districtGeoJSON cnt highRisk k =
     (case fetchCommercialAnchors env of
        Inl e \<Rightarrow> Inl e
      | Inr commercialAnchors \<Rightarrow>
          (let filteredCommercialAnchors =
                 filter (\<lambda>a. isPointInDistricts a districtGeoJSON) commercialAnchors
           in case locationsNear (mathRandom env) districtGeoJSON filteredCommercialAnchors 15 30
                     (nat (countCommercial cnt)) k of
                Inl e \<Rightarrow> Inl e
              | Inr (commercial, k1) \<Rightarrow>
                  (case fetchResidentialAnchors env of
                     Inl e \<Rightarrow> Inl e
                   | Inr residentialAnchors \<Rightarrow>
                       (let filteredResidentialAnchors =
                              filter (\<lambda>a. isPointInDistricts a districtGeoJSON) residentialAnchors
                        in case locationsNear (mathRandom env) districtGeoJSON
                                  filteredResidentialAnchors 20 40
                                  (nat (countResidential cnt)) k1 of
                             Inl e \<Rightarrow> Inl e
                           | Inr (residential, k2) \<Rightarrow>
                               Inr \<lparr>highRiskScooters = highRisk,
                                    commercialLocations = commercial,
                                    residentialLocations = residential, draws = k2\<rparr>))))"

definition batchA ::
  "gen_env \<Rightarrow> feature list \<Rightarrow> int \<Rightarrow> coordinate list \<Rightarrow> coordinate list
     \<Rightarrow> error + (scooter list \<times> nat)" where
  "batchA env districtGeoJSON cnt subwayExitPOIs busStopPOIs =
     (case highRiskNear (mathRandom env) districtGeoJSON ''S-HR-SUB-'' subwayExitPOIs 0
             (nat (countNearSubway cnt)) 0 of
        Inl e \<Rightarrow> Inl e
      | Inr (nearSubway, k1) \<Rightarrow>
          (case highRiskNear (mathRandom env) districtGeoJSON ''S-HR-BUS-'' busStopPOIs 0
                  (nat (countNearBusStop cnt)) k1 of
             Inl e \<Rightarrow> Inl e
           | Inr (nearBus, k2) \<Rightarrow> Inr (nearSubway @ nearBus, k2)))"

definition scenarioBatches :: "gen_env \<Rightarrow> gen_state \<Rightarrow> int \<Rightarrow> gen_state \<times> (error + batches)" where
  "scenarioBatches env st cnt =
     (case fetchDistrictBoundaries env st of
        (st1, Inl e) \<Rightarrow> (st1, Inl e)
      | (st1, Inr districtGeoJSON) \<Rightarrow>
          (case loadRedZonePOIs env st1 districtGeoJSON of
             (st2, Inl e) \<Rightarrow> (st2, Inl e)
           | (st2, Inr (subwayExitPOIs, busStopPOIs)) \<Rightarrow>
               (case batchA env districtGeoJSON cnt subwayExitPOIs busStopPOIs of
                  Inl e \<Rightarrow> (st2, Inl e)
                | Inr (highRisk, k) \<Rightarrow> (st2, batchB env districtGeoJSON cnt highRisk k))))"

text \<open>Lines 242--286: build the low-battery scooters, combine, shuffle, renumber.\<close>

definition assemble :: "gen_env \<Rightarrow> batches \<Rightarrow> scooter list" where
  "assemble env b =
     (let allLowBatteryLocations = commercialLocations b @ residentialLocations b;
          lowBattery = lowBatteryScooters (mathRandom env) allLowBatteryLocations 0 (draws b);
          allScooters = highRiskScooters b @ lowBattery
      in reassignIds (shuffleSort env allScooters) 0)"

definition generateScenario ::
  "gen_env \<Rightarrow> gen_state \<Rightarrow> int \<Rightarrow> gen_state \<times> (error + scooter list)" where
  "generateScenario env st cnt =
     (case scenarioBatches env st cnt of
        (st', Inl e) \<Rightarrow> (st', Inl e)
      | (st', Inr b) \<Rightarrow> (st', Inr (assemble env b)))"

text \<open>
  The invariant of the caches: the red-zone anchors are cached together, only after the
  district boundaries, and every cached anchor lies inside the cached boundaries.
\<close>

definition cache_ok :: "gen_state \<Rightarrow> bool" where
  "cache_ok st =
     (case (cachedSubwayExitPOIs st, cachedBusStopPOIs st) of
        (None, None) \<Rightarrow> True
      | (Some subwayExitPOIs, Some busStopPOIs) \<Rightarrow>
          (case cachedDistrictBoundaries st of
             None \<Rightarrow> False
           | Some g \<Rightarrow> list_all (\<lambda>p. isPointInDistricts p g) (subwayExitPOIs @ busStopPOIs))
      | _ \<Rightarrow> False)"

section \<open>Example inputs\<close>

text \<open>
  A small world used to instantiate the theorems below: the district file holds one
  district of interest (a box around Gangnam) and one other district; there is one anchor
  of each kind; \<open>Math.random()\<close> always returns 0; sorting reverses the array.
\<close>

definition exampleGangnam :: feature where
  "exampleGangnam = \<lparr>name_eng = ''Gangnam-gu'',
      pointInPolygon = (\<lambda>p. 37.42 \<le> lat p \<and> lat p \<le> 37.55 \<and> 126.90 \<le> lng p \<and> lng p \<le> 127.18)\<rparr>"

definition exampleJongno :: feature where
  "exampleJongno = \<lparr>name_eng = ''Jongno-gu'',
      pointInPolygon = (\<lambda>p. 37.56 \<le> lat p \<and> lat p \<le> 37.63 \<and> 126.95 \<le> lng p \<and> lng p \<le> 127.02)\<rparr>"

definition exampleSubwayExit :: coordinate where
  "exampleSubwayExit = \<lparr>lng = 127.0276, lat = 37.4979\<rparr>"

definition exampleBusStop :: coordinate where
  "exampleBusStop = \<lparr>lng = 127.03, lat = 37.5\<rparr>"

definition exampleShop :: coordinate where
  "exampleShop = \<lparr>lng = 127.04, lat = 37.51\<rparr>"

definition exampleAlley :: coordinate where
  "exampleAlley = \<lparr>lng = 127.05, lat = 37.49\<rparr>"

definition exampleEnv :: gen_env where
  "exampleEnv = \<lparr>mathRandom = (\<lambda>k. 0),
      seoulFeatures = Inr [exampleJongno, exampleGangnam],
      fetchRedZonePOIs = Inr [\<lparr>poi_location = exampleSubwayExit, poi_name = ''Subway Exit'',
                                poi_type = subway_exit\<rparr>,
                              \<lparr>poi_location = exampleBusStop, poi_name = ''Bus Stop'',
                                poi_type = bus_stop\<rparr>],
      fetchCommercialAnchors = Inr [exampleShop],
      fetchResidentialAnchors = Inr [exampleAlley],
      shuffleSort = rev\<rparr>"

text \<open>
  The same world with a single red-zone anchor, the subway exit, and a random source
  whose third draw (the radius draw of the first jitter attempt) is \<open>1/4\<close>.
\<close>

definition quarterDrawEnv :: gen_env where
  "quarterDrawEnv = exampleEnv\<lparr>
      mathRandom := (\<lambda>k. if k = 2 then 1 / 4 else 0),
      fetchRedZonePOIs := Inr [\<lparr>poi_location = exampleSubwayExit, poi_name = ''Subway Exit'',
                                 poi_type = subway_exit\<rparr>]\<rparr>"

definition quarterDrawPoint :: coordinate where
  "quarterDrawPoint = \<lparr>lng = 127.0276, lat = 37.4979 + 10 / 111000\<rparr>"

section \<open>JavaScript numbers\<close>

text \<open>
  A number of the program is a real number, one of the two infinities, or \<open>NaN\<close>.  Finite
  results are computed exactly: rounding to double precision and overflow are not
  modelled, and the two zeros are one (a zero divisor counts as \<open>+0\<close>).
\<close>

datatype number = Num real | PosInf | NegInf | NaN

definition numNeg :: "number \<Rightarrow> number" where
  "numNeg x = (case x of Num a \<Rightarrow> Num (- a) | PosInf \<Rightarrow> NegInf | NegInf \<Rightarrow> PosInf | NaN \<Rightarrow> NaN)"

fun numAdd :: "number \<Rightarrow> number \<Rightarrow> number" where
  "numAdd (Num a) (Num b) = Num (a + b)"
| "numAdd NaN y = NaN"
| "numAdd x NaN = NaN"
| "numAdd PosInf NegInf = NaN"
| "numAdd NegInf PosInf = NaN"
| "numAdd PosInf y = PosInf"
| "numAdd NegInf y = NegInf"
| "numAdd (Num a) y = y"

definition numSub :: "number \<Rightarrow> number \<Rightarrow> number" where
  "numSub x y = numAdd x (numNeg y)"

fun numMul :: "number \<Rightarrow> number \<Rightarrow> number" where
  "numMul (Num a) (Num b) = Num (a * b)"
| "numMul NaN y = NaN"
| "numMul x NaN = NaN"
| "numMul (Num a) y = (if a = 0 then NaN else if 0 < a then y else numNeg y)"
| "numMul x (Num b) = (if b = 0 then NaN else if 0 < b then x else numNeg x)"
| "numMul x y = (if x = y then PosInf else NegInf)"

fun numDiv :: "number \<Rightarrow> number \<Rightarrow> number" where
  "numDiv (Num a) (Num b) =
     (if b \<noteq> 0 then Num (a / b)
      else if a = 0 then NaN else if 0 < a then PosInf else NegInf)"
| "numDiv NaN y = NaN"
| "numDiv x NaN = NaN"
| "numDiv (Num a) y = Num 0"
| "numDiv x (Num b) = (if 0 \<le> b then x else numNeg x)"
| "numDiv x y = NaN"

text \<open>\<open>x === y\<close> on numbers: \<open>NaN\<close> equals nothing, itself included.\<close>

definition strictEquals :: "number \<Rightarrow> number \<Rightarrow> bool" where
  "strictEquals x y = (x \<noteq> NaN \<and> y \<noteq> NaN \<and> x = y)"

text \<open>\<open>x || 0\<close> on numbers: \<open>0\<close> and \<open>NaN\<close> are falsy.\<close>

definition orZero :: "number \<Rightarrow> number" where
  "orZero x = (if x = NaN \<or> x = Num 0 then Num 0 else x)"

text \<open>
  \<open>Math.round\<close> rounds to the nearest integer, a tie going up: \<open>\<lfloor>x + 1/2\<rfloor>\<close>, which is
  HOL's \<open>round\<close>.  It leaves the infinities and \<open>NaN\<close> as they are.
\<close>

definition mathRound :: "number \<Rightarrow> number" where
  "mathRound x = (case x of Num a \<Rightarrow> Num (real_of_int (round a)) | _ \<Rightarrow> x)"

definition mathSqrt :: "number \<Rightarrow> number" where
  "mathSqrt x =
     (case x of
        Num a \<Rightarrow> if a < 0 then NaN else Num (sqrt a)
      | PosInf \<Rightarrow> PosInf
      | _ \<Rightarrow> NaN)"

text \<open>\<open>Math.atan2(y, x)\<close> on real arguments.\<close>

definition atan2 :: "real \<Rightarrow> real \<Rightarrow> real" where
  "atan2 y x =
     (if 0 < x then arctan (y / x)
      else if x < 0 then (if 0 \<le> y then arctan (y / x) + pi else arctan (y / x) - pi)
      else if 0 < y then pi / 2
      else if y < 0 then - (pi / 2)
      else 0)"

fun mathAtan2 :: "number \<Rightarrow> number \<Rightarrow> number" where
  "mathAtan2 (Num b) (Num a) = Num (atan2 b a)"
| "mathAtan2 NaN x = NaN"
| "mathAtan2 y NaN = NaN"
| "mathAtan2 (Num b) PosInf = Num 0"
| "mathAtan2 (Num b) NegInf = Num (if 0 \<le> b then pi else - pi)"
| "mathAtan2 PosInf (Num a) = Num (pi / 2)"
| "mathAtan2 NegInf (Num a) = Num (- (pi / 2))"
| "mathAtan2 PosInf PosInf = Num (pi / 4)"
| "mathAtan2 PosInf NegInf = Num (3 * pi / 4)"
| "mathAtan2 NegInf PosInf = Num (- (pi / 4))"
| "mathAtan2 NegInf NegInf = Num (- (3 * pi / 4))"

definition isInteger :: "number \<Rightarrow> bool" where
  "isInteger x = (case x of Num a \<Rightarrow> a \<in> \<int> | _ \<Rightarrow> False)"

text \<open>
  \<open>Math.sin\<close> and \<open>Math.cos\<close> are the engine's: the language leaves their precision to
  the implementation, and a double-precision result is a rounded one.  They are
  parameters; \<open>exactMath\<close> is the library without rounding.
\<close>

record math_lib =
  Math_sin :: "real \<Rightarrow> real"
  Math_cos :: "real \<Rightarrow> real"

definition exactMath :: math_lib where
  "exactMath = \<lparr>Math_sin = sin, Math_cos = cos\<rparr>"

section \<open>api.ts: distance and duration matrices\<close>

subsection \<open>\<open>haversineDistance\<close>\<close>

text \<open>
  The coordinates are finite numbers.  \<open>Math.sqrt\<close> of a negative number is \<open>NaN\<close>, which
  \<open>Math.atan2\<close> and the two products hand on: that is the result when the library's
  rounding carries \<open>a\<close> outside \<open>[0, 1]\<close>.
\<close>

definition toRad :: "real \<Rightarrow> real" where
  "toRad deg = (deg * pi) / 180"

definition haversine_a :: "math_lib \<Rightarrow> coordinate \<Rightarrow> coordinate \<Rightarrow> real" where
  "haversine_a m coord1 coord2 =
     (let dLat = toRad (lat coord2 - lat coord1);
          dLng = toRad (lng coord2 - lng coord1)
      in Math_sin m (dLat / 2) * Math_sin m (dLat / 2)
         + Math_cos m (toRad (lat coord1)) * Math_cos m (toRad (lat coord2))
           * Math_sin m (dLng / 2) * Math_sin m (dLng / 2))"

definition haversineDistance :: "math_lib \<Rightarrow> coordinate \<Rightarrow> coordinate \<Rightarrow> number" where
  "haversineDistance m coord1 coord2 =
     (let R = 6371000;
          a = haversine_a m coord1 coord2;
          c = numMul (Num 2) (mathAtan2 (mathSqrt (Num a)) (mathSqrt (Num (1 - a))))
      in numMul (Num R) c)"

subsection \<open>\<open>calculateEuclideanMatrices\<close>\<close>

type_synonym matrix = "number list list"

definition avgSpeedMps :: real where
  "avgSpeedMps = (30 * 1000) / 3600"

text \<open>
  \<open>m[i][j] = v\<close>; every write of the loops below is inside the \<open>n \<times> n\<close> arrays.
\<close>

definition setEntry :: "matrix \<Rightarrow> nat \<Rightarrow> nat \<Rightarrow> number \<Rightarrow> matrix" where
  "setEntry m i j v = m[i := (m ! i)[j := v]]"

text \<open>The two values that the loop body writes at \<open>[i][j]\<close>, lines 191--198.\<close>

definition matrixEntry :: "math_lib \<Rightarrow> coordinate list \<Rightarrow> nat \<Rightarrow> nat \<Rightarrow> number \<times> number" where
  "matrixEntry m locations i j =
     (if i = j then (Num 0, Num 0)
      else (let dist = haversineDistance m (locations ! i) (locations ! j)
            in (dist, numDiv dist (Num avgSpeedMps))))"

text \<open>The loop over \<open>j\<close> and the loop over \<open>i\<close>, each given the indices still to visit.\<close>

fun innerLoop ::
  "math_lib \<Rightarrow> coordinate list \<Rightarrow> nat \<Rightarrow> nat list \<Rightarrow> matrix \<times> matrix
     \<Rightarrow> matrix \<times> matrix" where
  "innerLoop m locations i [] acc = acc"
| "innerLoop m locations i (j # js) (distanceMatrix, durationMatrix) =
     innerLoop m locations i js
       (setEntry distanceMatrix i j (fst (matrixEntry m locations i j)),
        setEntry durationMatrix i j (snd (matrixEntry m locations i j)))"

fun outerLoop ::
  "math_lib \<Rightarrow> coordinate list \<Rightarrow> nat list \<Rightarrow> nat list \<Rightarrow> matrix \<times> matrix
     \<Rightarrow> matrix \<times> matrix" where
  "outerLoop m locations [] js acc = acc"
| "outerLoop m locations (i # is) js acc =
     outerLoop m locations is js (innerLoop m locations i js acc)"

definition calculateEuclideanMatrices :: "math_lib \<Rightarrow> coordinate list \<Rightarrow> matrix \<times> matrix" where
  "calculateEuclideanMatrices m locations =
     (let n = length locations;
          distanceMatrix = replicate n (replicate n (Num 0));
          durationMatrix = replicate n (replicate n (Num 0))
      in outerLoop m locations [0..<n] [0..<n] (distanceMatrix, durationMatrix))"

text \<open>A matrix with \<open>n\<close> rows of length \<open>n\<close>.\<close>

definition shaped :: "nat \<Rightarrow> matrix \<Rightarrow> bool" where
  "shaped n m = (length m = n \<and> list_all (\<lambda>r. length r = n) m)"

subsection \<open>JSON values of the matrix service's response\<close>

text \<open>
  The value that \<open>response.json()\<close> delivers, or a part of it.  A number of the text that
  is too large for a double, \<open>1e400\<close> say, is read as \<open>Infinity\<close>; nothing is read as
  \<open>NaN\<close>.
\<close>

datatype json =
    JUndefined
  | JNull
  | JBool bool
  | JNumber number
  | JString string
  | JArray "json list"
  | JObject "(string \<times> json) list"

text \<open>
  \<open>x.name\<close>: a TypeError on \<open>undefined\<close> and \<open>null\<close>; an object's member (the last one,
  should the text repeat a key); \<open>undefined\<close> for every other value, none of the names
  read by the code being a built-in property.  \<open>x?.name\<close> is \<open>undefined\<close> instead of
  the TypeError.
\<close>

definition getProp :: "json \<Rightarrow> string \<Rightarrow> error + json" where
  "getProp x name =
     (case x of
        JUndefined \<Rightarrow> Inl TypeError
      | JNull \<Rightarrow> Inl TypeError
      | JObject members \<Rightarrow>
          (case map_of (rev members) name of None \<Rightarrow> Inr JUndefined | Some v \<Rightarrow> Inr v)
      | _ \<Rightarrow> Inr JUndefined)"

definition optProp :: "json \<Rightarrow> string \<Rightarrow> json" where
  "optProp x name = (case getProp x name of Inl e \<Rightarrow> JUndefined | Inr v \<Rightarrow> v)"

definition truthy :: "json \<Rightarrow> bool" where
  "truthy x =
     (case x of
        JUndefined \<Rightarrow> False
      | JNull \<Rightarrow> False
      | JBool b \<Rightarrow> b
      | JNumber r \<Rightarrow> r \<noteq> Num 0 \<and> r \<noteq> NaN
      | JString s \<Rightarrow> s \<noteq> []
      | _ \<Rightarrow> True)"

text \<open>\<open>x.map(f)\<close> where \<open>f\<close> may throw: a TypeError unless \<open>x\<close> is an array.\<close>

fun mapE :: "('a \<Rightarrow> error + 'b) \<Rightarrow> 'a list \<Rightarrow> error + 'b list" where
  "mapE f [] = Inr []"
| "mapE f (x # xs) =
     (case f x of
        Inl e \<Rightarrow> Inl e
      | Inr y \<Rightarrow> (case mapE f xs of Inl e \<Rightarrow> Inl e | Inr ys \<Rightarrow> Inr (y # ys)))"

definition jsMap :: "(json \<Rightarrow> error + 'b) \<Rightarrow> json \<Rightarrow> error + 'b list" where
  "jsMap f x = (case x of JArray xs \<Rightarrow> mapE f xs | _ \<Rightarrow> Inl TypeError)"

text \<open>
  \<open>data.rows.map(row => row.elements.map(el => el.<field>.value))\<close>, lines 124--125.
\<close>

definition rowsMatrix :: "string \<Rightarrow> json \<Rightarrow> error + json" where
  "rowsMatrix field rows =
     (case jsMap (\<lambda>row.
              case getProp row ''elements'' of
                Inl e \<Rightarrow> Inl e
              | Inr elements \<Rightarrow>
                  (case jsMap (\<lambda>el. case getProp el field of
                                      Inl e \<Rightarrow> Inl e
                                    | Inr d \<Rightarrow> getProp d ''value'') elements of
                     Inl e \<Rightarrow> Inl e
                   | Inr vals \<Rightarrow> Inr (JArray vals))) rows of
        Inl e \<Rightarrow> Inl e
      | Inr rs \<Rightarrow> Inr (JArray rs))"

text \<open>
  Lines 118--138: the five recognised response shapes, tried in order.  The result is the
  pair of variables \<open>distanceMatrix\<close>, \<open>durationMatrix\<close>, either of which may be
  \<open>undefined\<close>.
\<close>

definition extractMatrices :: "json \<Rightarrow> error + (json \<times> json)" where
  "extractMatrices data =
     (if truthy (optProp data ''rows'') then
        (case rowsMatrix ''distance'' (optProp data ''rows'') of
           Inl e \<Rightarrow> Inl e
         | Inr dm \<Rightarrow>
             (case rowsMatrix ''duration'' (optProp data ''rows'') of
                Inl e \<Rightarrow> Inl e
              | Inr tm \<Rightarrow> Inr (dm, tm)))
      else if truthy (optProp (optProp data ''route'') ''distance_matrix'') then
        Inr (optProp (optProp data ''route'') ''distance_matrix'',
             optProp (optProp data ''route'') ''duration_matrix'')
      else if truthy (optProp data ''distance_matrix'') then
        Inr (optProp data ''distance_matrix'', optProp data ''duration_matrix'')
      else if truthy (optProp (optProp data ''result'') ''distance_matrix'') then
        Inr (optProp (optProp data ''result'') ''distance_matrix'',
             optProp (optProp data ''result'') ''duration_matrix'')
      else if truthy (optProp data ''distanceMatrix'') then
        Inr (optProp data ''distanceMatrix'', optProp data ''durationMatrix'')
      else Inr (JUndefined, JUndefined))"

text \<open>
  \<open>Math.round(Number(val) || 0)\<close>.  \<open>Number\<close> of a number is the number, of \<open>null\<close> and
  \<open>false\<close> it is 0, of \<open>true\<close> 1, of \<open>undefined\<close> \<open>NaN\<close>.  Its value on strings, arrays
  and objects (string-to-number parsing) is left to the parameter \<open>coerce\<close>.
\<close>

definition toNumber :: "(json \<Rightarrow> number) \<Rightarrow> json \<Rightarrow> number" where
  "toNumber coerce val =
     (case val of
        JNumber r \<Rightarrow> r
      | JUndefined \<Rightarrow> NaN
      | JNull \<Rightarrow> Num 0
      | JBool b \<Rightarrow> Num (if b then 1 else 0)
      | _ \<Rightarrow> coerce val)"

definition roundOrZero :: "(json \<Rightarrow> number) \<Rightarrow> json \<Rightarrow> number" where
  "roundOrZero coerce val = mathRound (orZero (toNumber coerce val))"

text \<open>Lines 146--151: \<open>m.map(row => Array.isArray(row) ? row.map(...) : [])\<close>.\<close>

definition intMatrix :: "(json \<Rightarrow> number) \<Rightarrow> json list \<Rightarrow> matrix" where
  "intMatrix coerce rows =
     map (\<lambda>row. case row of JArray vals \<Rightarrow> map (roundOrZero coerce) vals | _ \<Rightarrow> []) rows"

subsection \<open>\<open>getDistanceMatrix\<close>\<close>

text \<open>
  What \<open>fetch\<close> of the matrix endpoint followed by \<open>response.json()\<close> can do: reject,
  answer with a non-ok status, answer with a body that is not JSON, or deliver a value.
\<close>

datatype http_result = Rejected | NotOk | BodyNotJson | Body json

record matrix_env =
  INAVI_API_KEY :: "string option"
  inaviDistanceMatrix :: "coordinate list \<Rightarrow> http_result"
  coerceNumber :: "json \<Rightarrow> number"
  mathLib :: math_lib

text \<open>
  The validation of lines 141--143:
  \<open>distanceMatrix && durationMatrix && Array.isArray(distanceMatrix) &&
  distanceMatrix.length > 0 && Array.isArray(durationMatrix) && durationMatrix.length > 0\<close>.
\<close>

definition isArray :: "json \<Rightarrow> bool" where
  "isArray x = (case x of JArray xs \<Rightarrow> True | _ \<Rightarrow> False)"

definition elements :: "json \<Rightarrow> json list" where
  "elements x = (case x of JArray xs \<Rightarrow> xs | _ \<Rightarrow> [])"

definition validMatrices :: "json \<Rightarrow> json \<Rightarrow> bool" where
  "validMatrices distanceMatrix durationMatrix =
     (truthy distanceMatrix \<and> truthy durationMatrix
      \<and> isArray distanceMatrix \<and> 0 < length (elements distanceMatrix)
      \<and> isArray durationMatrix \<and> 0 < length (elements durationMatrix))"

text \<open>
  What the claims call a well-formed matrix for \<open>n\<close> locations: an array of \<open>n\<close> rows,
  each an array of \<open>n\<close> numbers.  The code does not test it.
\<close>

definition isNumber :: "json \<Rightarrow> bool" where
  "isNumber x = (case x of JNumber r \<Rightarrow> True | _ \<Rightarrow> False)"

definition wellFormedMatrix :: "nat \<Rightarrow> json \<Rightarrow> bool" where
  "wellFormedMatrix n x =
     (isArray x \<and> length (elements x) = n
      \<and> list_all (\<lambda>row. isArray row \<and> length (elements row) = n
                          \<and> list_all isNumber (elements row)) (elements x))"

text \<open>
  The outcome of the \<open>try\<close> block, lines 85--160: \<open>Inl\<close> is an exception that reaches
  the \<open>catch\<close>, \<open>Inr None\<close> a \<open>return calculateEuclideanMatrices(locations)\<close> inside the
  block, \<open>Inr (Some m)\<close> the return of the rounded remote matrices.
\<close>

definition tryInavi :: "matrix_env \<Rightarrow> coordinate list \<Rightarrow> error + (matrix \<times> matrix) option" where
  "tryInavi env locations =
     (case inaviDistanceMatrix env locations of
        Rejected \<Rightarrow> Inl FetchError
      | NotOk \<Rightarrow> Inr None
      | BodyNotJson \<Rightarrow> Inl FetchError
      | Body data \<Rightarrow>
          (case extractMatrices data of
             Inl e \<Rightarrow> Inl e
           | Inr (distanceMatrix, durationMatrix) \<Rightarrow>
               (if validMatrices distanceMatrix durationMatrix
                then Inr (Some (intMatrix (coerceNumber env) (elements distanceMatrix),
                                intMatrix (coerceNumber env) (elements durationMatrix)))
                else Inr None)))"

text \<open>
  \<open>getDistanceMatrix\<close> returns the list of requests it sent to the matrix service and
  its result; \<open>Inl\<close> would be a rejected promise.  The key is used when truthy, that is
  when it is a non-empty string.
\<close>

definition getDistanceMatrix ::
  "matrix_env \<Rightarrow> coordinate list \<Rightarrow> coordinate list list \<times> (error + matrix \<times> matrix)" where
  "getDistanceMatrix env locations =
     (if length locations < 3 then ([], Inr (calculateEuclideanMatrices (mathLib env) locations))
      else (case INAVI_API_KEY env of
              Some (c # cs) \<Rightarrow>
                ([locations],
                 (case tryInavi env locations of
                    Inl e \<Rightarrow> Inr (calculateEuclideanMatrices (mathLib env) locations)
                  | Inr None \<Rightarrow> Inr (calculateEuclideanMatrices (mathLib env) locations)
                  | Inr (Some m) \<Rightarrow> Inr m))
            | _ \<Rightarrow> ([], Inr (calculateEuclideanMatrices (mathLib env) locations))))"

section \<open>api.ts: request, response, degraded mode\<close>

text \<open>
  \<open>api.ts\<close> reads a \<open>penaltyValue\<close> (the monetary value of the visit) from every scooter.
  The objects that \<open>generateScenario\<close> of \<open>ScenarioGenerator.ts\<close> builds have no such
  property, nor has the declared \<open>Scooter\<close> type; the other copy of the generator in the
  repository sets it.  \<open>None\<close> is the absent property, which reads as \<open>undefined\<close>;
  \<open>fromGenerator\<close> is a scooter of \<open>generateScenario\<close> as \<open>solveVrp\<close> receives it.
\<close>

record vrp_scooter = scooter +
  penaltyValue :: "number option"

definition fromGenerator :: "scooter \<Rightarrow> vrp_scooter" where
  "fromGenerator s =
     \<lparr>scooter_id = scooter_id s, location = location s, state = state s,
      batteryLevel = batteryLevel s, service_time = service_time s, score = score s,
      penaltyValue = None\<rparr>"

text \<open>\<open>s.penaltyValue\<close> as an operand of \<open>+\<close> or \<open>-\<close>: \<open>undefined\<close> becomes \<open>NaN\<close>.\<close>

definition penaltyOf :: "vrp_scooter \<Rightarrow> number" where
  "penaltyOf s = (case penaltyValue s of None \<Rightarrow> NaN | Some v \<Rightarrow> v)"

record Hub =
  hub_id :: string
  hub_location :: coordinate
  hub_name :: string

record OptimizedRoute =
  vehicleId :: string
  path :: "coordinate list"
  roadGeometry :: "coordinate list list option"
  color :: string
  distance :: number
  duration :: number
  scootersCollected :: nat
  totalScore :: number
  revenueCollected :: number
  finesAvoided :: number
  highRiskCollected :: nat
  lowBatteryCollected :: nat

definition MOCK_COLORS :: "string list" where
  "MOCK_COLORS = [''#3b82f6'', ''#ef4444'', ''#22c55e'', ''#f97316'']"

subsection \<open>\<open>buildVrpRequest\<close>\<close>

record VrpVisit =
  visit_name :: string
  visit_coordinate :: coordinate
  volume :: real
  visit_service_time :: int
  unassigned_penalty :: "number option"

record VrpVehicle =
  vehicle_name :: string
  volume_capacity :: int
  vehicle_type :: string
  work_start_time :: string
  work_end_time :: string

record OmeletVrpRequest =
  depot_name :: string
  depot_coordinate :: coordinate
  visits :: "VrpVisit list"
  vehicles :: "VrpVehicle list"
  distance_matrix :: matrix
  duration_matrix :: matrix
  delivery_start_time :: string
  option_timelimit :: int
  option_allow_unassigned_visits :: bool
  option_distance_type :: string

text \<open>
  \<open>startTime\<close> and \<open>endTime\<close> (09:00 today and two hours later, as ISO strings) come
  from the clock and are parameters.
\<close>

definition buildVrpRequest ::
  "string \<Rightarrow> string \<Rightarrow> vrp_scooter list \<Rightarrow> Hub \<Rightarrow> nat \<Rightarrow> matrix \<Rightarrow> matrix \<Rightarrow> OmeletVrpRequest" where
  "buildVrpRequest startTime endTime scooters hub truckCount distanceMatrix durationMatrix =
     (let intDistanceMatrix = map (\<lambda>row. map (\<lambda>val. mathRound val) row) distanceMatrix;
          intDurationMatrix = map (\<lambda>row. map (\<lambda>val. mathRound val) row) durationMatrix
      in \<lparr>depot_name = hub_name hub,
          depot_coordinate = hub_location hub,
          visits = map (\<lambda>s. \<lparr>visit_name = scooter_id s, visit_coordinate = location s,
                               volume = (if state s = C then 0 else 1),
                               visit_service_time = service_time s,
                               unassigned_penalty = penaltyValue s\<rparr>) scooters,
          vehicles = map (\<lambda>i. \<lparr>vehicle_name = ''Truck-'' @ toDecimal (i + 1),
                                 volume_capacity = 20, vehicle_type = ''car'',
                                 work_start_time = startTime, work_end_time = endTime\<rparr>)
                         [0..<truckCount],
          distance_matrix = intDistanceMatrix,
          duration_matrix = intDurationMatrix,
          delivery_start_time = startTime,
          option_timelimit = 30,
          option_allow_unassigned_visits = True,
          option_distance_type = ''osrm''\<rparr>)"

subsection \<open>\<open>parseVrpResponseWithGeometry\<close>\<close>

record OmeletRoute =
  route_vehicle_name :: string
  route_name :: "string list"

record OmeletVrpResponse =
  routes :: "OmeletRoute list"
  unassigned_visit_names :: "string list"
  status :: string

text \<open>
  \<open>fetchRoadGeometry\<close> catches every failure of the route-time request; the parameter
  gives the coordinates extracted from the response, or the failure.
\<close>

definition fetchRoadGeometry ::
  "(coordinate \<Rightarrow> coordinate \<Rightarrow> error + coordinate list) \<Rightarrow> coordinate \<Rightarrow> coordinate
     \<Rightarrow> coordinate list" where
  "fetchRoadGeometry routeTime from to =
     (case routeTime from to of
        Inl e \<Rightarrow> [from, to]
      | Inr coords \<Rightarrow> if 0 < length coords then coords else [from, to])"

text \<open>
  \<open>nameToIndex\<close> is a plain object: the hub's name maps to 0, then each scooter id to its
  index plus one, a later entry replacing an earlier one with the same key.  Reading it
  at a name that is not a key gives \<open>undefined\<close>, unless the name is a member of
  \<open>Object.prototype\<close>, which every plain object inherits: then the value is that member,
  a function or an object.
\<close>

datatype index_lookup = Undefined | Index nat | Inherited

definition objectPrototypeNames :: "string list" where
  "objectPrototypeNames =
     [''constructor'', ''hasOwnProperty'', ''isPrototypeOf'', ''propertyIsEnumerable'',
      ''toLocaleString'', ''toString'', ''valueOf'', ''__proto__'',
      ''__defineGetter__'', ''__defineSetter__'', ''__lookupGetter__'', ''__lookupSetter__'']"

definition ownIndex :: "Hub \<Rightarrow> vrp_scooter list \<Rightarrow> string \<Rightarrow> nat option" where
  "ownIndex hub scooters =
     foldl (\<lambda>acc (s, idx). acc(scooter_id s \<mapsto> idx + 1))
           (Map.empty(hub_name hub \<mapsto> 0))
           (zip scooters [0..<length scooters])"

definition nameToIndex :: "Hub \<Rightarrow> vrp_scooter list \<Rightarrow> string \<Rightarrow> index_lookup" where
  "nameToIndex hub scooters name =
     (case ownIndex hub scooters name of
        Some i \<Rightarrow> Index i
      | None \<Rightarrow> if name \<in> set objectPrototypeNames then Inherited else Undefined)"

text \<open>
  \<open>row[toIdx] || 0\<close> for a row that exists: an index outside the row and an inherited
  member used as index both read \<open>undefined\<close>.
\<close>

definition entryOrZero :: "number list \<Rightarrow> index_lookup \<Rightarrow> number" where
  "entryOrZero row idx =
     (case idx of
        Index j \<Rightarrow> if j < length row then orZero (row ! j) else Num 0
      | _ \<Rightarrow> Num 0)"

text \<open>The local variables of the statistics loop, lines 378--385.\<close>

record route_stats =
  totalDistance :: number
  totalDuration :: number
  totalScore' :: number
  revenueCollected' :: number
  finesAvoided' :: number
  highRiskCollected' :: nat
  lowBatteryCollected' :: nat
  visitedScooters :: nat

definition noStats :: route_stats where
  "noStats = \<lparr>totalDistance = Num 0, totalDuration = Num 0, totalScore' = Num 0,
              revenueCollected' = Num 0, finesAvoided' = Num 0, highRiskCollected' = 0,
              lowBatteryCollected' = 0, visitedScooters = 0\<rparr>"

text \<open>
  Lines 391--397 of one iteration.  \<open>distanceMatrix[fromIdx]\<close> is a row when \<open>fromIdx\<close> is
  a number below the number of rows, and \<open>undefined\<close> otherwise, also for an inherited
  member.  When that row exists but \<open>durationMatrix[fromIdx]\<close> does not, reading
  \<open>durationMatrix[fromIdx][toIdx]\<close> throws.
\<close>

definition addTravel ::
  "matrix \<Rightarrow> matrix \<Rightarrow> index_lookup \<Rightarrow> index_lookup \<Rightarrow> route_stats \<Rightarrow> error + route_stats" where
  "addTravel distanceMatrix durationMatrix fromIdx toIdx acc =
     (if fromIdx \<noteq> Undefined \<and> toIdx \<noteq> Undefined then
        (case fromIdx of
           Index f \<Rightarrow>
             (if f < length distanceMatrix then
                (if f < length durationMatrix then
                   Inr (acc\<lparr>totalDistance :=
                              numAdd (totalDistance acc) (entryOrZero (distanceMatrix ! f) toIdx),
                            totalDuration :=
                              numAdd (totalDuration acc) (entryOrZero (durationMatrix ! f) toIdx)\<rparr>)
                 else Inl TypeError)
              else Inr acc)
         | _ \<Rightarrow> Inr acc)
      else Inr acc)"

text \<open>Lines 399--415 of one iteration.\<close>

definition addVisit :: "Hub \<Rightarrow> vrp_scooter list \<Rightarrow> string \<Rightarrow> route_stats \<Rightarrow> route_stats" where
  "addVisit hub scooters toName acc =
     (if toName \<noteq> hub_name hub then
        (case find (\<lambda>s. scooter_id s = toName) scooters of
           None \<Rightarrow> acc
         | Some scooter \<Rightarrow>
             (let penalty = penaltyOf scooter;
                  acc1 = acc\<lparr>totalScore' := numAdd (totalScore' acc) penalty,
                             visitedScooters := visitedScooters acc + 1,
                             totalDuration := numAdd (totalDuration acc)
                                                (Num (real_of_int (service_time scooter * 60)))\<rparr>
              in if state scooter = B then
                   acc1\<lparr>revenueCollected' := numAdd (revenueCollected' acc1) penalty,
                        lowBatteryCollected' := lowBatteryCollected' acc1 + 1\<rparr>
                 else if state scooter = C then
                   acc1\<lparr>finesAvoided' := numAdd (finesAvoided' acc1) penalty,
                        highRiskCollected' := highRiskCollected' acc1 + 1\<rparr>
                 else acc1))
      else acc)"

text \<open>
  The loop over \<open>i = 0 .. route_name.length - 2\<close>, given as the list of pairs
  \<open>(route_name[i], route_name[i + 1])\<close>.
\<close>

fun statsLoop ::
  "Hub \<Rightarrow> vrp_scooter list \<Rightarrow> matrix \<Rightarrow> matrix \<Rightarrow> (string \<times> string) list \<Rightarrow> route_stats
     \<Rightarrow> error + route_stats" where
  "statsLoop hub scooters distanceMatrix durationMatrix [] acc = Inr acc"
| "statsLoop hub scooters distanceMatrix durationMatrix ((fromName, toName) # legs) acc =
     (case addTravel distanceMatrix durationMatrix (nameToIndex hub scooters fromName)
             (nameToIndex hub scooters toName) acc of
        Inl e \<Rightarrow> Inl e
      | Inr acc1 \<Rightarrow>
          statsLoop hub scooters distanceMatrix durationMatrix legs
            (addVisit hub scooters toName acc1))"

definition consecutive :: "'a list \<Rightarrow> ('a \<times> 'a) list" where
  "consecutive xs = zip xs (tl xs)"

definition parseRoute ::
  "(coordinate \<Rightarrow> coordinate \<Rightarrow> error + coordinate list) \<Rightarrow> vrp_scooter list \<Rightarrow> Hub
     \<Rightarrow> matrix \<Rightarrow> matrix \<Rightarrow> OmeletRoute \<Rightarrow> nat \<Rightarrow> error + OptimizedRoute" where
  "parseRoute routeTime scooters hub distanceMatrix durationMatrix route index =
     (let waypoints =
            map (\<lambda>name. if name = hub_name hub then hub_location hub
                         else (case find (\<lambda>s. scooter_id s = name) scooters of
                                 Some scooter \<Rightarrow> location scooter
                               | None \<Rightarrow> hub_location hub))
                (route_name route);
          roadGeometry = map (\<lambda>(from, to). fetchRoadGeometry routeTime from to)
                             (consecutive waypoints)
      in case statsLoop hub scooters distanceMatrix durationMatrix
                (consecutive (route_name route)) noStats of
           Inl e \<Rightarrow> Inl e
         | Inr acc \<Rightarrow>
             Inr \<lparr>vehicleId = route_vehicle_name route,
                  path = waypoints,
                  roadGeometry = Some roadGeometry,
                  color = MOCK_COLORS ! (index mod length MOCK_COLORS),
                  distance = totalDistance acc,
                  duration = totalDuration acc,
                  scootersCollected = visitedScooters acc,
                  totalScore = totalScore' acc,
                  revenueCollected = revenueCollected' acc,
                  finesAvoided = finesAvoided' acc,
                  highRiskCollected = highRiskCollected' acc,
                  lowBatteryCollected = lowBatteryCollected' acc\<rparr>)"

definition parseVrpResponseWithGeometry ::
  "(coordinate \<Rightarrow> coordinate \<Rightarrow> error + coordinate list) \<Rightarrow> OmeletVrpResponse
     \<Rightarrow> vrp_scooter list \<Rightarrow> Hub \<Rightarrow> matrix \<Rightarrow> matrix \<Rightarrow> error + OptimizedRoute list" where
  "parseVrpResponseWithGeometry routeTime response scooters hub distanceMatrix durationMatrix =
     mapE (\<lambda>(route, index). parseRoute routeTime scooters hub distanceMatrix durationMatrix
                                route index)
          (zip (routes response) [0..<length (routes response)])"

subsection \<open>\<open>generateMockRoutes\<close>\<close>

text \<open>
  \<open>[...scooters].sort((a, b) => b.penaltyValue - a.penaltyValue)\<close>.  The sort is stable and
  takes a comparison result of \<open>NaN\<close> as 0; \<open>sortBy\<close> is the stable insertion sort, which
  moves an element past those it compares greater than.  When every penalty is a finite
  number that is the order by descending penalty; when none is set every comparison is
  \<open>NaN\<close> and the order stays.  (For a comparison that is not an ordering the language
  leaves the order to the engine; the result is a permutation all the same.)
\<close>

definition positive :: "number \<Rightarrow> bool" where
  "positive x = (case x of Num a \<Rightarrow> 0 < a | PosInf \<Rightarrow> True | _ \<Rightarrow> False)"

fun insertBy :: "('a \<Rightarrow> 'a \<Rightarrow> number) \<Rightarrow> 'a \<Rightarrow> 'a list \<Rightarrow> 'a list" where
  "insertBy cmp x [] = [x]"
| "insertBy cmp x (y # ys) =
     (if positive (cmp x y) then y # insertBy cmp x ys else x # y # ys)"

definition sortBy :: "('a \<Rightarrow> 'a \<Rightarrow> number) \<Rightarrow> 'a list \<Rightarrow> 'a list" where
  "sortBy cmp xs = foldr (insertBy cmp) xs []"

text \<open>\<open>chunk.reduce((sum, s) => sum + s.penaltyValue, 0)\<close>.\<close>

definition sumPenalty :: "vrp_scooter list \<Rightarrow> number" where
  "sumPenalty chunk = foldl (\<lambda>sum s. numAdd sum (penaltyOf s)) (Num 0) chunk"

definition mockRoute :: "Hub \<Rightarrow> nat \<Rightarrow> vrp_scooter list \<Rightarrow> OptimizedRoute" where
  "mockRoute hub i chunk =
     \<lparr>vehicleId = ''Mock-Truck-'' @ toDecimal (i + 1),
      path = [hub_location hub] @ map location chunk @ [hub_location hub],
      roadGeometry = None,
      color = MOCK_COLORS ! (i mod length MOCK_COLORS),
      distance = Num (real (length chunk * 2000)),
      duration = Num (real_of_int (sum_list (map (\<lambda>s. service_time s * 60) chunk))
                      + real (length chunk * 300)),
      scootersCollected = length chunk,
      totalScore = sumPenalty chunk,
      revenueCollected = sumPenalty (filter (\<lambda>s. state s = B) chunk),
      finesAvoided = sumPenalty (filter (\<lambda>s. state s = C) chunk),
      highRiskCollected = length (filter (\<lambda>s. state s = C) chunk),
      lowBatteryCollected = length (filter (\<lambda>s. state s = B) chunk)\<rparr>"

text \<open>
  With \<open>truckCount = 0\<close> the loop body never runs.  Otherwise
  \<open>chunkSize = Math.ceil(length / truckCount)\<close>, and truck \<open>i\<close> gets
  \<open>sortedScooters.slice(i * chunkSize, (i + 1) * chunkSize)\<close> unless that is empty.
\<close>

definition generateMockRoutes :: "vrp_scooter list \<Rightarrow> Hub \<Rightarrow> nat \<Rightarrow> OptimizedRoute list" where
  "generateMockRoutes scooters hub truckCount =
     (let sortedScooters = sortBy (\<lambda>a b. numSub (penaltyOf b) (penaltyOf a)) scooters;
          chunkSize = (length sortedScooters + truckCount - 1) div truckCount
      in concat (map (\<lambda>i. let chunk = take chunkSize (drop (i * chunkSize) sortedScooters)
                           in if length chunk = 0 then [] else [mockRoute hub i chunk])
                     [0..<truckCount]))"

subsection \<open>\<open>solveVrp\<close>\<close>

text \<open>
  \<open>omeletVrp\<close> is the outcome of \<open>callOmeletVrp\<close> and of reading the members of its value
  that the interpretation needs: a response of the declared type, or the exception thrown
  when the solver cannot be reached, answers with a non-ok status, or answers with a
  value that lacks those members.  All of these exceptions reach the same \<open>catch\<close>.
\<close>

record vrp_env =
  matrixEnv :: matrix_env
  omeletVrp :: "OmeletVrpRequest \<Rightarrow> error + OmeletVrpResponse"
  inaviRouteTime :: "coordinate \<Rightarrow> coordinate \<Rightarrow> error + coordinate list"
  shiftStart :: string
  shiftEnd :: string

text \<open>
  Lines 28--38: the location list with the depot first, and the scooters that go with it,
  cut to 200 locations.
\<close>

definition locationsOf :: "vrp_scooter list \<Rightarrow> Hub \<Rightarrow> coordinate list" where
  "locationsOf scooters hub =
     (let locations = hub_location hub # map location scooters
      in if 200 < length locations then take 200 locations else locations)"

definition workingScooters :: "vrp_scooter list \<Rightarrow> Hub \<Rightarrow> vrp_scooter list" where
  "workingScooters scooters hub =
     (let locations = hub_location hub # map location scooters
      in if 200 < length locations then take (length (take 200 locations) - 1) scooters
         else scooters)"

text \<open>The \<open>try\<close> block, lines 27--60.\<close>

definition trySolve ::
  "vrp_env \<Rightarrow> vrp_scooter list \<Rightarrow> Hub \<Rightarrow> nat \<Rightarrow> error + OptimizedRoute list" where
  "trySolve env scooters hub truckCount =
     (let locations = locationsOf scooters hub;
          working = workingScooters scooters hub
      in case snd (getDistanceMatrix (matrixEnv env) locations) of
           Inl e \<Rightarrow> Inl e
         | Inr (distanceMatrix, durationMatrix) \<Rightarrow>
             (let vrpRequest = buildVrpRequest (shiftStart env) (shiftEnd env) working hub
                                 truckCount distanceMatrix durationMatrix
              in case omeletVrp env vrpRequest of
                   Inl e \<Rightarrow> Inl e
                 | Inr vrpResponse \<Rightarrow>
                     parseVrpResponseWithGeometry (inaviRouteTime env) vrpResponse working hub
                       distanceMatrix durationMatrix))"

definition solveVrp :: "vrp_env \<Rightarrow> vrp_scooter list \<Rightarrow> Hub \<Rightarrow> nat \<Rightarrow> OptimizedRoute list" where
  "solveVrp env scooters hub truckCount =
     (case trySolve env scooters hub truckCount of
        Inl e \<Rightarrow> generateMockRoutes scooters hub truckCount
      | Inr parsedRoutes \<Rightarrow> parsedRoutes)"

text \<open>
  The relation between the three money accumulators of the statistics loop, as long as
  all of them are finite numbers.
\<close>

definition balanced :: "route_stats \<Rightarrow> bool" where
  "balanced acc =
     (\<exists>t r f. totalScore' acc = Num t \<and> revenueCollected' acc = Num r
              \<and> finesAvoided' acc = Num f \<and> t = r + f)"

section \<open>Example inputs for the optimisation\<close>

text \<open>
  Two stops 0.000003 degrees of latitude (a third of a metre) apart, three stops, a
  configured matrix service that answers with a \<open>1 \<times> 1\<close> matrix pair holding 5, and one
  that cannot be reached.
\<close>

definition stopA :: coordinate where
  "stopA = \<lparr>lng = 127, lat = 37.5\<rparr>"

definition stopB :: coordinate where
  "stopB = \<lparr>lng = 127, lat = 37.500003\<rparr>"

definition twoStops :: "coordinate list" where
  "twoStops = [stopA, stopB]"

definition threeStops :: "coordinate list" where
  "threeStops = [\<lparr>lng = 127, lat = 37.5\<rparr>, \<lparr>lng = 127.01, lat = 37.5\<rparr>,
                 \<lparr>lng = 127.02, lat = 37.51\<rparr>]"

definition oneByOneResponse :: json where
  "oneByOneResponse = JObject [(''distance_matrix'', JArray [JArray [JNumber (Num 5)]]),
                               (''duration_matrix'', JArray [JArray [JNumber (Num 5)]])]"

definition oneByOneEnv :: matrix_env where
  "oneByOneEnv = \<lparr>INAVI_API_KEY = Some ''key'',
                   inaviDistanceMatrix = (\<lambda>locations. Body oneByOneResponse),
                   coerceNumber = (\<lambda>v. NaN),
                   mathLib = exactMath\<rparr>"

definition unreachableEnv :: matrix_env where
  "unreachableEnv = \<lparr>INAVI_API_KEY = Some ''key'',
                      inaviDistanceMatrix = (\<lambda>locations. Rejected),
                      coerceNumber = (\<lambda>v. NaN),
                      mathLib = exactMath\<rparr>"

text \<open>A configured service whose response has \<open>rows\<close> that is not an array.\<close>

definition rowsNotArrayEnv :: matrix_env where
  "rowsNotArrayEnv = \<lparr>INAVI_API_KEY = Some ''key'',
                       inaviDistanceMatrix = (\<lambda>locations. Body (JObject [(''rows'', JString ''busy'')])),
                       coerceNumber = (\<lambda>v. NaN),
                       mathLib = exactMath\<rparr>"

text \<open>
  A configured service whose response holds no matrix: \<open>distance_matrix\<close> is
  \<open>["x", 7]\<close> and \<open>duration_matrix\<close> is \<open>[null]\<close>.
\<close>

definition noMatrixResponse :: json where
  "noMatrixResponse = JObject [(''distance_matrix'', JArray [JString ''x'', JNumber (Num 7)]),
                               (''duration_matrix'', JArray [JNull])]"

definition noMatrixEnv :: matrix_env where
  "noMatrixEnv = \<lparr>INAVI_API_KEY = Some ''key'',
                   inaviDistanceMatrix = (\<lambda>locations. Body noMatrixResponse),
                   coerceNumber = (\<lambda>v. NaN),
                   mathLib = exactMath\<rparr>"

text \<open>
  A configured service whose distance matrix is the single row \<open>[-5, 1e400]\<close>, the second
  number being read as \<open>Infinity\<close>.
\<close>

definition singleRowResponse :: json where
  "singleRowResponse =
     JObject [(''distance_matrix'', JArray [JArray [JNumber (Num (- 5)), JNumber PosInf]]),
              (''duration_matrix'', JArray [JArray [JNumber (Num 5), JNumber (Num 5)]])]"

definition singleRowEnv :: matrix_env where
  "singleRowEnv = \<lparr>INAVI_API_KEY = Some ''key'',
                    inaviDistanceMatrix = (\<lambda>locations. Body singleRowResponse),
                    coerceNumber = (\<lambda>v. NaN),
                    mathLib = exactMath\<rparr>"

text \<open>
  Two antipodal places, 8 degrees south and north of the equator and 180 degrees of
  longitude apart, and a library that returns at the arguments met there the
  double-precision values: \<open>Math.sin(toRad(16) / 2)\<close> is 0.13917310096006544,
  \<open>Math.sin(toRad(-16) / 2)\<close> its negative, \<open>Math.cos(toRad(8))\<close> and
  \<open>Math.cos(toRad(-8))\<close> are 0.9902680687415704 (both doubles written exactly, as
  fractions with denominators \<open>2\<^sup>5\<^sup>5\<close> and \<open>2\<^sup>5\<^sup>2\<close>), and the sine of a quarter turn is 1 in
  double precision too.
\<close>

definition antipodes :: "coordinate list" where
  "antipodes = [\<lparr>lng = 0, lat = - 8\<rparr>, \<lparr>lng = 180, lat = 8\<rparr>]"

definition doubleSin8 :: real where
  "doubleSin8 = 5014239404989977 / 36028797018963968"

definition doubleCos8 :: real where
  "doubleCos8 = 4459770905381437 / 4503599627370496"

definition roundedMath :: math_lib where
  "roundedMath =
     \<lparr>Math_sin = (\<lambda>x. if x = toRad 16 / 2 then doubleSin8
                      else if x = toRad (- 16) / 2 then - doubleSin8 else sin x),
      Math_cos = (\<lambda>x. if x = toRad 8 \<or> x = toRad (- 8) then doubleCos8 else cos x)\<rparr>"

definition roundedEnv :: matrix_env where
  "roundedEnv = unreachableEnv\<lparr>mathLib := roundedMath\<rparr>"

text \<open>
  A depot, one low-battery and one high-risk scooter, a solver that answers with one
  route visiting both, and the same world with the solver unreachable.
\<close>

definition exampleHub :: Hub where
  "exampleHub = \<lparr>hub_id = ''Hub-1'', hub_location = stopA, hub_name = ''Main Hub''\<rparr>"

definition lowBattery1 :: vrp_scooter where
  "lowBattery1 = \<lparr>scooter_id = ''S-1'', location = stopB, state = B, batteryLevel = 10,
                   service_time = 1, score = 2500, penaltyValue = Some (Num 2500)\<rparr>"

definition highRisk2 :: vrp_scooter where
  "highRisk2 = \<lparr>scooter_id = ''S-2'', location = \<lparr>lng = 127.01, lat = 37.5\<rparr>, state = C,
                 batteryLevel = 40, service_time = 5, score = 40000,
                 penaltyValue = Some (Num 40000)\<rparr>"

definition solverEnv :: vrp_env where
  "solverEnv = \<lparr>matrixEnv = unreachableEnv,
      omeletVrp = (\<lambda>request. Inr \<lparr>routes = [\<lparr>route_vehicle_name = ''Truck-1'',
                                              route_name = [''Main Hub'', ''S-2'', ''S-1'', ''Main Hub'']\<rparr>],
                                   unassigned_visit_names = [], status = ''ok''\<rparr>),
      inaviRouteTime = (\<lambda>from to. Inl FetchError),
      shiftStart = ''2025-01-06T00:00:00.000Z'',
      shiftEnd = ''2025-01-06T02:00:00.000Z''\<rparr>"

definition offlineEnv :: vrp_env where
  "offlineEnv = solverEnv\<lparr>omeletVrp := (\<lambda>request. Inl FetchError)\<rparr>"

text \<open>
  The same two scooters as \<open>generateScenario\<close> of \<open>ScenarioGenerator.ts\<close> builds them:
  with a \<open>score\<close> and without a \<open>penaltyValue\<close>.
\<close>

definition generatedLowBattery :: scooter where
  "generatedLowBattery = \<lparr>scooter_id = ''S-1'', location = stopB, state = B, batteryLevel = 10,
                           service_time = 1, score = BATTERY_SWAP_REVENUE\<rparr>"

definition generatedHighRisk :: scooter where
  "generatedHighRisk = \<lparr>scooter_id = ''S-2'', location = \<lparr>lng = 127.01, lat = 37.5\<rparr>, state = C,
                         batteryLevel = 40, service_time = 5, score = TOWING_FINE\<rparr>"

text \<open>Two hundred low-battery scooters at distinct places, the depot making 201 locations.\<close>

definition fleetScooter :: "nat \<Rightarrow> vrp_scooter" where
  "fleetScooter i = \<lparr>scooter_id = ''S-'' @ toDecimal (i + 1),
                      location = \<lparr>lng = 127, lat = 37.45 + real i / 10000\<rparr>, state = B,
                      batteryLevel = 10, service_time = 1, score = 2500,
                      penaltyValue = Some (Num 2500)\<rparr>"

definition fleet200 :: "vrp_scooter list" where
  "fleet200 = map fleetScooter [0..<200]"

section \<open>Properties of the scenario generator\<close>

subsection \<open>Counts\<close>

lemma counts_on_range:
  "list_all (\<lambda>n. countHighRisk n = max 1 (n * 15 div 100)
                \<and> countCommercial n = n * 65 div 100
                \<and> countResidential n = n * 20 div 100
                \<and> countNearBusStop n = countHighRisk n div 4) [10..200]"
  by code_simp

lemma counts_in_range:
  assumes "10 \<le> n" "n \<le> 200"
  shows "countHighRisk n = max 1 (n * 15 div 100)" "countCommercial n = n * 65 div 100"
    "countResidential n = n * 20 div 100" "countNearBusStop n = countHighRisk n div 4"
proof -
  have mem: "n \<in> set [10..200]"
    using assms by (simp only: set_upto atLeastAtMost_iff)
  have all: "\<forall>n\<in>set [10..200]. countHighRisk n = max 1 (n * 15 div 100)
                \<and> countCommercial n = n * 65 div 100
                \<and> countResidential n = n * 20 div 100
                \<and> countNearBusStop n = countHighRisk n div 4"
    using counts_on_range by (simp only: list_all_iff)
  from all mem show "countHighRisk n = max 1 (n * 15 div 100)" "countCommercial n = n * 65 div 100"
    "countResidential n = n * 20 div 100" "countNearBusStop n = countHighRisk n div 4"
    by blast+
qed

lemma percentages_nearest_doubles:
  "\<bar>100 * mant HIGH_RISK_PERCENTAGE - 15 * 2 ^ expo HIGH_RISK_PERCENTAGE\<bar> * 2 \<le> 100"
  "\<bar>100 * mant COMMERCIAL_PERCENTAGE - 65 * 2 ^ expo COMMERCIAL_PERCENTAGE\<bar> * 2 \<le> 100"
  "\<bar>100 * mant RESIDENTIAL_PERCENTAGE - 20 * 2 ^ expo RESIDENTIAL_PERCENTAGE\<bar> * 2 \<le> 100"
  "100 * mant BUS_STOP_RATIO = 25 * 2 ^ expo BUS_STOP_RATIO"
  "2 ^ 52 \<le> mant HIGH_RISK_PERCENTAGE \<and> mant HIGH_RISK_PERCENTAGE < 2 ^ 53"
  "2 ^ 52 \<le> mant COMMERCIAL_PERCENTAGE \<and> mant COMMERCIAL_PERCENTAGE < 2 ^ 53"
  "2 ^ 52 \<le> mant RESIDENTIAL_PERCENTAGE \<and> mant RESIDENTIAL_PERCENTAGE < 2 ^ 53"
  "2 ^ 52 \<le> mant BUS_STOP_RATIO \<and> mant BUS_STOP_RATIO < 2 ^ 53"
  by (simp_all add: HIGH_RISK_PERCENTAGE_def COMMERCIAL_PERCENTAGE_def
        RESIDENTIAL_PERCENTAGE_def BUS_STOP_RATIO_def)

lemma countNearSubway_positive:
  assumes "10 \<le> n" "n \<le> 200"
  shows "0 < countNearSubway n"
proof -
  note c = counts_in_range[OF assms]
  have "1 \<le> countHighRisk n" using c(1) by simp
  then have "countHighRisk n div 4 < countHighRisk n" by linarith
  then show ?thesis using c(4) by (simp add: countNearSubway_def)
qed

subsection \<open>Boundary containment of the loops\<close>

lemma arrayGet_in_set: "arrayGet xs i = Some a \<Longrightarrow> a \<in> set xs"
  by (auto simp: arrayGet_def split: if_splits)

lemma jitterAttempts_inside:
  "isPointInDistricts anchor g \<Longrightarrow> isPointInDistricts (fst (jitterAttempts r g anchor mn mx n k)) g"
  by (induction n arbitrary: k) (auto simp: Let_def split: prod.splits)

lemma generateValidPointNearAnchor_inside:
  assumes "generateValidPointNearAnchor r g anchor mn mx k = Inr (p, k')"
    and "\<forall>a. anchor = Some a \<longrightarrow> isPointInDistricts a g"
  shows "isPointInDistricts p g"
proof (cases anchor)
  case None
  with assms(1) show ?thesis by (simp add: generateValidPointNearAnchor_def)
next
  case (Some a)
  with assms(1) have "p = fst (jitterAttempts r g a mn mx 10 k)"
    by (simp add: generateValidPointNearAnchor_def)
  with assms(2) Some show ?thesis by (simp add: jitterAttempts_inside)
qed

lemma highRiskNear_inside:
  "highRiskNear r g pre pois i n k = Inr (xs, k') \<Longrightarrow> \<forall>p\<in>set pois. isPointInDistricts p g
     \<Longrightarrow> \<forall>s\<in>set xs. isPointInDistricts (location s) g"
proof (induction n arbitrary: i k xs k')
  case 0 then show ?case by simp
next
  case (Suc n)
  let ?sel = "arrayGet pois \<lfloor>r k * real (length pois)\<rfloor>"
  from Suc.prems(1) obtain loc k1 rest where
    g: "generateValidPointNearAnchor r g ?sel 0 RED_ZONE_RADIUS_METERS (k + 1) = Inr (loc, k1)"
    and rec: "highRiskNear r g pre pois (i + 1) n (k1 + 1) = Inr (rest, k')"
    and xs: "xs = \<lparr>scooter_id = pre @ toDecimal (i + 1), location = loc, state = C,
                        batteryLevel = \<lfloor>r k1 * 50\<rfloor> + 20, service_time = 5,
                        score = TOWING_FINE\<rparr> # rest"
    by (auto simp: Let_def split: sum.splits prod.splits)
  have "\<forall>a. ?sel = Some a \<longrightarrow> isPointInDistricts a g"
    using Suc.prems(2) arrayGet_in_set by fastforce
  then have "isPointInDistricts loc g"
    using generateValidPointNearAnchor_inside[OF g] by blast
  moreover have "\<forall>s\<in>set rest. isPointInDistricts (location s) g"
    using Suc.IH[OF rec Suc.prems(2)] .
  ultimately show ?case using xs by simp
qed

lemma highRiskNear_length:
  "highRiskNear r g pre pois i n k = Inr (xs, k') \<Longrightarrow> length xs = n \<and> (\<forall>s\<in>set xs. state s = C)"
  by (induction n arbitrary: i k xs k') (auto simp: Let_def split: sum.splits prod.splits)

lemma locationsNear_length:
  "locationsNear r g anchors mn mx n k = Inr (xs, k') \<Longrightarrow> length xs = n"
  by (induction n arbitrary: k xs k') (auto simp: Let_def split: sum.splits prod.splits)

lemma locationsNear_inside:
  "locationsNear r g anchors mn mx n k = Inr (xs, k') \<Longrightarrow> \<forall>p\<in>set anchors. isPointInDistricts p g
     \<Longrightarrow> \<forall>p\<in>set xs. isPointInDistricts p g"
proof (induction n arbitrary: k xs k')
  case 0 then show ?case by simp
next
  case (Suc n)
  let ?sel = "arrayGet anchors \<lfloor>r k * real (length anchors)\<rfloor>"
  from Suc.prems(1) obtain loc k1 rest where
    g: "generateValidPointNearAnchor r g ?sel mn mx (k + 1) = Inr (loc, k1)"
    and rec: "locationsNear r g anchors mn mx n k1 = Inr (rest, k')"
    and xs: "xs = loc # rest"
    by (auto simp: Let_def split: sum.splits prod.splits)
  have "\<forall>a. ?sel = Some a \<longrightarrow> isPointInDistricts a g"
    using Suc.prems(2) arrayGet_in_set by fastforce
  then have "isPointInDistricts loc g"
    using generateValidPointNearAnchor_inside[OF g] by blast
  then show ?case using xs Suc.IH[OF rec Suc.prems(2)] by simp
qed

lemma lowBatteryScooters_props:
  "map location (lowBatteryScooters r locs i k) = locs"
  "\<forall>s\<in>set (lowBatteryScooters r locs i k). state s = B"
  "length (lowBatteryScooters r locs i k) = length locs"
  by (induction locs arbitrary: i k) auto

lemma reassignIds_props:
  "map location (reassignIds ss i) = map location ss"
  "map state (reassignIds ss i) = map state ss"
  "length (reassignIds ss i) = length ss"
  by (induction ss arbitrary: i) auto

subsection \<open>The batches and their assembly\<close>

lemma batchA_props:
  assumes "batchA env g cnt sub bus = Inr (hr, k)"
  shows "length hr = nat (countNearSubway cnt) + nat (countNearBusStop cnt)"
    and "\<forall>s\<in>set hr. state s = C"
    and "(\<forall>p\<in>set sub \<union> set bus. isPointInDistricts p g)
           \<Longrightarrow> \<forall>s\<in>set hr. isPointInDistricts (location s) g"
proof -
  from assms obtain a k1 b where
    a: "highRiskNear (mathRandom env) g ''S-HR-SUB-'' sub 0 (nat (countNearSubway cnt)) 0 = Inr (a, k1)"
    and b: "highRiskNear (mathRandom env) g ''S-HR-BUS-'' bus 0 (nat (countNearBusStop cnt)) k1 = Inr (b, k)"
    and hr: "hr = a @ b"
    by (auto simp: batchA_def split: sum.splits prod.splits)
  show "length hr = nat (countNearSubway cnt) + nat (countNearBusStop cnt)"
    using highRiskNear_length[OF a] highRiskNear_length[OF b] hr by simp
  show "\<forall>s\<in>set hr. state s = C"
    using highRiskNear_length[OF a] highRiskNear_length[OF b] hr by auto
  show "\<forall>s\<in>set hr. isPointInDistricts (location s) g"
    if "\<forall>p\<in>set sub \<union> set bus. isPointInDistricts p g"
    using highRiskNear_inside[OF a] highRiskNear_inside[OF b] hr that by auto
qed

lemma batchB_props:
  assumes "batchB env g cnt hr k = Inr b"
  shows "highRiskScooters b = hr"
    and "length (commercialLocations b) = nat (countCommercial cnt)"
    and "length (residentialLocations b) = nat (countResidential cnt)"
    and "\<forall>p\<in>set (commercialLocations b) \<union> set (residentialLocations b). isPointInDistricts p g"
proof -
  from assms obtain ca com k1 ra res k2 where
    com: "locationsNear (mathRandom env) g (filter (\<lambda>a. isPointInDistricts a g) ca) 15 30
            (nat (countCommercial cnt)) k = Inr (com, k1)"
    and res: "locationsNear (mathRandom env) g (filter (\<lambda>a. isPointInDistricts a g) ra) 20 40
            (nat (countResidential cnt)) k1 = Inr (res, k2)"
    and b: "b = \<lparr>highRiskScooters = hr, commercialLocations = com,
                 residentialLocations = res, draws = k2\<rparr>"
    by (auto simp: batchB_def Let_def split: sum.splits prod.splits)
  show "highRiskScooters b = hr" using b by simp
  show "length (commercialLocations b) = nat (countCommercial cnt)"
    using locationsNear_length[OF com] b by simp
  show "length (residentialLocations b) = nat (countResidential cnt)"
    using locationsNear_length[OF res] b by simp
  have "\<forall>p\<in>set com. isPointInDistricts p g"
    using locationsNear_inside[OF com] by simp
  moreover have "\<forall>p\<in>set res. isPointInDistricts p g"
    using locationsNear_inside[OF res] by simp
  ultimately show "\<forall>p\<in>set (commercialLocations b) \<union> set (residentialLocations b). isPointInDistricts p g"
    using b by auto
qed

lemma scenarioBatches_cases:
  assumes "scenarioBatches env st cnt = (st', Inr b)"
  obtains st1 g sub bus hr k where
    "fetchDistrictBoundaries env st = (st1, Inr g)"
    "loadRedZonePOIs env st1 g = (st', Inr (sub, bus))"
    "batchA env g cnt sub bus = Inr (hr, k)"
    "batchB env g cnt hr k = Inr b"
  using assms
  by (auto simp: scenarioBatches_def split: prod.splits sum.splits)

lemma generateScenario_cases:
  assumes "generateScenario env st cnt = (st', Inr out)"
  obtains b where "scenarioBatches env st cnt = (st', Inr b)" "out = assemble env b"
  using assms
  by (auto simp: generateScenario_def split: prod.splits sum.splits)

lemma assemble_mset:
  assumes "\<And>xs. mset (shuffleSort env xs) = mset xs"
  shows "mset (map (\<lambda>s. (state s, location s)) (assemble env b))
       = mset (map (\<lambda>s. (state s, location s)) (highRiskScooters b))
         + mset (map (Pair B) (commercialLocations b @ residentialLocations b))"
proof -
  let ?lb = "lowBatteryScooters (mathRandom env) (commercialLocations b @ residentialLocations b) 0 (draws b)"
  let ?all = "highRiskScooters b @ ?lb"
  have r: "map (\<lambda>s. (state s, location s)) (reassignIds ss i) = map (\<lambda>s. (state s, location s)) ss" for ss i
    by (induction ss arbitrary: i) auto
  have l: "map (\<lambda>s. (state s, location s)) (lowBatteryScooters rr locs i k) = map (Pair B) locs" for rr locs i k
    by (induction locs arbitrary: i k) auto
  have e: "map (\<lambda>s. (state s, location s)) ?all
      = map (\<lambda>s. (state s, location s)) (highRiskScooters b)
        @ map (Pair B) (commercialLocations b @ residentialLocations b)"
    by (simp only: map_append l)
  have "mset (map (\<lambda>s. (state s, location s)) (assemble env b))
      = image_mset (\<lambda>s. (state s, location s)) (mset (shuffleSort env ?all))"
    by (simp add: assemble_def Let_def r)
  also have "\<dots> = image_mset (\<lambda>s. (state s, location s)) (mset ?all)"
    by (simp only: assms)
  also have "\<dots> = mset (map (\<lambda>s. (state s, location s)) ?all)"
    by (simp only: mset_map)
  also have "\<dots> = mset (map (\<lambda>s. (state s, location s)) (highRiskScooters b))
         + mset (map (Pair B) (commercialLocations b @ residentialLocations b))"
    by (simp only: e mset_append)
  finally show ?thesis .
qed

lemma assemble_length:
  assumes "\<And>xs. mset (shuffleSort env xs) = mset xs"
  shows "length (assemble env b)
       = length (highRiskScooters b) + length (commercialLocations b) + length (residentialLocations b)"
proof -
  have "length (shuffleSort env xs) = length xs" for xs
    using assms[of xs] by (metis size_mset)
  then show ?thesis
    by (simp add: assemble_def Let_def reassignIds_props lowBatteryScooters_props)
qed

lemma state_count_from_mset:
  fixes out hr :: "scooter list"
  assumes "mset (map (\<lambda>s. (state s, location s)) out)
             = mset (map (\<lambda>s. (state s, location s)) hr) + mset (map (Pair B) locs)"
    and "\<forall>s\<in>set hr. state s = C"
  shows "length (filter (\<lambda>s. state s = C) out) = length hr"
    and "length (filter (\<lambda>s. state s = B) out) = length locs"
proof -
  let ?f = "\<lambda>s::scooter. (state s, location s)"
  have count: "length (filter (\<lambda>s. state s = q) xs)
        = size (filter_mset (\<lambda>x. fst x = q) (mset (map ?f xs)))" for q and xs :: "scooter list"
    by (induction xs) auto
  have hrC: "filter_mset (\<lambda>x. fst x = C) (mset (map ?f hr)) = mset (map ?f hr)"
    using assms(2) by (induction hr) auto
  have hrB: "filter_mset (\<lambda>x. fst x = B) (mset (map ?f hr)) = {#}"
    using assms(2) by (induction hr) auto
  have lC: "filter_mset (\<lambda>x. fst x = C) (mset (map (Pair B) locs)) = {#}"
    by (induction locs) auto
  have lB: "filter_mset (\<lambda>x. fst x = B) (mset (map (Pair B) locs)) = mset (map (Pair B) locs)"
    by (induction locs) auto
  show "length (filter (\<lambda>s. state s = C) out) = length hr"
    unfolding count assms(1) by (simp add: hrC lC del: mset_map)
  show "length (filter (\<lambda>s. state s = B) out) = length locs"
    unfolding count assms(1) by (simp add: hrB lB del: mset_map)
qed

subsection \<open>The cache invariant\<close>

lemma cache_ok_initialState: "cache_ok initialState"
  by (simp add: cache_ok_def initialState_def)

lemma fetchDistrictBoundaries_cache:
  assumes "cache_ok st" "fetchDistrictBoundaries env st = (st1, r)"
  shows "cache_ok st1"
    and "r = Inr g \<Longrightarrow> cachedDistrictBoundaries st1 = Some g"
    and "cachedSubwayExitPOIs st1 = cachedSubwayExitPOIs st"
    and "cachedBusStopPOIs st1 = cachedBusStopPOIs st"
  using assms
  by (auto simp: fetchDistrictBoundaries_def cache_ok_def Let_def
           split: option.splits sum.splits)

lemma loadRedZonePOIs_cache:
  assumes "cache_ok st1" "cachedDistrictBoundaries st1 = Some g"
    and "loadRedZonePOIs env st1 g = (st2, r)"
  shows "cache_ok st2"
    and "cachedDistrictBoundaries st2 = Some g"
    and "r = Inr (sub, bus) \<Longrightarrow> \<forall>p\<in>set sub \<union> set bus. isPointInDistricts p g"
  using assms
  by (auto simp: loadRedZonePOIs_def cache_ok_def Let_def list_all_iff
           split: option.splits sum.splits)

lemma scenarioBatches_cache:
  assumes "cache_ok st" "scenarioBatches env st cnt = (st', r)"
  shows "cache_ok st'"
proof -
  obtain st1 r1 where f: "fetchDistrictBoundaries env st = (st1, r1)"
    by (cases "fetchDistrictBoundaries env st")
  have ok1: "cache_ok st1" using fetchDistrictBoundaries_cache(1)[OF assms(1) f] .
  show ?thesis
  proof (cases r1)
    case (Inl e)
    with assms(2) f ok1 show ?thesis by (simp add: scenarioBatches_def)
  next
    case (Inr g)
    obtain st2 r2 where l: "loadRedZonePOIs env st1 g = (st2, r2)"
      by (cases "loadRedZonePOIs env st1 g")
    have "cachedDistrictBoundaries st1 = Some g"
      using fetchDistrictBoundaries_cache(2)[OF assms(1) f] Inr by simp
    then have "cache_ok st2" using loadRedZonePOIs_cache(1)[OF ok1 _ l] by simp
    moreover have "st' = st2"
      using assms(2) f Inr l
      by (auto simp: scenarioBatches_def split: sum.splits prod.splits)
    ultimately show ?thesis by simp
  qed
qed

lemma generateScenario_cache:
  assumes "cache_ok st"
  shows "cache_ok (fst (generateScenario env st cnt))"
proof -
  obtain st' r where s: "scenarioBatches env st cnt = (st', r)"
    by (cases "scenarioBatches env st cnt")
  then have "fst (generateScenario env st cnt) = st'"
    by (cases r) (simp_all add: generateScenario_def)
  then show ?thesis using scenarioBatches_cache[OF assms s] by simp
qed

subsection \<open>The jitter radius\<close>

lemma generatePointNearLocation_radius:
  assumes "0 \<le> mn" "mn \<le> mx" "0 \<le> r (k + 1)" "r (k + 1) < 1"
  shows "mn\<^sup>2 \<le> flatDistanceSquared (fst (generatePointNearLocation r k c mn mx)) c"
    and "flatDistanceSquared (fst (generatePointNearLocation r k c mn mx)) c \<le> mx\<^sup>2"
proof -
  define rs where "rs = r (k + 1) * (mx * mx - mn * mn) + mn * mn"
  define ang where "ang = r k * 2 * pi"
  have d: "0 \<le> mx * mx - mn * mn"
    using assms(1,2) by (simp add: mult_mono)
  have lo: "mn * mn \<le> rs"
    unfolding rs_def using assms(3) d by simp
  have "r (k + 1) * (mx * mx - mn * mn) \<le> 1 * (mx * mx - mn * mn)"
    using assms(4) d by (intro mult_right_mono) simp_all
  then have hi: "rs \<le> mx * mx" unfolding rs_def by simp
  have nn: "0 \<le> rs" using lo assms(1) by (meson mult_nonneg_nonneg order_trans)
  have "flatDistanceSquared (fst (generatePointNearLocation r k c mn mx)) c
      = (sqrt rs * cos ang)\<^sup>2 + (sqrt rs * sin ang)\<^sup>2"
    by (simp add: flatDistanceSquared_def generatePointNearLocation_def Let_def rs_def ang_def)
  also have "\<dots> = (sqrt rs)\<^sup>2 * ((cos ang)\<^sup>2 + (sin ang)\<^sup>2)"
    by (simp only: power_mult_distrib distrib_left)
  also have "\<dots> = rs" using nn by simp
  finally have e: "flatDistanceSquared (fst (generatePointNearLocation r k c mn mx)) c = rs" .
  show "mn\<^sup>2 \<le> flatDistanceSquared (fst (generatePointNearLocation r k c mn mx)) c"
    using lo by (simp add: e power2_eq_square)
  show "flatDistanceSquared (fst (generatePointNearLocation r k c mn mx)) c \<le> mx\<^sup>2"
    using hi by (simp add: e power2_eq_square)
qed

lemma jitterAttempts_radius:
  assumes "0 \<le> mn" "mn \<le> mx" "\<forall>k. 0 \<le> r k \<and> r k < 1"
  shows "fst (jitterAttempts r g anchor mn mx n k) = anchor
       \<or> (mn\<^sup>2 \<le> flatDistanceSquared (fst (jitterAttempts r g anchor mn mx n k)) anchor
          \<and> flatDistanceSquared (fst (jitterAttempts r g anchor mn mx n k)) anchor \<le> mx\<^sup>2)"
proof (induction n arbitrary: k)
  case 0 show ?case by simp
next
  case (Suc n)
  obtain p k' where p: "generatePointNearLocation r k anchor mn mx = (p, k')"
    by (cases "generatePointNearLocation r k anchor mn mx")
  have "mn\<^sup>2 \<le> flatDistanceSquared p anchor \<and> flatDistanceSquared p anchor \<le> mx\<^sup>2"
    using generatePointNearLocation_radius[OF assms(1,2), of r k anchor] assms(3) p by simp
  then show ?case using Suc.IH[of k'] p by simp
qed

text \<open>
  What batch A guarantees: every high-risk scooter sits on one of the anchors of its loop
  or within \<open>RED_ZONE_RADIUS_METERS\<close> of one, in the generator's flat metric.
\<close>

lemma highRiskNear_within_radius:
  assumes "\<forall>k. 0 \<le> r k \<and> r k < 1"
    and "highRiskNear r g pre pois i n k = Inr (xs, k')"
  shows "\<forall>s\<in>set xs. \<exists>a\<in>set pois. location s = a
           \<or> flatDistanceSquared (location s) a \<le> RED_ZONE_RADIUS_METERS\<^sup>2"
  using assms(2)
proof (induction n arbitrary: i k xs k')
  case 0 then show ?case by simp
next
  case (Suc n)
  let ?sel = "arrayGet pois \<lfloor>r k * real (length pois)\<rfloor>"
  from Suc.prems obtain loc k1 rest where
    g: "generateValidPointNearAnchor r g ?sel 0 RED_ZONE_RADIUS_METERS (k + 1) = Inr (loc, k1)"
    and rec: "highRiskNear r g pre pois (i + 1) n (k1 + 1) = Inr (rest, k')"
    and xs: "xs = \<lparr>scooter_id = pre @ toDecimal (i + 1), location = loc, state = C,
                        batteryLevel = \<lfloor>r k1 * 50\<rfloor> + 20, service_time = 5,
                        score = TOWING_FINE\<rparr> # rest"
    by (auto simp: Let_def split: sum.splits prod.splits)
  from g obtain a where a: "?sel = Some a"
    and loc: "loc = fst (jitterAttempts r g a 0 RED_ZONE_RADIUS_METERS 10 (k + 1))"
    by (cases ?sel) (auto simp: generateValidPointNearAnchor_def)
  have "a \<in> set pois" using a by (rule arrayGet_in_set)
  moreover have "loc = a \<or> flatDistanceSquared loc a \<le> RED_ZONE_RADIUS_METERS\<^sup>2"
    using jitterAttempts_radius[OF _ _ assms(1), of 0 RED_ZONE_RADIUS_METERS g a 10 "k + 1"]
    by (auto simp: loc RED_ZONE_RADIUS_METERS_def)
  ultimately have "\<exists>a\<in>set pois. loc = a \<or> flatDistanceSquared loc a \<le> RED_ZONE_RADIUS_METERS\<^sup>2"
    by blast
  then show ?case using Suc.IH[OF rec] xs by simp
qed

subsection \<open>Generation returns when every kind of anchor is available\<close>

lemma arrayGet_random_index:
  assumes "xs \<noteq> []" "0 \<le> u" "u < 1"
  shows "\<exists>a. arrayGet xs \<lfloor>u * real (length xs)\<rfloor> = Some a"
proof -
  have pos: "0 < real (length xs)" using assms(1) by simp
  have "0 \<le> u * real (length xs)" using assms(2) by simp
  then have lo: "0 \<le> \<lfloor>u * real (length xs)\<rfloor>" by simp
  have "u * real (length xs) < 1 * real (length xs)"
    using assms(3) pos by (intro mult_strict_right_mono) simp_all
  then have hi: "\<lfloor>u * real (length xs)\<rfloor> < int (length xs)"
    by (simp add: floor_less_iff)
  show ?thesis using lo hi by (simp add: arrayGet_def)
qed

lemma highRiskNear_succeeds:
  assumes "pois \<noteq> [] \<or> n = 0" "\<forall>k. 0 \<le> r k \<and> r k < 1"
  shows "\<exists>xs k'. highRiskNear r g pre pois i n k = Inr (xs, k')"
  using assms(1)
proof (induction n arbitrary: i k)
  case 0 show ?case by simp
next
  case (Suc n)
  then have ne: "pois \<noteq> []" by simp
  obtain a where a: "arrayGet pois \<lfloor>r k * real (length pois)\<rfloor> = Some a"
    using arrayGet_random_index[OF ne, of "r k"] assms(2) by blast
  obtain loc k1 where g: "generateValidPointNearAnchor r g (Some a) 0 RED_ZONE_RADIUS_METERS (k + 1) = Inr (loc, k1)"
    by (cases "jitterAttempts r g a 0 RED_ZONE_RADIUS_METERS 10 (k + 1)")
       (simp add: generateValidPointNearAnchor_def)
  obtain rest k2 where "highRiskNear r g pre pois (i + 1) n (k1 + 1) = Inr (rest, k2)"
    using Suc.IH ne by blast
  with a g show ?case by (simp add: Let_def)
qed

lemma locationsNear_succeeds:
  assumes "anchors \<noteq> [] \<or> n = 0" "\<forall>k. 0 \<le> r k \<and> r k < 1"
  shows "\<exists>xs k'. locationsNear r g anchors mn mx n k = Inr (xs, k')"
  using assms(1)
proof (induction n arbitrary: k)
  case 0 show ?case by simp
next
  case (Suc n)
  then have ne: "anchors \<noteq> []" by simp
  obtain a where a: "arrayGet anchors \<lfloor>r k * real (length anchors)\<rfloor> = Some a"
    using arrayGet_random_index[OF ne, of "r k"] assms(2) by blast
  obtain loc k1 where g: "generateValidPointNearAnchor r g (Some a) mn mx (k + 1) = Inr (loc, k1)"
    by (cases "jitterAttempts r g a mn mx 10 (k + 1)")
       (simp add: generateValidPointNearAnchor_def)
  obtain rest k2 where "locationsNear r g anchors mn mx n k1 = Inr (rest, k2)"
    using Suc.IH ne by blast
  with a g show ?case by (simp add: Let_def)
qed

text \<open>
  With an anchor inside the boundaries for every kind that is asked for, and draws in
  \<open>[0, 1)\<close>, generation returns a population.
\<close>

lemma generateScenario_succeeds:
  assumes rnd: "\<forall>k. 0 \<le> mathRandom env k \<and> mathRandom env k < 1"
    and f: "fetchDistrictBoundaries env st = (st1, Inr g)"
    and l: "loadRedZonePOIs env st1 g = (st2, Inr (sub, bus))"
    and nonempty: "sub \<noteq> [] \<or> nat (countNearSubway cnt) = 0"
      "bus \<noteq> [] \<or> nat (countNearBusStop cnt) = 0"
    and ca: "fetchCommercialAnchors env = Inr ca"
      "filter (\<lambda>a. isPointInDistricts a g) ca \<noteq> [] \<or> nat (countCommercial cnt) = 0"
    and ra: "fetchResidentialAnchors env = Inr ra"
      "filter (\<lambda>a. isPointInDistricts a g) ra \<noteq> [] \<or> nat (countResidential cnt) = 0"
  shows "\<exists>out. generateScenario env st cnt = (st2, Inr out)"
proof -
  obtain a k1 where a: "highRiskNear (mathRandom env) g ''S-HR-SUB-'' sub 0 (nat (countNearSubway cnt)) 0 = Inr (a, k1)"
    using highRiskNear_succeeds[OF nonempty(1) rnd] by blast
  obtain b k2 where b: "highRiskNear (mathRandom env) g ''S-HR-BUS-'' bus 0 (nat (countNearBusStop cnt)) k1 = Inr (b, k2)"
    using highRiskNear_succeeds[OF nonempty(2) rnd] by blast
  have A: "batchA env g cnt sub bus = Inr (a @ b, k2)"
    using a b by (simp add: batchA_def)
  obtain com k3 where com: "locationsNear (mathRandom env) g (filter (\<lambda>a. isPointInDistricts a g) ca) 15 30
            (nat (countCommercial cnt)) k2 = Inr (com, k3)"
    using locationsNear_succeeds[OF ca(2) rnd] by blast
  obtain res k4 where res: "locationsNear (mathRandom env) g (filter (\<lambda>a. isPointInDistricts a g) ra) 20 40
            (nat (countResidential cnt)) k3 = Inr (res, k4)"
    using locationsNear_succeeds[OF ra(2) rnd] by blast
  have "\<exists>bb. batchB env g cnt (a @ b) k2 = Inr bb"
    using com res ca(1) ra(1) by (simp add: batchB_def Let_def)
  then obtain bb where "batchB env g cnt (a @ b) k2 = Inr bb" by blast
  then have "scenarioBatches env st cnt = (st2, Inr bb)"
    using f l A by (simp add: scenarioBatches_def)
  then show ?thesis by (simp add: generateScenario_def)
qed

lemma exampleEnv_boundaries:
  "fetchDistrictBoundaries exampleEnv initialState
     = (initialState\<lparr>cachedDistrictBoundaries := Some [exampleGangnam]\<rparr>, Inr [exampleGangnam])"
  by (simp add: fetchDistrictBoundaries_def Let_def exampleEnv_def initialState_def targetDistricts_def
        exampleGangnam_def exampleJongno_def)

lemma exampleEnv_redzone:
  "loadRedZonePOIs exampleEnv (initialState\<lparr>cachedDistrictBoundaries := Some [exampleGangnam]\<rparr>)
     [exampleGangnam]
     = (\<lparr>cachedDistrictBoundaries = Some [exampleGangnam],
         cachedSubwayExitPOIs = Some [exampleSubwayExit],
         cachedBusStopPOIs = Some [exampleBusStop]\<rparr>, Inr ([exampleSubwayExit], [exampleBusStop]))"
  by (simp add: loadRedZonePOIs_def Let_def exampleEnv_def initialState_def
        exampleGangnam_def exampleSubwayExit_def exampleBusStop_def)

lemma exampleEnv_returns:
  "\<exists>out. generateScenario exampleEnv initialState cnt
     = (\<lparr>cachedDistrictBoundaries = Some [exampleGangnam],
         cachedSubwayExitPOIs = Some [exampleSubwayExit],
         cachedBusStopPOIs = Some [exampleBusStop]\<rparr>, Inr out)"
  by (rule generateScenario_succeeds[OF _ exampleEnv_boundaries exampleEnv_redzone,
        where ca = "[exampleShop]" and ra = "[exampleAlley]"])
     (simp_all add: exampleEnv_def exampleGangnam_def exampleShop_def exampleAlley_def)

lemma exampleEnv_shuffle: "mset (shuffleSort exampleEnv xs) = mset xs"
  by (simp add: exampleEnv_def)

subsection \<open>Generation without an anchor\<close>

lemma highRiskNear_no_anchor:
  "highRiskNear r g pre [] i (Suc n) k = Inl TypeError"
  by (simp add: arrayGet_def generateValidPointNearAnchor_def)

lemma locationsNear_no_anchor:
  "locationsNear r g [] mn mx (Suc n) k = Inl TypeError"
  by (simp add: arrayGet_def generateValidPointNearAnchor_def)

lemma generateScenario_without_subway_anchor:
  assumes "fetchDistrictBoundaries env st = (st1, Inr g)"
    and "loadRedZonePOIs env st1 g = (st2, Inr ([], bus))"
    and "0 < countNearSubway cnt"
  shows "generateScenario env st cnt = (st2, Inl TypeError)"
proof -
  obtain n where "nat (countNearSubway cnt) = Suc n"
    using assms(3) by (metis gr0_implies_Suc zero_less_nat_eq)
  then have "batchA env g cnt [] bus = Inl TypeError"
    by (simp add: batchA_def highRiskNear_no_anchor del: highRiskNear.simps)
  then show ?thesis
    using assms(1,2) by (simp add: generateScenario_def scenarioBatches_def)
qed

lemma generateScenario_without_commercial_anchor:
  assumes "fetchDistrictBoundaries env st = (st1, Inr g)"
    and "loadRedZonePOIs env st1 g = (st2, Inr (sub, bus))"
    and "batchA env g cnt sub bus = Inr (hr, k)"
    and "fetchCommercialAnchors env = Inr ca"
    and "filter (\<lambda>a. isPointInDistricts a g) ca = []"
    and "0 < countCommercial cnt"
  shows "generateScenario env st cnt = (st2, Inl TypeError)"
proof -
  obtain n where "nat (countCommercial cnt) = Suc n"
    using assms(6) by (metis gr0_implies_Suc zero_less_nat_eq)
  then have "batchB env g cnt hr k = Inl TypeError"
    using assms(4,5) by (simp add: batchB_def locationsNear_no_anchor del: locationsNear.simps)
  then show ?thesis
    using assms(1,2,3) by (simp add: generateScenario_def scenarioBatches_def)
qed

lemma generateScenario_without_subway_anchor_any_size:
  assumes "10 \<le> N" "N \<le> 200"
    and "fetchDistrictBoundaries env st = (st1, Inr g)"
    and "loadRedZonePOIs env st1 g = (st2, Inr ([], bus))"
  shows "generateScenario env st N = (st2, Inl TypeError)"
  using generateScenario_without_subway_anchor[OF assms(3,4)] countNearSubway_positive[OF assms(1,2)]
  by blast

lemma counts_50:
  "countNearSubway 50 = 6" "countNearBusStop 50 = 1" "countCommercial 50 = 32"
  using counts_in_range[of 50] by (simp_all add: countNearSubway_def)

lemma batchA_succeeds:
  assumes "\<forall>k. 0 \<le> mathRandom env k \<and> mathRandom env k < 1"
    and "sub \<noteq> [] \<or> nat (countNearSubway cnt) = 0"
    and "bus \<noteq> [] \<or> nat (countNearBusStop cnt) = 0"
  shows "\<exists>hr k. batchA env g cnt sub bus = Inr (hr, k)"
proof -
  obtain a k1 where a: "highRiskNear (mathRandom env) g ''S-HR-SUB-'' sub 0 (nat (countNearSubway cnt)) 0 = Inr (a, k1)"
    using highRiskNear_succeeds[OF assms(2,1)] by blast
  obtain b k2 where b: "highRiskNear (mathRandom env) g ''S-HR-BUS-'' bus 0 (nat (countNearBusStop cnt)) k1 = Inr (b, k2)"
    using highRiskNear_succeeds[OF assms(3,1)] by blast
  show ?thesis using a b by (simp add: batchA_def)
qed


text \<open>A call that returns for a size between 10 and 200 returns at least one scooter.\<close>

lemma generateScenario_nonempty:
  assumes "10 \<le> N" and "N \<le> 200"
    and "\<And>xs. mset (shuffleSort env xs) = mset xs"
    and "generateScenario env st N = (st', Inr out)"
  shows "out \<noteq> []"
proof -
  from assms(4) obtain b where b: "scenarioBatches env st N = (st', Inr b)"
    and out: "out = assemble env b"
    by (rule generateScenario_cases)
  from b obtain st1 g sub bus hr k where
    A: "batchA env g N sub bus = Inr (hr, k)" and Bb: "batchB env g N hr k = Inr b"
    by (rule scenarioBatches_cases)
  note c = counts_in_range[OF assms(1,2)]
  have hr: "highRiskScooters b = hr" using batchB_props(1)[OF Bb] .
  have chr: "1 \<le> countHighRisk N" using c(1) by simp
  then have "countHighRisk N div 4 \<le> countHighRisk N" "0 \<le> countHighRisk N div 4"
    by linarith+
  then have "countNearSubway N \<ge> 0" "countNearBusStop N \<ge> 0"
    using c(4) by (simp_all add: countNearSubway_def)
  then have "int (length hr) = countHighRisk N"
    using batchA_props(1)[OF A] by (simp add: countNearSubway_def)
  then have "0 < int (length hr)" using chr by linarith
  then have "0 < length (highRiskScooters b)" using hr by simp
  then have "0 < length out"
    using assemble_length[OF assms(3), of b] out by simp
  then show ?thesis by simp
qed
section \<open>Properties of the haversine distance\<close>

lemma sin_half_sq: "sin (x / 2) * sin (x / 2) = (1 - cos x) / (2::real)"
proof -
  have "cos x = cos (2 * (x / 2))" by simp
  also have "\<dots> = 1 - 2 * (sin (x / 2))\<^sup>2" by (rule cos_double_sin)
  finally show ?thesis by (simp add: power2_eq_square)
qed

text \<open>Without rounding the haversine term stays in \<open>[0, 1]\<close>, wherever the two places are.\<close>

lemma haversine_a_range:
  "0 \<le> haversine_a exactMath p q \<and> haversine_a exactMath p q \<le> 1"
proof -
  define f1 where "f1 = toRad (lat p)"
  define f2 where "f2 = toRad (lat q)"
  define s where "s = sin ((f2 - f1) / 2) * sin ((f2 - f1) / 2)"
  define t where "t = sin (toRad (lng q - lng p) / 2) * sin (toRad (lng q - lng p) / 2)"
  define cc where "cc = cos f1 * cos f2"
  have d: "toRad (lat q - lat p) = f2 - f1"
    by (simp add: toRad_def f1_def f2_def algebra_simps diff_divide_distrib)
  have a: "haversine_a exactMath p q = s + cc * t"
    by (simp add: haversine_a_def exactMath_def Let_def d s_def t_def cc_def f1_def f2_def
          algebra_simps)
  have s: "s = (1 - cos (f2 - f1)) / 2" unfolding s_def by (rule sin_half_sq)
  have t: "t = (1 - cos (toRad (lng q - lng p))) / 2" unfolding t_def by (rule sin_half_sq)
  have t01: "0 \<le> t" "t \<le> 1" unfolding t by simp_all
  have s01: "0 \<le> s" "s \<le> 1" unfolding s by simp_all
  have "cos (f2 - f1) + cos (f2 + f1) = 2 * cc"
    by (simp add: cos_diff cos_add cc_def)
  then have cc: "cc = (cos (f2 - f1) + cos (f2 + f1)) / 2" by simp
  have sum: "cc + s = (1 + cos (f2 + f1)) / 2"
    by (simp add: cc s add_divide_distrib diff_divide_distrib)
  have "0 \<le> (1 + cos (f2 + f1)) / 2" "(1 + cos (f2 + f1)) / 2 \<le> 1"
    using cos_ge_minus_one[of "f2 + f1"] cos_le_one[of "f2 + f1"] by argo+
  then have lo: "- s \<le> cc" and hi: "cc \<le> 1 - s"
    using sum by argo+
  have "0 \<le> s * (1 - t)" using s01 t01 by simp
  also have "\<dots> = s + (- s) * t" by (simp add: algebra_simps)
  also have "\<dots> \<le> s + cc * t"
    using mult_right_mono[OF lo t01(1)] by (simp only: add_le_cancel_left)
  finally have 1: "0 \<le> haversine_a exactMath p q" using a by simp
  have "s + cc * t \<le> s + (1 - s) * t"
    using mult_right_mono[OF hi t01(1)] by (simp only: add_le_cancel_left)
  also have "\<dots> = 1 - (1 - s) * (1 - t)" by (simp add: algebra_simps)
  also have "\<dots> \<le> 1" using s01 t01 by simp
  finally have 2: "haversine_a exactMath p q \<le> 1" using a by simp
  from 1 2 show ?thesis by simp
qed

lemma atan2_nonneg: "0 \<le> y \<Longrightarrow> 0 \<le> atan2 y x"
proof -
  assume y: "0 \<le> y"
  have "0 \<le> arctan (y / x)" if "0 < x" using that y by simp
  moreover have "0 \<le> arctan (y / x) + pi" if "x < 0"
    using arctan_lbound[of "y / x"] pi_gt_zero by argo
  ultimately show ?thesis using y by (auto simp: atan2_def)
qed

lemma mathSqrt_Num:
  "mathSqrt (Num a) = (if a < 0 then NaN else Num (sqrt a))"
  by (simp add: mathSqrt_def)

text \<open>
  Whatever the library returns, the distance is \<open>NaN\<close> or a number that is not negative:
  the two square roots are, and so is the arc tangent of two such numbers.
\<close>

lemma haversineDistance_sign:
  "haversineDistance m p q = NaN \<or> (\<exists>d. haversineDistance m p q = Num d \<and> 0 \<le> d)"
proof -
  define a where "a = haversine_a m p q"
  show ?thesis
  proof (cases "a < 0 \<or> 1 < a")
    case True
    then have "haversineDistance m p q = NaN"
      by (auto simp: haversineDistance_def Let_def a_def[symmetric] mathSqrt_Num)
    then show ?thesis by simp
  next
    case False
    then have "haversineDistance m p q = Num (6371000 * (2 * atan2 (sqrt a) (sqrt (1 - a))))"
      by (simp add: haversineDistance_def Let_def a_def[symmetric] mathSqrt_Num)
    moreover have "0 \<le> atan2 (sqrt a) (sqrt (1 - a))"
      using False by (intro atan2_nonneg) simp
    ultimately show ?thesis by simp
  qed
qed

lemma haversineDistance_exact:
  "haversineDistance exactMath p q
     = Num (6371000 * (2 * atan2 (sqrt (haversine_a exactMath p q))
                                 (sqrt (1 - haversine_a exactMath p q))))"
  using haversine_a_range[of p q]
  by (simp add: haversineDistance_def Let_def mathSqrt_Num)

lemma haversineDistance_same_lng:
  assumes "lng p = lng q" and "\<bar>toRad (lat q - lat p)\<bar> < pi"
  shows "haversineDistance exactMath p q = Num (6371000 * \<bar>toRad (lat q - lat p)\<bar>)"
proof -
  define h where "h = \<bar>toRad (lat q - lat p)\<bar> / 2"
  have h: "0 \<le> h" "h < pi / 2" using assms(2) by (simp_all add: h_def)
  have cpos: "0 < cos h" using h by (intro cos_gt_zero_pi) simp_all
  have spos: "0 \<le> sin h" using h by (intro sin_ge_zero) simp_all
  have ss: "sin (toRad (lat q - lat p) / 2) * sin (toRad (lat q - lat p) / 2) = sin h * sin h"
    by (cases "0 \<le> toRad (lat q - lat p)") (simp_all add: h_def abs_if)
  have a: "haversine_a exactMath p q = sin h * sin h"
    using assms(1) ss by (simp add: haversine_a_def exactMath_def Let_def toRad_def)
  have "1 - haversine_a exactMath p q = cos h * cos h"
    using sin_cos_squared_add[of h] a by (simp add: power2_eq_square)
  then have c: "sqrt (1 - haversine_a exactMath p q) = cos h"
    using cpos by (simp add: real_sqrt_mult_self)
  have s: "sqrt (haversine_a exactMath p q) = sin h"
    using spos a by (simp add: real_sqrt_mult_self)
  have "atan2 (sin h) (cos h) = arctan (tan h)"
    using cpos by (simp add: atan2_def tan_def)
  also have "\<dots> = h" using h by (intro arctan_tan) simp_all
  finally show ?thesis
    by (simp add: haversineDistance_exact s c h_def)
qed

text \<open>
  With the double-precision values of sine and cosine the haversine term of the two
  antipodal places exceeds 1, so that \<open>Math.sqrt(1 - a)\<close> is \<open>NaN\<close>.
\<close>

lemma antipodes_term: "1 < haversine_a roundedMath (antipodes ! 0) (antipodes ! 1)"
proof -
  have "toRad 180 / 2 = pi / 2" "toRad 16 / 2 = 2 * pi / 45" "toRad (- 16) / 2 = - (2 * pi / 45)"
    by (simp_all add: toRad_def)
  moreover have "pi / 2 \<noteq> 2 * pi / 45" "pi / 2 \<noteq> - (2 * pi / 45)"
    using pi_gt_zero by argo+
  ultimately have ne: "toRad 180 / 2 \<noteq> toRad 16 / 2" "toRad 180 / 2 \<noteq> toRad (- 16) / 2"
    by simp_all
  have q: "sin (toRad 180 / 2) = 1" by (simp add: toRad_def)
  have "haversine_a roundedMath (antipodes ! 0) (antipodes ! 1)
          = doubleSin8 * doubleSin8 + doubleCos8 * doubleCos8 * 1 * 1"
    using ne q by (simp add: haversine_a_def Let_def antipodes_def roundedMath_def)
  also have "\<dots> > 1" by (simp add: doubleSin8_def doubleCos8_def)
  finally show ?thesis .
qed

lemma antipodes_NaN: "haversineDistance roundedMath (antipodes ! 0) (antipodes ! 1) = NaN"
  using antipodes_term by (simp add: haversineDistance_def Let_def mathSqrt_Num)

subsection \<open>A high-risk scooter generated with the radius draw 1/4\<close>

lemma jitterAttempts_first:
  assumes "isPointInDistricts (fst (generatePointNearLocation r k a mn mx)) g"
  shows "jitterAttempts r g a mn mx (Suc n) k = generatePointNearLocation r k a mn mx"
  using assms by (cases "generatePointNearLocation r k a mn mx") simp

lemma quarterDraw_point:
  "generatePointNearLocation (mathRandom quarterDrawEnv) 1 exampleSubwayExit 0 RED_ZONE_RADIUS_METERS
     = (quarterDrawPoint, 3)"
  by (simp add: generatePointNearLocation_def quarterDrawEnv_def exampleEnv_def Let_def
        exampleSubwayExit_def RED_ZONE_RADIUS_METERS_def quarterDrawPoint_def)

lemma quarterDraw_inside: "isPointInDistricts quarterDrawPoint [exampleGangnam]"
  by (simp add: quarterDrawPoint_def exampleGangnam_def)

lemma counts_10:
  "countNearSubway 10 = 1" "countNearBusStop 10 = 0"
  using counts_in_range[of 10] by (simp_all add: countNearSubway_def)

lemma quarterDraw_batchA:
  "\<exists>id k. batchA quarterDrawEnv [exampleGangnam] 10 [exampleSubwayExit] []
     = Inr ([\<lparr>scooter_id = id, location = quarterDrawPoint, state = C,
               batteryLevel = 20, service_time = 5, score = TOWING_FINE\<rparr>], k)"
proof -
  have ten: "(10::nat) = Suc 9" by simp
  have j: "jitterAttempts (mathRandom quarterDrawEnv) [exampleGangnam] exampleSubwayExit 0
             RED_ZONE_RADIUS_METERS 10 1 = (quarterDrawPoint, 3)"
    unfolding ten
    by (subst jitterAttempts_first) (simp_all only: quarterDraw_point fst_conv quarterDraw_inside)
  have r: "mathRandom quarterDrawEnv 0 = 0" "mathRandom quarterDrawEnv 3 = 0"
    by (simp_all add: quarterDrawEnv_def)
  have "highRiskNear (mathRandom quarterDrawEnv) [exampleGangnam] ''S-HR-SUB-'' [exampleSubwayExit]
          0 (Suc 0) 0
      = Inr ([\<lparr>scooter_id = ''S-HR-SUB-'' @ toDecimal 1, location = quarterDrawPoint, state = C,
               batteryLevel = 20, service_time = 5, score = TOWING_FINE\<rparr>], 4)"
    using j by (simp add: r arrayGet_def generateValidPointNearAnchor_def)
  then show ?thesis
    by (simp add: batchA_def counts_10)
qed

lemma quarterDraw_distance:
  "haversineDistance exactMath quarterDrawPoint exampleSubwayExit
     = Num (6371000 * (10 / 111000 * pi / 180))"
proof -
  have d: "toRad (lat exampleSubwayExit - lat quarterDrawPoint) = - (10 / 111000 * pi / 180)"
    by (simp add: toRad_def exampleSubwayExit_def quarterDrawPoint_def)
  have a: "\<bar>toRad (lat exampleSubwayExit - lat quarterDrawPoint)\<bar> = 10 / 111000 * pi / 180"
    unfolding d by simp
  have "10 / 111000 * pi / 180 < pi" by simp
  then have lt: "\<bar>toRad (lat exampleSubwayExit - lat quarterDrawPoint)\<bar> < pi"
    by (simp only: a)
  have eq: "lng quarterDrawPoint = lng exampleSubwayExit"
    by (simp add: exampleSubwayExit_def quarterDrawPoint_def)
  show ?thesis
    using haversineDistance_same_lng[OF eq lt] by (simp only: a)
qed

lemma quarterDraw_far:
  "\<exists>d. haversineDistance exactMath quarterDrawPoint exampleSubwayExit = Num d \<and> 5 < d"
proof -
  have "3 \<le> pi"
    using sin_x_le_x[of "pi / 6"] by (simp add: sin_30)
  then have "5 < 6371000 * (10 / 111000 * pi / 180)" by argo
  then show ?thesis using quarterDraw_distance by blast
qed

section \<open>Properties of the matrix provider\<close>

lemma getDistanceMatrix_total:
  "\<exists>m. snd (getDistanceMatrix env locations) = Inr m"
  by (auto simp: getDistanceMatrix_def split: option.splits list.splits sum.splits)

lemma getDistanceMatrix_few_locations:
  "length locations < 3 \<Longrightarrow>
     getDistanceMatrix env locations = ([], Inr (calculateEuclideanMatrices (mathLib env) locations))"
  by (simp add: getDistanceMatrix_def)

lemma getDistanceMatrix_no_key:
  "INAVI_API_KEY env = None \<or> INAVI_API_KEY env = Some [] \<Longrightarrow>
     getDistanceMatrix env locations = ([], Inr (calculateEuclideanMatrices (mathLib env) locations))"
  by (auto simp: getDistanceMatrix_def)

lemma getDistanceMatrix_try_failed:
  "tryInavi env locations = Inl e \<or> tryInavi env locations = Inr None \<Longrightarrow>
     snd (getDistanceMatrix env locations) = Inr (calculateEuclideanMatrices (mathLib env) locations)"
  by (auto simp: getDistanceMatrix_def split: option.splits list.splits)

lemma tryInavi_cases:
  "inaviDistanceMatrix env locations = Rejected \<Longrightarrow> tryInavi env locations = Inl FetchError"
  "inaviDistanceMatrix env locations = NotOk \<Longrightarrow> tryInavi env locations = Inr None"
  "inaviDistanceMatrix env locations = BodyNotJson \<Longrightarrow> tryInavi env locations = Inl FetchError"
  "inaviDistanceMatrix env locations = Body data \<Longrightarrow> extractMatrices data = Inl e
     \<Longrightarrow> tryInavi env locations = Inl e"
  "inaviDistanceMatrix env locations = Body data \<Longrightarrow> extractMatrices data = Inr (dm, tm)
     \<Longrightarrow> \<not> validMatrices dm tm \<Longrightarrow> tryInavi env locations = Inr None"
  "inaviDistanceMatrix env locations = Body data \<Longrightarrow> extractMatrices data = Inr (dm, tm)
     \<Longrightarrow> validMatrices dm tm \<Longrightarrow> tryInavi env locations
         = Inr (Some (intMatrix (coerceNumber env) (elements dm),
                      intMatrix (coerceNumber env) (elements tm)))"
  by (simp_all add: tryInavi_def)

lemma setEntry_shaped: "shaped n m \<Longrightarrow> i < n \<Longrightarrow> shaped n (setEntry m i j v)"
  by (auto simp: shaped_def setEntry_def list_all_iff dest!: set_update_subset_insert[THEN subsetD])

lemma setEntry_nth:
  "shaped n m \<Longrightarrow> i < n \<Longrightarrow> j < n \<Longrightarrow> a < n \<Longrightarrow> b < n \<Longrightarrow>
     setEntry m i j v ! a ! b = (if a = i \<and> b = j then v else m ! a ! b)"
  by (auto simp: shaped_def setEntry_def list_all_iff nth_list_update)

lemma innerLoop_props:
  assumes "shaped n d" "shaped n t" "i < n" "\<forall>j\<in>set js. j < n"
  shows "shaped n (fst (innerLoop m locs i js (d, t))) \<and> shaped n (snd (innerLoop m locs i js (d, t)))
       \<and> (\<forall>a<n. \<forall>b<n. fst (innerLoop m locs i js (d, t)) ! a ! b
                = (if a = i \<and> b \<in> set js then fst (matrixEntry m locs i b) else d ! a ! b))
       \<and> (\<forall>a<n. \<forall>b<n. snd (innerLoop m locs i js (d, t)) ! a ! b
                = (if a = i \<and> b \<in> set js then snd (matrixEntry m locs i b) else t ! a ! b))"
  using assms
proof (induction js arbitrary: d t)
  case Nil then show ?case by simp
next
  case (Cons j js)
  let ?d = "setEntry d i j (fst (matrixEntry m locs i j))"
  let ?t = "setEntry t i j (snd (matrixEntry m locs i j))"
  have s: "shaped n ?d" "shaped n ?t"
    using Cons.prems by (simp_all add: setEntry_shaped)
  have j: "j < n" using Cons.prems by simp
  note IH = Cons.IH[OF s Cons.prems(3), simplified]
  have rest: "\<forall>j\<in>set js. j < n" using Cons.prems by simp
  show ?case
    using IH[OF rest] setEntry_nth[OF Cons.prems(1) Cons.prems(3) j]
          setEntry_nth[OF Cons.prems(2) Cons.prems(3) j]
    by auto
qed

lemma outerLoop_props:
  assumes "shaped n d" "shaped n t" "\<forall>i\<in>set is. i < n" "\<forall>j\<in>set js. j < n"
  shows "shaped n (fst (outerLoop m locs is js (d, t))) \<and> shaped n (snd (outerLoop m locs is js (d, t)))
       \<and> (\<forall>a<n. \<forall>b<n. fst (outerLoop m locs is js (d, t)) ! a ! b
                = (if a \<in> set is \<and> b \<in> set js then fst (matrixEntry m locs a b) else d ! a ! b))
       \<and> (\<forall>a<n. \<forall>b<n. snd (outerLoop m locs is js (d, t)) ! a ! b
                = (if a \<in> set is \<and> b \<in> set js then snd (matrixEntry m locs a b) else t ! a ! b))"
  using assms(1,2,3)
proof (induction "is" arbitrary: d t)
  case Nil then show ?case by simp
next
  case (Cons i "is")
  obtain d' t' where m: "innerLoop m locs i js (d, t) = (d', t')"
    by (cases "innerLoop m locs i js (d, t)")
  have i: "i < n" using Cons.prems by simp
  note inner = innerLoop_props[OF Cons.prems(1,2) i assms(4), of m locs, unfolded m fst_conv snd_conv]
  have rest: "\<forall>i\<in>set is. i < n" using Cons.prems by simp
  note IH = Cons.IH[OF conjunct1[OF inner] conjunct1[OF conjunct2[OF inner]] rest]
  show ?case
    using IH inner by (auto simp: m)
qed

lemma calculateEuclideanMatrices_props:
  "shaped (length locations) (fst (calculateEuclideanMatrices m locations))"
  "shaped (length locations) (snd (calculateEuclideanMatrices m locations))"
  "i < length locations \<Longrightarrow> j < length locations \<Longrightarrow>
     fst (calculateEuclideanMatrices m locations) ! i ! j = fst (matrixEntry m locations i j)"
  "i < length locations \<Longrightarrow> j < length locations \<Longrightarrow>
     snd (calculateEuclideanMatrices m locations) ! i ! j = snd (matrixEntry m locations i j)"
proof -
  let ?n = "length locations"
  let ?z = "replicate ?n (replicate ?n (Num 0))"
  have z: "shaped ?n ?z" by (simp add: shaped_def list_all_iff)
  have r: "\<forall>i\<in>set [0..<?n]. i < ?n" by simp
  note p = outerLoop_props[OF z z r r, of m locations]
  have c: "calculateEuclideanMatrices m locations = outerLoop m locations [0..<?n] [0..<?n] (?z, ?z)"
    by (simp add: calculateEuclideanMatrices_def Let_def)
  show "shaped ?n (fst (calculateEuclideanMatrices m locations))"
    "shaped ?n (snd (calculateEuclideanMatrices m locations))"
    using p unfolding c by blast+
  show "fst (calculateEuclideanMatrices m locations) ! i ! j = fst (matrixEntry m locations i j)"
    if "i < ?n" "j < ?n"
    using p that unfolding c by simp
  show "snd (calculateEuclideanMatrices m locations) ! i ! j = snd (matrixEntry m locations i j)"
    if "i < ?n" "j < ?n"
    using p that unfolding c by simp
qed

lemma calculateEuclideanMatrices_entries:
  assumes "i < length locations" "j < length locations"
  shows "fst (calculateEuclideanMatrices m locations) ! i ! j
           = (if i = j then Num 0 else haversineDistance m (locations ! i) (locations ! j))"
    and "snd (calculateEuclideanMatrices m locations) ! i ! j
           = (if i = j then Num 0
              else numDiv (haversineDistance m (locations ! i) (locations ! j)) (Num avgSpeedMps))"
  using calculateEuclideanMatrices_props(3,4)[OF assms]
  by (simp_all add: matrixEntry_def Let_def)

lemma calculateEuclideanMatrices_shape:
  "length (fst (calculateEuclideanMatrices m locations)) = length locations"
  "i < length locations \<Longrightarrow> length (fst (calculateEuclideanMatrices m locations) ! i) = length locations"
  "length (snd (calculateEuclideanMatrices m locations)) = length locations"
  "i < length locations \<Longrightarrow> length (snd (calculateEuclideanMatrices m locations) ! i) = length locations"
  using calculateEuclideanMatrices_props(1,2)[of locations m]
  by (simp_all add: shaped_def list_all_iff)

lemma mathRound_orZero:
  "isInteger (mathRound (orZero x)) \<or> mathRound (orZero x) = PosInf
   \<or> mathRound (orZero x) = NegInf"
  by (cases x) (simp_all add: mathRound_def orZero_def isInteger_def)

lemma intMatrix_integers:
  "row \<in> set (intMatrix coerce rows) \<Longrightarrow> x \<in> set row \<Longrightarrow>
     isInteger x \<or> x = PosInf \<or> x = NegInf"
proof -
  assume "row \<in> set (intMatrix coerce rows)" "x \<in> set row"
  then obtain val where "x = roundOrZero coerce val"
    by (auto simp: intMatrix_def split: json.splits)
  then show ?thesis
    using mathRound_orZero[of "toNumber coerce val"] by (simp add: roundOrZero_def)
qed

lemma getDistanceMatrix_cases:
  assumes "snd (getDistanceMatrix env locations) = Inr m"
  shows "m = calculateEuclideanMatrices (mathLib env) locations
       \<or> (\<exists>data dj tj. inaviDistanceMatrix env locations = Body data
             \<and> extractMatrices data = Inr (dj, tj) \<and> validMatrices dj tj
             \<and> m = (intMatrix (coerceNumber env) (elements dj),
                     intMatrix (coerceNumber env) (elements tj)))"
  using assms
  by (auto simp: getDistanceMatrix_def tryInavi_def
           split: if_splits option.splits list.splits sum.splits http_result.splits)

lemma stops_distance:
  "haversineDistance exactMath stopA stopB = Num (6371000 * (3 / 1000000 * pi / 180))"
proof -
  have d: "toRad (lat stopB - lat stopA) = 3 / 1000000 * pi / 180"
    by (simp add: toRad_def stopA_def stopB_def)
  have a: "\<bar>toRad (lat stopB - lat stopA)\<bar> = 3 / 1000000 * pi / 180"
    by (simp add: d)
  have lt: "\<bar>toRad (lat stopB - lat stopA)\<bar> < pi"
    by (simp add: d)
  have eq: "lng stopA = lng stopB"
    by (simp add: stopA_def stopB_def)
  show ?thesis
    using haversineDistance_same_lng[OF eq lt] by (simp only: a)
qed

lemma stops_distance_bounds:
  "0 < 6371000 * (3 / 1000000 * pi / 180)" "6371000 * (3 / 1000000 * pi / 180) < 1 / 2"
proof -
  have "6371000 * (3 / 1000000 * pi / 180) = 6371 / 60000 * pi" by simp
  moreover have "0 < 6371 / 60000 * pi" by simp
  moreover have "6371 / 60000 * pi < 1 / 2" using pi_less_4 by argo
  ultimately show "0 < 6371000 * (3 / 1000000 * pi / 180)"
    "6371000 * (3 / 1000000 * pi / 180) < 1 / 2"
    by (simp_all only:)
qed

lemma between_0_and_1_not_integer:
  fixes x :: real
  assumes "0 < x" "x < 1"
  shows "x \<notin> \<int>"
proof
  assume "x \<in> \<int>"
  then obtain k :: int where "x = of_int k" by (rule Ints_cases)
  with assms have "0 < k" "k < 1" by simp_all
  then show False by simp
qed

lemma twoStops_entry:
  "fst (calculateEuclideanMatrices m twoStops) ! 0 ! 1 = haversineDistance m stopA stopB"
  "snd (calculateEuclideanMatrices m twoStops) ! 0 ! 1
     = numDiv (haversineDistance m stopA stopB) (Num avgSpeedMps)"
  using calculateEuclideanMatrices_entries[of 0 twoStops 1 m] by (simp_all add: twoStops_def)

lemma antipodes_entry:
  "fst (calculateEuclideanMatrices roundedMath antipodes) ! 0 ! 1 = NaN"
  using calculateEuclideanMatrices_entries(1)[of 0 antipodes 1 roundedMath] antipodes_NaN
  by (simp add: antipodes_def)

lemma singleRow_remote:
  "getDistanceMatrix singleRowEnv threeStops
     = ([threeStops], Inr ([[Num (- 5), PosInf]], [[Num 5, Num 5]]))"
proof -
  let ?dj = "JArray [JArray [JNumber (Num (- 5)), JNumber PosInf]]"
  let ?tj = "JArray [JArray [JNumber (Num 5), JNumber (Num 5)]]"
  have e: "extractMatrices singleRowResponse = Inr (?dj, ?tj)"
    by (simp add: extractMatrices_def singleRowResponse_def optProp_def getProp_def truthy_def)
  have v: "validMatrices ?dj ?tj"
    by (simp add: validMatrices_def truthy_def isArray_def elements_def)
  have "tryInavi singleRowEnv threeStops = Inr (Some ([[Num (- 5), PosInf]], [[Num 5, Num 5]]))"
    using tryInavi_cases(6)[of singleRowEnv threeStops singleRowResponse, OF _ e v]
    by (simp add: singleRowEnv_def intMatrix_def elements_def roundOrZero_def toNumber_def
          orZero_def mathRound_def)
  then show ?thesis
    by (simp add: getDistanceMatrix_def threeStops_def singleRowEnv_def)
qed

lemma noMatrix_remote:
  "getDistanceMatrix noMatrixEnv threeStops = ([threeStops], Inr ([[], []], [[]]))"
proof -
  let ?dj = "JArray [JString ''x'', JNumber (Num 7)]"
  let ?tj = "JArray [JNull]"
  have e: "extractMatrices noMatrixResponse = Inr (?dj, ?tj)"
    by (simp add: extractMatrices_def noMatrixResponse_def optProp_def getProp_def truthy_def)
  have v: "validMatrices ?dj ?tj"
    by (simp add: validMatrices_def truthy_def isArray_def elements_def)
  have "tryInavi noMatrixEnv threeStops = Inr (Some ([[], []], [[]]))"
    using tryInavi_cases(6)[of noMatrixEnv threeStops noMatrixResponse, OF _ e v]
    by (simp add: noMatrixEnv_def intMatrix_def elements_def)
  then show ?thesis
    by (simp add: getDistanceMatrix_def threeStops_def noMatrixEnv_def)
qed

text \<open>The pair that \<open>calculateEuclideanMatrices\<close> returns, entry by entry.\<close>

lemma calculateEuclideanMatrices_pair:
  "\<exists>dm tm. calculateEuclideanMatrices m locations = (dm, tm)
      \<and> length dm = length locations \<and> length tm = length locations
      \<and> (\<forall>i<length locations.
            length (dm ! i) = length locations \<and> length (tm ! i) = length locations
            \<and> (\<forall>j<length locations.
                  dm ! i ! j
                    = (if i = j then Num 0
                       else haversineDistance m (locations ! i) (locations ! j))
                \<and> tm ! i ! j
                    = (if i = j then Num 0
                       else numDiv (haversineDistance m (locations ! i) (locations ! j))
                                   (Num (30000 / 3600)))))"
proof -
  obtain dm tm where p: "calculateEuclideanMatrices m locations = (dm, tm)"
    by (cases "calculateEuclideanMatrices m locations")
  have sp: "avgSpeedMps = 30000 / 3600" by (simp add: avgSpeedMps_def)
  have l: "length dm = length locations" "length tm = length locations"
    using calculateEuclideanMatrices_shape(1,3)[of m locations] p by simp_all
  have rows: "length (dm ! i) = length locations \<and> length (tm ! i) = length locations"
    if "i < length locations" for i
    using calculateEuclideanMatrices_shape(2,4)[OF that, of m] p by simp
  have entries:
    "dm ! i ! j = (if i = j then Num 0 else haversineDistance m (locations ! i) (locations ! j))
     \<and> tm ! i ! j = (if i = j then Num 0
                     else numDiv (haversineDistance m (locations ! i) (locations ! j))
                                 (Num (30000 / 3600)))"
    if "i < length locations" "j < length locations" for i j
    using calculateEuclideanMatrices_entries[OF that, of m] p by (simp add: sp)
  show ?thesis
    using p l rows entries by simp
qed

lemma oneByOne_remote:
  "getDistanceMatrix oneByOneEnv threeStops = ([threeStops], Inr ([[Num 5]], [[Num 5]]))"
proof -
  let ?j = "JArray [JArray [JNumber (Num 5)]]"
  have e: "extractMatrices oneByOneResponse = Inr (?j, ?j)"
    by (simp add: extractMatrices_def oneByOneResponse_def optProp_def getProp_def truthy_def)
  have v: "validMatrices ?j ?j"
    by (simp add: validMatrices_def truthy_def isArray_def elements_def)
  have "tryInavi oneByOneEnv threeStops = Inr (Some ([[Num 5]], [[Num 5]]))"
    using tryInavi_cases(6)[of oneByOneEnv threeStops oneByOneResponse, OF _ e v]
    by (simp add: oneByOneEnv_def intMatrix_def elements_def roundOrZero_def toNumber_def
          orZero_def mathRound_def)
  then show ?thesis
    by (simp add: getDistanceMatrix_def threeStops_def oneByOneEnv_def)
qed

section \<open>Properties of the optimisation\<close>

lemma mapE_Inr:
  "mapE f xs = Inr ys \<Longrightarrow> y \<in> set ys \<Longrightarrow> \<exists>x\<in>set xs. f x = Inr y"
  by (induction xs arbitrary: ys) (auto split: sum.splits)

text \<open>
  The money accumulators when every scooter carries a finite \<open>penaltyValue\<close>, as the
  scooters of the other copy of the generator do.
\<close>

lemma addTravel_score:
  "addTravel dm tm f t acc = Inr acc1 \<Longrightarrow>
     totalScore' acc1 = totalScore' acc \<and> revenueCollected' acc1 = revenueCollected' acc
     \<and> finesAvoided' acc1 = finesAvoided' acc \<and> visitedScooters acc1 = visitedScooters acc"
  by (cases f) (auto simp: addTravel_def split: if_splits)

lemma addTravel_balanced:
  "addTravel dm tm f t acc = Inr acc1 \<Longrightarrow> balanced acc \<Longrightarrow> balanced acc1"
  using addTravel_score[of dm tm f t acc acc1] by (simp add: balanced_def)

lemma find_in_set: "find P xs = Some x \<Longrightarrow> x \<in> set xs"
  by (metis find_Some_iff nth_mem)

lemma addVisit_balanced:
  assumes "balanced acc" and "\<forall>s\<in>set scooters. \<exists>v. penaltyValue s = Some (Num v)"
  shows "balanced (addVisit hub scooters toName acc)"
proof (cases "find (\<lambda>s. scooter_id s = toName) scooters")
  case None
  with assms(1) show ?thesis by (simp add: addVisit_def)
next
  case (Some scooter)
  then obtain v where v: "penaltyOf scooter = Num v"
    using assms(2) find_in_set by (fastforce simp: penaltyOf_def)
  from assms(1) obtain t r f where
    b: "totalScore' acc = Num t" "revenueCollected' acc = Num r" "finesAvoided' acc = Num f"
      "t = r + f"
    unfolding balanced_def by blast
  show ?thesis
    by (cases "state scooter") (simp_all add: addVisit_def Some Let_def v b balanced_def)
qed

lemma statsLoop_balanced:
  assumes "\<forall>s\<in>set scooters. \<exists>v. penaltyValue s = Some (Num v)"
  shows "statsLoop hub scooters dm tm legs acc = Inr acc' \<Longrightarrow> balanced acc \<Longrightarrow> balanced acc'"
proof (induction legs arbitrary: acc)
  case Nil then show ?case by simp
next
  case (Cons leg legs)
  obtain fromName toName where leg: "leg = (fromName, toName)" by (cases leg)
  from Cons.prems(1) leg obtain acc1 where
    t: "addTravel dm tm (nameToIndex hub scooters fromName) (nameToIndex hub scooters toName) acc = Inr acc1"
    and r: "statsLoop hub scooters dm tm legs (addVisit hub scooters toName acc1) = Inr acc'"
    by (auto split: sum.splits)
  show ?case
    using Cons.IH[OF r] addVisit_balanced[OF _ assms] addTravel_balanced[OF t Cons.prems(2)]
    by blast
qed

lemma parseRoute_score:
  assumes "parseRoute routeTime scooters hub dm tm route index = Inr r"
    and "\<forall>s\<in>set scooters. \<exists>v. penaltyValue s = Some (Num v)"
  shows "strictEquals (totalScore r) (numAdd (revenueCollected r) (finesAvoided r))"
proof -
  from assms(1) obtain acc where
    s: "statsLoop hub scooters dm tm (consecutive (route_name route)) noStats = Inr acc"
    and r: "totalScore r = totalScore' acc" "revenueCollected r = revenueCollected' acc"
      "finesAvoided r = finesAvoided' acc"
    by (auto simp: parseRoute_def Let_def split: sum.splits)
  have "balanced noStats" by (simp add: balanced_def noStats_def)
  then have "balanced acc" using statsLoop_balanced[OF assms(2) s] by simp
  then show ?thesis using r by (auto simp: balanced_def strictEquals_def)
qed

lemma foldl_penalty_finite:
  assumes "\<forall>s\<in>set chunk. \<exists>v. penaltyValue s = Some (Num v)"
  shows "\<exists>t. foldl (\<lambda>sum s. numAdd sum (penaltyOf s)) (Num a) chunk = Num t
            \<and> (\<exists>r f. foldl (\<lambda>sum s. numAdd sum (penaltyOf s)) (Num b)
                         (filter (\<lambda>s. state s = B) chunk) = Num r
                    \<and> foldl (\<lambda>sum s. numAdd sum (penaltyOf s)) (Num c)
                         (filter (\<lambda>s. state s = C) chunk) = Num f
                    \<and> t - a = (r - b) + (f - c))"
  using assms
proof (induction chunk arbitrary: a b c)
  case Nil show ?case by simp
next
  case (Cons s chunk)
  then obtain v where v: "penaltyOf s = Num v" by (auto simp: penaltyOf_def)
  have rest: "\<forall>s\<in>set chunk. \<exists>v. penaltyValue s = Some (Num v)" using Cons.prems by simp
  show ?case
  proof (cases "state s")
    case B
    from Cons.IH[OF rest, of "a + v" "b + v" c] show ?thesis
      using v B by auto
  next
    case C
    from Cons.IH[OF rest, of "a + v" b "c + v"] show ?thesis
      using v C by auto
  qed
qed

lemma mockRoute_score:
  assumes "\<forall>s\<in>set chunk. \<exists>v. penaltyValue s = Some (Num v)"
  shows "strictEquals (totalScore (mockRoute hub i chunk))
           (numAdd (revenueCollected (mockRoute hub i chunk)) (finesAvoided (mockRoute hub i chunk)))"
  using foldl_penalty_finite[OF assms, of 0 0 0]
  by (auto simp: mockRoute_def sumPenalty_def strictEquals_def)

text \<open>The sort permutes the list.\<close>

lemma insertBy_mset: "mset (insertBy cmp x ys) = add_mset x (mset ys)"
  by (induction ys) simp_all

lemma sortBy_mset: "mset (sortBy cmp xs) = mset xs"
  by (induction xs) (simp_all add: sortBy_def insertBy_mset)

lemma sortBy_set: "set (sortBy cmp xs) = set xs"
  using sortBy_mset[of cmp xs] by (metis set_mset_mset)

lemma sortBy_length: "length (sortBy cmp xs) = length xs"
  using sortBy_mset[of cmp xs] by (metis size_mset)

lemma sortBy_empty_iff: "sortBy cmp xs = [] \<longleftrightarrow> xs = []"
  using sortBy_length[of cmp xs] by (metis length_0_conv)

lemma generateMockRoutes_elements:
  assumes "r \<in> set (generateMockRoutes scooters hub truckCount)"
  shows "\<exists>i chunk. r = mockRoute hub i chunk \<and> chunk \<noteq> [] \<and> set chunk \<subseteq> set scooters"
proof -
  define sorted where "sorted = sortBy (\<lambda>a b. numSub (penaltyOf b) (penaltyOf a)) scooters"
  define chunkSize where "chunkSize = (length sorted + truckCount - 1) div truckCount"
  define f where "f = (\<lambda>i. let chunk = take chunkSize (drop (i * chunkSize) sorted)
                           in if length chunk = 0 then [] else [mockRoute hub i chunk])"
  have "generateMockRoutes scooters hub truckCount = concat (map f [0..<truckCount])"
    unfolding generateMockRoutes_def Let_def sorted_def chunkSize_def f_def by (rule refl)
  with assms obtain i where "r \<in> set (f i)" by auto
  then have "r = mockRoute hub i (take chunkSize (drop (i * chunkSize) sorted))"
    and "take chunkSize (drop (i * chunkSize) sorted) \<noteq> []"
    unfolding f_def Let_def by (auto split: if_splits)
  moreover have "set (take chunkSize (drop (i * chunkSize) sorted)) \<subseteq> set scooters"
    using set_take_subset set_drop_subset sortBy_set[of _ scooters] unfolding sorted_def
    by fast
  ultimately show ?thesis by blast
qed

lemma trySolve_offline: "trySolve offlineEnv scooters hub truckCount = Inl FetchError"
proof -
  obtain m where "snd (getDistanceMatrix (matrixEnv offlineEnv) (locationsOf scooters hub)) = Inr m"
    using getDistanceMatrix_total by blast
  then show ?thesis
    by (cases m) (simp add: trySolve_def Let_def offlineEnv_def)
qed

lemma generateMockRoutes_one_truck:
  assumes "scooters \<noteq> []"
  shows "generateMockRoutes scooters hub (Suc 0)
           = [mockRoute hub 0 (sortBy (\<lambda>a b. numSub (penaltyOf b) (penaltyOf a)) scooters)]"
  using assms by (simp add: generateMockRoutes_def Let_def sortBy_empty_iff sortBy_length)

text \<open>
  With every scooter carrying a finite \<open>penaltyValue\<close>, each route of \<open>solveVrp\<close> has
  \<open>totalScore\<close> equal to \<open>revenueCollected + finesAvoided\<close>, on both return paths.
\<close>

lemma workingScooters_subset: "set (workingScooters scooters hub) \<subseteq> set scooters"
  by (auto simp: workingScooters_def Let_def dest: in_set_takeD)

lemma solveVrp_totalScore_with_penaltyValue:
  assumes "\<forall>s\<in>set scooters. \<exists>v. penaltyValue s = Some (Num v)"
    and "r \<in> set (solveVrp env scooters hub truckCount)"
  shows "strictEquals (totalScore r) (numAdd (revenueCollected r) (finesAvoided r))"
proof (cases "trySolve env scooters hub truckCount")
  case (Inl e)
  with assms(2) have "r \<in> set (generateMockRoutes scooters hub truckCount)"
    by (simp add: solveVrp_def)
  then obtain i chunk where "r = mockRoute hub i chunk" "set chunk \<subseteq> set scooters"
    using generateMockRoutes_elements by blast
  then show ?thesis using mockRoute_score[of chunk hub i] assms(1) by blast
next
  case (Inr parsed)
  with assms(2) have rin: "r \<in> set parsed" by (simp add: solveVrp_def)
  from Inr obtain dm tm response where
    "parseVrpResponseWithGeometry (inaviRouteTime env) response
       (workingScooters scooters hub) hub dm tm = Inr parsed"
    by (auto simp: trySolve_def Let_def split: sum.splits prod.splits)
  then obtain x where
    "(\<lambda>(route, index). parseRoute (inaviRouteTime env) (workingScooters scooters hub) hub dm tm
         route index) x = Inr r"
    unfolding parseVrpResponseWithGeometry_def using mapE_Inr[OF _ rin] by blast
  moreover have "\<forall>s\<in>set (workingScooters scooters hub). \<exists>v. penaltyValue s = Some (Num v)"
    using assms(1) workingScooters_subset by blast
  ultimately show ?thesis using parseRoute_score by (cases x) auto
qed

text \<open>
  Without a \<open>penaltyValue\<close> every sum of penalties over at least one scooter is \<open>NaN\<close>.
\<close>

lemma foldl_penalty_NaN:
  "foldl (\<lambda>sum s. numAdd sum (penaltyOf s)) NaN chunk = NaN"
  by (induction chunk) simp_all

lemma sumPenalty_NaN:
  assumes "chunk \<noteq> []" and "\<forall>s\<in>set chunk. penaltyValue s = None"
  shows "sumPenalty chunk = NaN"
proof -
  obtain s rest where c: "chunk = s # rest" using assms(1) by (cases chunk) auto
  then have "penaltyOf s = NaN" using assms(2) by (simp add: penaltyOf_def)
  then show ?thesis by (simp add: sumPenalty_def c foldl_penalty_NaN)
qed

lemma addVisit_score_NaN:
  assumes "\<forall>s\<in>set scooters. penaltyValue s = None"
    and "0 < visitedScooters acc \<longrightarrow> totalScore' acc = NaN"
  shows "0 < visitedScooters (addVisit hub scooters toName acc)
           \<longrightarrow> totalScore' (addVisit hub scooters toName acc) = NaN"
proof (cases "find (\<lambda>s. scooter_id s = toName) scooters")
  case None
  with assms(2) show ?thesis by (simp add: addVisit_def)
next
  case (Some scooter)
  then have "penaltyOf scooter = NaN"
    using assms(1) find_in_set by (fastforce simp: penaltyOf_def)
  moreover have "numAdd x NaN = NaN" for x by (cases x) simp_all
  ultimately show ?thesis
    using Some assms(2) by (cases "state scooter") (simp_all add: addVisit_def Let_def)
qed

lemma statsLoop_score_NaN:
  assumes "\<forall>s\<in>set scooters. penaltyValue s = None"
  shows "statsLoop hub scooters dm tm legs acc = Inr acc' \<Longrightarrow>
         (0 < visitedScooters acc \<longrightarrow> totalScore' acc = NaN) \<Longrightarrow>
         (0 < visitedScooters acc' \<longrightarrow> totalScore' acc' = NaN)"
proof (induction legs arbitrary: acc)
  case Nil then show ?case by simp
next
  case (Cons leg legs)
  obtain fromName toName where leg: "leg = (fromName, toName)" by (cases leg)
  from Cons.prems(1) leg obtain acc1 where
    t: "addTravel dm tm (nameToIndex hub scooters fromName) (nameToIndex hub scooters toName) acc = Inr acc1"
    and r: "statsLoop hub scooters dm tm legs (addVisit hub scooters toName acc1) = Inr acc'"
    by (auto split: sum.splits)
  have "0 < visitedScooters acc1 \<longrightarrow> totalScore' acc1 = NaN"
    using addTravel_score[OF t] Cons.prems(2) by simp
  then have "0 < visitedScooters (addVisit hub scooters toName acc1)
               \<longrightarrow> totalScore' (addVisit hub scooters toName acc1) = NaN"
    by (rule addVisit_score_NaN[OF assms])
  then show ?case by (rule Cons.IH[OF r])
qed

text \<open>
  Handed the scooters of \<open>generateScenario\<close>, \<open>solveVrp\<close> returns no route that collects a
  scooter and has a \<open>totalScore\<close> other than \<open>NaN\<close>, on either return path.
\<close>

lemma solveVrp_generated_scooters:
  assumes "r \<in> set (solveVrp env (map fromGenerator out) hub truckCount)"
    and "0 < scootersCollected r"
  shows "totalScore r = NaN"
proof -
  have none: "\<forall>s\<in>set (map fromGenerator out). penaltyValue s = None"
    by (simp add: fromGenerator_def)
  show ?thesis
  proof (cases "trySolve env (map fromGenerator out) hub truckCount")
    case (Inl e)
    with assms(1) have "r \<in> set (generateMockRoutes (map fromGenerator out) hub truckCount)"
      by (simp add: solveVrp_def)
    then obtain i chunk where c: "r = mockRoute hub i chunk" "chunk \<noteq> []"
      "set chunk \<subseteq> set (map fromGenerator out)"
      using generateMockRoutes_elements by blast
    then have "sumPenalty chunk = NaN" using none by (intro sumPenalty_NaN) auto
    then show ?thesis by (simp add: c(1) mockRoute_def)
  next
    case (Inr parsed)
    with assms(1) have rin: "r \<in> set parsed" by (simp add: solveVrp_def)
    let ?w = "workingScooters (map fromGenerator out) hub"
    from Inr obtain dm tm response where
      "parseVrpResponseWithGeometry (inaviRouteTime env) response ?w hub dm tm = Inr parsed"
      by (auto simp: trySolve_def Let_def split: sum.splits prod.splits)
    then obtain x where
      "(\<lambda>(route, index). parseRoute (inaviRouteTime env) ?w hub dm tm route index) x = Inr r"
      unfolding parseVrpResponseWithGeometry_def using mapE_Inr[OF _ rin] by blast
    then obtain route index where p: "parseRoute (inaviRouteTime env) ?w hub dm tm route index = Inr r"
      by (cases x) auto
    then obtain acc where
      s: "statsLoop hub ?w dm tm (consecutive (route_name route)) noStats = Inr acc"
      and v: "totalScore r = totalScore' acc" "scootersCollected r = visitedScooters acc"
      by (auto simp: parseRoute_def Let_def split: sum.splits)
    have w: "\<forall>s\<in>set ?w. penaltyValue s = None"
      using none workingScooters_subset by blast
    have "0 < visitedScooters acc \<longrightarrow> totalScore' acc = NaN"
      using statsLoop_score_NaN[OF w s] by (simp add: noStats_def)
    then show ?thesis using v assms(2) by simp
  qed
qed

lemma fleet200_length: "length fleet200 = 200"
  by (simp add: fleet200_def)

lemma fleet200_nth: "i < 200 \<Longrightarrow> fleet200 ! i = fleetScooter i"
  by (simp add: fleet200_def)

lemma fleetScooter_inj: "fleetScooter i = fleetScooter j \<Longrightarrow> i = j"
proof -
  assume "fleetScooter i = fleetScooter j"
  then have "location (fleetScooter i) = location (fleetScooter j)" by simp
  then show "i = j" by (simp add: fleetScooter_def)
qed

lemma fleet200_last_not_working:
  "fleet200 ! 199 \<notin> set (workingScooters fleet200 exampleHub)"
proof
  assume "fleet200 ! 199 \<in> set (workingScooters fleet200 exampleHub)"
  then have "fleet200 ! 199 \<in> set (take 199 fleet200)"
    by (simp add: workingScooters_def Let_def fleet200_length)
  then obtain i where "i < 199" "take 199 fleet200 ! i = fleet200 ! 199"
    by (auto simp: in_set_conv_nth fleet200_length)
  then have "fleetScooter i = fleetScooter 199"
    by (simp add: fleet200_nth)
  with \<open>i < 199\<close> show False using fleetScooter_inj by fastforce
qed

lemma parseRoute_path:
  assumes "parseRoute routeTime scooters hub dm tm route index = Inr r"
  shows "set (path r) \<subseteq> insert (hub_location hub) (location ` set scooters)"
proof -
  have "path r = map (\<lambda>name. if name = hub_name hub then hub_location hub
                         else (case find (\<lambda>s. scooter_id s = name) scooters of
                                 Some scooter \<Rightarrow> location scooter
                               | None \<Rightarrow> hub_location hub)) (route_name route)"
    using assms by (auto simp: parseRoute_def Let_def split: sum.splits)
  moreover have "s \<in> set scooters" if "find P scooters = Some s" for P s
    using that by (metis find_Some_iff nth_mem)
  ultimately show ?thesis by (auto split: option.splits)
qed

text \<open>
  On the solver path the routes are built from the truncated list only: every waypoint is
  the depot or the location of one of the scooters kept by the cap.
\<close>

lemma trySolve_uses_working_scooters:
  assumes "trySolve env scooters hub truckCount = Inr parsed" "r \<in> set parsed"
  shows "set (path r) \<subseteq> insert (hub_location hub) (location ` set (workingScooters scooters hub))"
proof -
  from assms(1) obtain dm tm response where
    "parseVrpResponseWithGeometry (inaviRouteTime env) response
       (workingScooters scooters hub) hub dm tm = Inr parsed"
    by (auto simp: trySolve_def Let_def split: sum.splits prod.splits)
  then obtain x where
    "(\<lambda>(route, index). parseRoute (inaviRouteTime env) (workingScooters scooters hub) hub dm tm
         route index) x = Inr r"
    unfolding parseVrpResponseWithGeometry_def using mapE_Inr[OF _ assms(2)] by blast
  then show ?thesis using parseRoute_path by (cases x) auto
qed

section \<open>Claims about the scenario generator\<close>

text \<open>
  Claim C1.  For every target population size \<open>N\<close> in \<open>[10, 200]\<close>, a call of
  \<open>generateScenario\<close> that returns a list has generated exactly
  \<open>max 1 \<lfloor>N * 0.15\<rfloor>\<close> high-risk scooters (all in state \<open>C\<close>), exactly
  \<open>\<lfloor>N * 0.65\<rfloor>\<close> commercial and exactly \<open>\<lfloor>N * 0.20\<rfloor>\<close> residential low-battery
  locations, and the returned list consists of these and nothing else: as a multiset of
  (state, location) pairs it is the high-risk batch plus one state-\<open>B\<close> scooter per
  commercial or residential location, so no healthy scooter is emitted and the list has
  \<open>max 1 \<lfloor>N * 0.15\<rfloor> + \<lfloor>N * 0.65\<rfloor> + \<lfloor>N * 0.20\<rfloor>\<close> elements.  The counts on the
  left are the code's double-precision \<open>Math.floor(count * p)\<close>; the right-hand sides are
  the exact floors \<open>N * 15 div 100\<close>, \<open>N * 65 div 100\<close>, \<open>N * 20 div 100\<close>.  The only
  assumption on \<open>Array.prototype.sort\<close> is that it permutes the array.
\<close>

theorem generateScenario_counts:
  assumes "10 \<le> N" and "N \<le> 200"
    and "\<And>xs. mset (shuffleSort env xs) = mset xs"
    and "generateScenario env st N = (st', Inr out)"
  shows "\<exists>b. scenarioBatches env st N = (st', Inr b)
           \<and> int (length (highRiskScooters b)) = max 1 (N * 15 div 100)
           \<and> int (length (commercialLocations b)) = N * 65 div 100
           \<and> int (length (residentialLocations b)) = N * 20 div 100
           \<and> (\<forall>s\<in>set (highRiskScooters b). state s = C)
           \<and> mset (map (\<lambda>s. (state s, location s)) out)
               = mset (map (\<lambda>s. (state s, location s)) (highRiskScooters b))
                 + mset (map (Pair B) (commercialLocations b @ residentialLocations b))
           \<and> int (length (filter (\<lambda>s. state s = C) out)) = max 1 (N * 15 div 100)
           \<and> int (length (filter (\<lambda>s. state s = B) out)) = N * 65 div 100 + N * 20 div 100
           \<and> int (length out) = max 1 (N * 15 div 100) + N * 65 div 100 + N * 20 div 100"
proof -
  from assms(4) obtain b where b: "scenarioBatches env st N = (st', Inr b)"
    and out: "out = assemble env b"
    by (rule generateScenario_cases)
  from b obtain st1 g sub bus hr k where
    A: "batchA env g N sub bus = Inr (hr, k)" and Bb: "batchB env g N hr k = Inr b"
    by (rule scenarioBatches_cases)
  note c = counts_in_range[OF assms(1,2)]
  have hr: "highRiskScooters b = hr" using batchB_props(1)[OF Bb] .
  have chr: "1 \<le> countHighRisk N" using c(1) by simp
  then have "countHighRisk N div 4 \<le> countHighRisk N" "0 \<le> countHighRisk N div 4"
    by linarith+
  then have "countNearSubway N \<ge> 0" "countNearBusStop N \<ge> 0"
    using c(4) by (simp_all add: countNearSubway_def)
  then have "int (length hr) = countHighRisk N"
    using batchA_props(1)[OF A] by (simp add: countNearSubway_def)
  then have 1: "int (length (highRiskScooters b)) = max 1 (N * 15 div 100)"
    using hr c(1) by simp
  have 2: "int (length (commercialLocations b)) = N * 65 div 100"
    using batchB_props(2)[OF Bb] c(2) assms(1) by simp
  have 3: "int (length (residentialLocations b)) = N * 20 div 100"
    using batchB_props(3)[OF Bb] c(3) assms(1) by simp
  have 4: "\<forall>s\<in>set (highRiskScooters b). state s = C"
    using batchA_props(2)[OF A] hr by simp
  have 5: "mset (map (\<lambda>s. (state s, location s)) out)
               = mset (map (\<lambda>s. (state s, location s)) (highRiskScooters b))
                 + mset (map (Pair B) (commercialLocations b @ residentialLocations b))"
    using assemble_mset[OF assms(3), of b] out by simp
  have 6: "int (length (filter (\<lambda>s. state s = C) out)) = max 1 (N * 15 div 100)"
    using state_count_from_mset(1)[OF 5 4] 1 by simp
  have 7: "int (length (filter (\<lambda>s. state s = B) out)) = N * 65 div 100 + N * 20 div 100"
    using state_count_from_mset(2)[OF 5 4] 2 3 by simp
  have 8: "int (length out) = max 1 (N * 15 div 100) + N * 65 div 100 + N * 20 div 100"
    using assemble_length[OF assms(3), of b] out 1 2 3 by simp
  show ?thesis
    using b 1 2 3 4 5 6 7 8 by blast
qed

theorem generateScenario_counts_witness:
  "\<exists>st' out. (10::int) \<le> 100 \<and> (100::int) \<le> 200
      \<and> (\<forall>xs. mset (shuffleSort exampleEnv xs) = mset xs)
      \<and> generateScenario exampleEnv initialState 100 = (st', Inr out)
      \<and> (\<exists>b. scenarioBatches exampleEnv initialState 100 = (st', Inr b)
           \<and> length (highRiskScooters b) = 15
           \<and> length (commercialLocations b) = 65
           \<and> length (residentialLocations b) = 20
           \<and> length (filter (\<lambda>s. state s = C) out) = 15
           \<and> length (filter (\<lambda>s. state s = B) out) = 85
           \<and> length out = 100)"
proof -
  obtain st' out where g: "generateScenario exampleEnv initialState 100 = (st', Inr out)"
    using exampleEnv_returns[of 100] by blast
  have c: "10 \<le> (100::int)" "(100::int) \<le> 200" by simp_all
  from generateScenario_counts[OF c exampleEnv_shuffle g]
  obtain b where "scenarioBatches exampleEnv initialState 100 = (st', Inr b)"
    "length (highRiskScooters b) = 15" "length (commercialLocations b) = 65"
    "length (residentialLocations b) = 20" "length (filter (\<lambda>s. state s = C) out) = 15"
    "length (filter (\<lambda>s. state s = B) out) = 85" "length out = 100"
    by auto
  with g exampleEnv_shuffle show ?thesis
    by (intro exI[of _ st'] exI[of _ out]) auto
qed

text \<open>
  Claim C2.  Every scooter in the list returned by \<open>generateScenario\<close> lies inside the
  district boundaries (\<open>isPointInDistricts\<close> holds for its location and the boundaries
  cached by the call), whether the location is a jittered point that passed the test or
  the anchor itself after ten failed attempts.  The caches have to satisfy \<open>cache_ok\<close>,
  which holds initially and is kept by every call.
\<close>

theorem generateScenario_inside_boundaries:
  assumes "cache_ok st"
    and "\<And>xs. mset (shuffleSort env xs) = mset xs"
    and "generateScenario env st N = (st', Inr out)"
  shows "\<exists>boundaries. cachedDistrictBoundaries st' = Some boundaries
           \<and> (\<forall>s\<in>set out. isPointInDistricts (location s) boundaries)"
proof -
  from assms(3) obtain b where b: "scenarioBatches env st N = (st', Inr b)"
    and out: "out = assemble env b"
    by (rule generateScenario_cases)
  from b obtain st1 g sub bus hr k where
    f: "fetchDistrictBoundaries env st = (st1, Inr g)"
    and l: "loadRedZonePOIs env st1 g = (st', Inr (sub, bus))"
    and A: "batchA env g N sub bus = Inr (hr, k)" and Bb: "batchB env g N hr k = Inr b"
    by (rule scenarioBatches_cases)
  have ok1: "cache_ok st1" and g1: "cachedDistrictBoundaries st1 = Some g"
    using fetchDistrictBoundaries_cache(1,2)[OF assms(1) f] by simp_all
  have g': "cachedDistrictBoundaries st' = Some g"
    and anchors: "\<forall>p\<in>set sub \<union> set bus. isPointInDistricts p g"
    using loadRedZonePOIs_cache(2,3)[OF ok1 g1 l] by simp_all
  have hrin: "\<forall>s\<in>set hr. isPointInDistricts (location s) g"
    using batchA_props(3)[OF A anchors] .
  have lbin: "\<forall>p\<in>set (commercialLocations b) \<union> set (residentialLocations b). isPointInDistricts p g"
    using batchB_props(4)[OF Bb] .
  have mem: "set (map (\<lambda>s. (state s, location s)) out)
      = set (map (\<lambda>s. (state s, location s)) (highRiskScooters b))
        \<union> set (map (Pair B) (commercialLocations b @ residentialLocations b))"
    using assemble_mset[OF assms(2), of b] out
    by (metis set_mset_mset set_mset_union)
  have "isPointInDistricts (location s) g" if "s \<in> set out" for s
  proof -
    from that have "(state s, location s) \<in> set (map (\<lambda>s. (state s, location s)) out)"
      by (simp add: image_iff) blast
    then consider
        (hr) "(state s, location s) \<in> set (map (\<lambda>s. (state s, location s)) (highRiskScooters b))"
      | (lb) "(state s, location s) \<in> set (map (Pair B) (commercialLocations b @ residentialLocations b))"
      using mem by blast
    then show ?thesis
    proof cases
      case hr
      then obtain h where "h \<in> set (highRiskScooters b)" "location s = location h"
        by (auto simp: image_iff)
      then show ?thesis using hrin batchB_props(1)[OF Bb] by simp
    next
      case lb
      then have "location s \<in> set (commercialLocations b) \<union> set (residentialLocations b)"
        by (auto simp: image_iff)
      then show ?thesis using lbin by blast
    qed
  qed
  then have "\<forall>s\<in>set out. isPointInDistricts (location s) g" by blast
  with g' show ?thesis by blast
qed

theorem generateScenario_inside_boundaries_witness:
  "\<exists>st' out. cache_ok initialState
      \<and> (\<forall>xs. mset (shuffleSort exampleEnv xs) = mset xs)
      \<and> generateScenario exampleEnv initialState 100 = (st', Inr out)
      \<and> (\<exists>boundaries. cachedDistrictBoundaries st' = Some boundaries
           \<and> (\<forall>s\<in>set out. isPointInDistricts (location s) boundaries))"
proof -
  obtain st' out where g: "generateScenario exampleEnv initialState 100 = (st', Inr out)"
    using exampleEnv_returns[of 100] by blast
  show ?thesis
    using generateScenario_inside_boundaries[OF cache_ok_initialState exampleEnv_shuffle g]
      g cache_ok_initialState exampleEnv_shuffle
    by blast
qed

text \<open>
  Claim C9.  An anchor query that returns an empty list is accepted by OverpassService,
  but \<open>generateScenario\<close> has no fallback for it: the array read yields \<open>undefined\<close>
  and \<open>generatePointNearLocation\<close> throws a TypeError on \<open>center.lat\<close>.  With no
  red-zone anchor, and likewise with no commercial anchor, generating 50 scooters fails.
\<close>

theorem generateScenario_empty_anchor_set_throws:
  "snd (generateScenario (exampleEnv\<lparr>fetchRedZonePOIs := Inr []\<rparr>) initialState 50) = Inl TypeError
   \<and> snd (generateScenario (exampleEnv\<lparr>fetchCommercialAnchors := Inr []\<rparr>) initialState 50)
       = Inl TypeError"
proof
  let ?env = "exampleEnv\<lparr>fetchRedZonePOIs := Inr []\<rparr>"
  let ?st1 = "initialState\<lparr>cachedDistrictBoundaries := Some [exampleGangnam]\<rparr>"
  have f: "fetchDistrictBoundaries ?env initialState = (?st1, Inr [exampleGangnam])"
    by (simp add: fetchDistrictBoundaries_def Let_def exampleEnv_def initialState_def
          targetDistricts_def exampleGangnam_def exampleJongno_def)
  have l: "loadRedZonePOIs ?env ?st1 [exampleGangnam]
     = (?st1\<lparr>cachedSubwayExitPOIs := Some [], cachedBusStopPOIs := Some []\<rparr>, Inr ([], []))"
    by (simp add: loadRedZonePOIs_def Let_def exampleEnv_def initialState_def)
  show "snd (generateScenario ?env initialState 50) = Inl TypeError"
    using generateScenario_without_subway_anchor[OF f l, of 50] counts_50 by simp
next
  let ?env = "exampleEnv\<lparr>fetchCommercialAnchors := Inr []\<rparr>"
  let ?st1 = "initialState\<lparr>cachedDistrictBoundaries := Some [exampleGangnam]\<rparr>"
  let ?st2 = "\<lparr>cachedDistrictBoundaries = Some [exampleGangnam],
         cachedSubwayExitPOIs = Some [exampleSubwayExit],
         cachedBusStopPOIs = Some [exampleBusStop]\<rparr>"
  have f: "fetchDistrictBoundaries ?env initialState = (?st1, Inr [exampleGangnam])"
    by (simp add: fetchDistrictBoundaries_def Let_def exampleEnv_def initialState_def
          targetDistricts_def exampleGangnam_def exampleJongno_def)
  have l: "loadRedZonePOIs ?env ?st1 [exampleGangnam]
     = (?st2, Inr ([exampleSubwayExit], [exampleBusStop]))"
    by (simp add: loadRedZonePOIs_def Let_def exampleEnv_def initialState_def
        exampleGangnam_def exampleSubwayExit_def exampleBusStop_def)
  obtain hr k where A: "batchA ?env [exampleGangnam] 50 [exampleSubwayExit] [exampleBusStop] = Inr (hr, k)"
    using batchA_succeeds[of ?env "[exampleSubwayExit]" 50 "[exampleBusStop]" "[exampleGangnam]"]
    by (auto simp: exampleEnv_def)
  have c: "fetchCommercialAnchors ?env = Inr []" by simp
  show "snd (generateScenario ?env initialState 50) = Inl TypeError"
    using generateScenario_without_commercial_anchor[OF f l A c] counts_50 by simp
qed

text \<open>
  Claim C3.  The jitter radius passed for high-risk scooters is
  \<open>RED_ZONE_RADIUS_METERS = 20\<close>, not 5.  With the subway exit as the only red-zone
  anchor, angle draw 0 and radius draw \<open>1/4\<close>, the generated radius is
  \<open>sqrt (1/4 * 400) = 10\<close> metres: the returned list holds a state-\<open>C\<close> scooter
  \<open>10 / 111000\<close> degrees of latitude north of the exit, and \<open>haversineDistance\<close> from it
  to the exit, the only red-zone anchor, computed without rounding, exceeds 5 metres.
\<close>

theorem generateScenario_high_risk_beyond_5m:
  "\<exists>st' out s. generateScenario quarterDrawEnv initialState 10 = (st', Inr out)
      \<and> cachedSubwayExitPOIs st' = Some [exampleSubwayExit]
      \<and> cachedBusStopPOIs st' = Some []
      \<and> s \<in> set out \<and> state s = C \<and> location s = quarterDrawPoint
      \<and> (\<exists>d. haversineDistance exactMath (location s) exampleSubwayExit = Num d \<and> 5 < d)"
proof -
  let ?st1 = "initialState\<lparr>cachedDistrictBoundaries := Some [exampleGangnam]\<rparr>"
  let ?st2 = "\<lparr>cachedDistrictBoundaries = Some [exampleGangnam],
         cachedSubwayExitPOIs = Some [exampleSubwayExit], cachedBusStopPOIs = Some []\<rparr>"
  have f: "fetchDistrictBoundaries quarterDrawEnv initialState = (?st1, Inr [exampleGangnam])"
    by (simp add: fetchDistrictBoundaries_def Let_def quarterDrawEnv_def exampleEnv_def
          initialState_def targetDistricts_def exampleGangnam_def exampleJongno_def)
  have l: "loadRedZonePOIs quarterDrawEnv ?st1 [exampleGangnam] = (?st2, Inr ([exampleSubwayExit], []))"
    by (simp add: loadRedZonePOIs_def Let_def quarterDrawEnv_def exampleEnv_def initialState_def
        exampleGangnam_def exampleSubwayExit_def)
  have rnd: "\<forall>k. 0 \<le> mathRandom quarterDrawEnv k \<and> mathRandom quarterDrawEnv k < 1"
    by (simp add: quarterDrawEnv_def)
  obtain out where g: "generateScenario quarterDrawEnv initialState 10 = (?st2, Inr out)"
    using generateScenario_succeeds[OF rnd f l, where ca = "[exampleShop]" and ra = "[exampleAlley]"
        and cnt = 10]
    by (auto simp: counts_10 quarterDrawEnv_def exampleEnv_def exampleGangnam_def
          exampleShop_def exampleAlley_def)
  from g obtain b where b: "scenarioBatches quarterDrawEnv initialState 10 = (?st2, Inr b)"
    and out: "out = assemble quarterDrawEnv b"
    by (rule generateScenario_cases)
  from b obtain st1' g' sub bus hr k where
    f': "fetchDistrictBoundaries quarterDrawEnv initialState = (st1', Inr g')"
    and l': "loadRedZonePOIs quarterDrawEnv st1' g' = (?st2, Inr (sub, bus))"
    and A: "batchA quarterDrawEnv g' 10 sub bus = Inr (hr, k)"
    and Bb: "batchB quarterDrawEnv g' 10 hr k = Inr b"
    by (rule scenarioBatches_cases)
  from f f' have "st1' = ?st1" "g' = [exampleGangnam]" by simp_all
  with l l' have "sub = [exampleSubwayExit]" "bus = []" by simp_all
  with A \<open>g' = [exampleGangnam]\<close> quarterDraw_batchA obtain id where
    hr: "hr = [\<lparr>scooter_id = id, location = quarterDrawPoint, state = C,
               batteryLevel = 20, service_time = 5, score = TOWING_FINE\<rparr>]"
    by auto
  have "highRiskScooters b = hr" using batchB_props(1)[OF Bb] .
  then have "(C, quarterDrawPoint) \<in># mset (map (\<lambda>s. (state s, location s)) out)"
    using assemble_mset[of quarterDrawEnv b] out hr
    by (simp add: quarterDrawEnv_def exampleEnv_def)
  then obtain s where "s \<in> set out" "state s = C" "location s = quarterDrawPoint"
    by auto
  then show ?thesis using g quarterDraw_far by auto
qed

section \<open>Claims about the matrix provider\<close>

text \<open>
  What \<open>getDistanceMatrix\<close> does on every input.  It never raises: its result is always
  a matrix pair.  When fewer than 3 locations are given, when no key is configured
  (absent or empty), when the service cannot be reached, answers with a non-ok status or
  with a body that is not JSON, when reading the response throws, or when one of the two
  matrices read from it is missing, not an array or empty, the result is the pair computed
  locally: two \<open>n \<times> n\<close> matrices, zero on the diagonal, holding \<open>haversineDistance\<close> of the
  two locations and that distance divided by \<open>30000 / 3600\<close> elsewhere.  In every other
  case the two arrays of the response are returned with non-array rows emptied and every
  entry replaced by \<open>Math.round(Number(v) || 0)\<close>.
\<close>

lemma getDistanceMatrix_fallback_cases:
  "(\<exists>m. snd (getDistanceMatrix env locations) = Inr m)
   \<and> (length locations < 3
        \<or> INAVI_API_KEY env = None \<or> INAVI_API_KEY env = Some []
        \<or> inaviDistanceMatrix env locations = Rejected
        \<or> inaviDistanceMatrix env locations = NotOk
        \<or> inaviDistanceMatrix env locations = BodyNotJson
        \<or> (\<exists>data. inaviDistanceMatrix env locations = Body data
              \<and> ((\<exists>e. extractMatrices data = Inl e)
                   \<or> (\<exists>dj tj. extractMatrices data = Inr (dj, tj) \<and> \<not> validMatrices dj tj)))
      \<longrightarrow> snd (getDistanceMatrix env locations)
            = Inr (calculateEuclideanMatrices (mathLib env) locations))
   \<and> (\<forall>data dj tj key.
         3 \<le> length locations \<and> INAVI_API_KEY env = Some key \<and> key \<noteq> []
         \<and> inaviDistanceMatrix env locations = Body data
         \<and> extractMatrices data = Inr (dj, tj) \<and> validMatrices dj tj
       \<longrightarrow> snd (getDistanceMatrix env locations)
             = Inr (intMatrix (coerceNumber env) (elements dj),
                    intMatrix (coerceNumber env) (elements tj)))
   \<and> (\<exists>dm tm. calculateEuclideanMatrices (mathLib env) locations = (dm, tm)
         \<and> length dm = length locations \<and> length tm = length locations
         \<and> (\<forall>i<length locations.
               length (dm ! i) = length locations \<and> length (tm ! i) = length locations
               \<and> (\<forall>j<length locations.
                     dm ! i ! j
                       = (if i = j then Num 0
                          else haversineDistance (mathLib env) (locations ! i) (locations ! j))
                   \<and> tm ! i ! j
                       = (if i = j then Num 0
                          else numDiv (haversineDistance (mathLib env) (locations ! i)
                                         (locations ! j))
                                      (Num (30000 / 3600))))))"
proof (intro conjI impI allI)
  show "\<exists>m. snd (getDistanceMatrix env locations) = Inr m"
    by (rule getDistanceMatrix_total)
next
  assume "length locations < 3
        \<or> INAVI_API_KEY env = None \<or> INAVI_API_KEY env = Some []
        \<or> inaviDistanceMatrix env locations = Rejected
        \<or> inaviDistanceMatrix env locations = NotOk
        \<or> inaviDistanceMatrix env locations = BodyNotJson
        \<or> (\<exists>data. inaviDistanceMatrix env locations = Body data
              \<and> ((\<exists>e. extractMatrices data = Inl e)
                   \<or> (\<exists>dj tj. extractMatrices data = Inr (dj, tj) \<and> \<not> validMatrices dj tj)))"
  then consider (few) "length locations < 3"
    | (key) "INAVI_API_KEY env = None \<or> INAVI_API_KEY env = Some []"
    | (failed) "\<exists>e. tryInavi env locations = Inl e \<or> tryInavi env locations = Inr None"
    using tryInavi_cases[of env locations] by metis
  then show "snd (getDistanceMatrix env locations)
               = Inr (calculateEuclideanMatrices (mathLib env) locations)"
  proof cases
    case few then show ?thesis by (simp add: getDistanceMatrix_few_locations)
  next
    case key then show ?thesis by (simp add: getDistanceMatrix_no_key)
  next
    case failed then show ?thesis using getDistanceMatrix_try_failed by blast
  qed
next
  fix data dj tj key
  assume a: "3 \<le> length locations \<and> INAVI_API_KEY env = Some key \<and> key \<noteq> []
         \<and> inaviDistanceMatrix env locations = Body data
         \<and> extractMatrices data = Inr (dj, tj) \<and> validMatrices dj tj"
  then have "tryInavi env locations
         = Inr (Some (intMatrix (coerceNumber env) (elements dj),
                      intMatrix (coerceNumber env) (elements tj)))"
    using tryInavi_cases(6)[of env locations data dj tj] by simp
  then show "snd (getDistanceMatrix env locations)
             = Inr (intMatrix (coerceNumber env) (elements dj),
                    intMatrix (coerceNumber env) (elements tj))"
    using a by (cases key) (simp_all add: getDistanceMatrix_def)
next
  show "\<exists>dm tm. calculateEuclideanMatrices (mathLib env) locations = (dm, tm)
         \<and> length dm = length locations \<and> length tm = length locations
         \<and> (\<forall>i<length locations.
               length (dm ! i) = length locations \<and> length (tm ! i) = length locations
               \<and> (\<forall>j<length locations.
                     dm ! i ! j
                       = (if i = j then Num 0
                          else haversineDistance (mathLib env) (locations ! i) (locations ! j))
                   \<and> tm ! i ! j
                       = (if i = j then Num 0
                          else numDiv (haversineDistance (mathLib env) (locations ! i)
                                         (locations ! j))
                                      (Num (30000 / 3600)))))"
    by (rule calculateEuclideanMatrices_pair)
qed

lemma getDistanceMatrix_fallback_examples:
  "inaviDistanceMatrix unreachableEnv threeStops = Rejected
   \<and> snd (getDistanceMatrix unreachableEnv threeStops)
       = Inr (calculateEuclideanMatrices exactMath threeStops)
   \<and> inaviDistanceMatrix rowsNotArrayEnv threeStops = Body (JObject [(''rows'', JString ''busy'')])
   \<and> extractMatrices (JObject [(''rows'', JString ''busy'')]) = Inl TypeError
   \<and> snd (getDistanceMatrix rowsNotArrayEnv threeStops)
       = Inr (calculateEuclideanMatrices exactMath threeStops)
   \<and> inaviDistanceMatrix oneByOneEnv threeStops = Body oneByOneResponse
   \<and> snd (getDistanceMatrix oneByOneEnv threeStops) = Inr ([[Num 5]], [[Num 5]])
   \<and> (\<exists>dm tm. calculateEuclideanMatrices exactMath threeStops = (dm, tm)
         \<and> length dm = 3 \<and> length (dm ! 1) = 3 \<and> dm ! 1 ! 1 = Num 0
         \<and> dm ! 1 ! 2 = haversineDistance exactMath (threeStops ! 1) (threeStops ! 2))"
proof -
  have r: "inaviDistanceMatrix unreachableEnv threeStops = Rejected"
    by (simp add: unreachableEnv_def)
  have b: "inaviDistanceMatrix rowsNotArrayEnv threeStops = Body (JObject [(''rows'', JString ''busy'')])"
    by (simp add: rowsNotArrayEnv_def)
  have e: "extractMatrices (JObject [(''rows'', JString ''busy'')]) = Inl TypeError"
    by (simp add: extractMatrices_def optProp_def getProp_def truthy_def rowsMatrix_def jsMap_def)
  have o: "inaviDistanceMatrix oneByOneEnv threeStops = Body oneByOneResponse"
    "INAVI_API_KEY oneByOneEnv = Some ''key''" "3 \<le> length threeStops"
    by (simp_all add: oneByOneEnv_def threeStops_def)
  have x: "extractMatrices oneByOneResponse
         = Inr (JArray [JArray [JNumber (Num 5)]], JArray [JArray [JNumber (Num 5)]])"
    by (simp add: extractMatrices_def oneByOneResponse_def optProp_def getProp_def truthy_def)
  have v: "validMatrices (JArray [JArray [JNumber (Num 5)]]) (JArray [JArray [JNumber (Num 5)]])"
    by (simp add: validMatrices_def truthy_def isArray_def elements_def)
  have i: "intMatrix (coerceNumber oneByOneEnv) (elements (JArray [JArray [JNumber (Num 5)]]))
         = [[Num 5]]"
    by (simp add: intMatrix_def elements_def roundOrZero_def toNumber_def orZero_def mathRound_def)
  have m: "mathLib unreachableEnv = exactMath" "mathLib rowsNotArrayEnv = exactMath"
    by (simp_all add: unreachableEnv_def rowsNotArrayEnv_def)
  note u = getDistanceMatrix_fallback_cases[of unreachableEnv threeStops, unfolded m]
  note w = getDistanceMatrix_fallback_cases[of rowsNotArrayEnv threeStops, unfolded m]
  note k = getDistanceMatrix_fallback_cases[of oneByOneEnv threeStops]
  have 1: "snd (getDistanceMatrix unreachableEnv threeStops)
       = Inr (calculateEuclideanMatrices exactMath threeStops)"
    using u r by blast
  have 2: "snd (getDistanceMatrix rowsNotArrayEnv threeStops)
       = Inr (calculateEuclideanMatrices exactMath threeStops)"
    using w b e by blast
  have 3: "snd (getDistanceMatrix oneByOneEnv threeStops) = Inr ([[Num 5]], [[Num 5]])"
    using k o x v i by auto
  from u obtain dm tm where p: "calculateEuclideanMatrices exactMath threeStops = (dm, tm)"
    and l: "length dm = length threeStops"
    and q: "\<forall>i<length threeStops.
               length (dm ! i) = length threeStops \<and> length (tm ! i) = length threeStops
               \<and> (\<forall>j<length threeStops.
                     dm ! i ! j
                       = (if i = j then Num 0
                          else haversineDistance exactMath (threeStops ! i) (threeStops ! j))
                   \<and> tm ! i ! j
                       = (if i = j then Num 0
                          else numDiv (haversineDistance exactMath (threeStops ! i) (threeStops ! j))
                                      (Num (30000 / 3600))))"
    by blast
  have n: "length threeStops = 3" by (simp add: threeStops_def)
  have 4: "length dm = 3 \<and> length (dm ! 1) = 3 \<and> dm ! 1 ! 1 = Num 0
         \<and> dm ! 1 ! 2 = haversineDistance exactMath (threeStops ! 1) (threeStops ! 2)"
    using l q[rule_format, of 1] by (simp add: n)
  show ?thesis using r b e o(1) 1 2 3 p 4 by blast
qed

text \<open>
  Claim C4.  \<open>getDistanceMatrix\<close> never raises and falls back to the local pair in the
  cases listed above, but not whenever the response cannot be parsed into a well-formed
  matrix pair: the validation of lines 141--143 only asks for two non-empty arrays.  With
  a key configured and three locations, a response whose \<open>distance_matrix\<close> is \<open>["x", 7]\<close>
  and whose \<open>duration_matrix\<close> is \<open>[null]\<close>, neither of them a \<open>3 \<times> 3\<close> array of numbers,
  is returned as two empty rows and one empty row; and a response holding a \<open>1 \<times> 1\<close> pair
  is returned as it is.  Neither result is the locally computed pair.
\<close>

theorem getDistanceMatrix_returns_unvalidated_response:
  "INAVI_API_KEY noMatrixEnv = Some ''key''
   \<and> inaviDistanceMatrix noMatrixEnv threeStops = Body noMatrixResponse
   \<and> extractMatrices noMatrixResponse
       = Inr (JArray [JString ''x'', JNumber (Num 7)], JArray [JNull])
   \<and> \<not> wellFormedMatrix (length threeStops) (JArray [JString ''x'', JNumber (Num 7)])
   \<and> \<not> wellFormedMatrix (length threeStops) (JArray [JNull])
   \<and> snd (getDistanceMatrix noMatrixEnv threeStops) = Inr ([[], []], [[]])
   \<and> snd (getDistanceMatrix noMatrixEnv threeStops)
       \<noteq> Inr (calculateEuclideanMatrices (mathLib noMatrixEnv) threeStops)
   \<and> inaviDistanceMatrix oneByOneEnv threeStops = Body oneByOneResponse
   \<and> extractMatrices oneByOneResponse
       = Inr (JArray [JArray [JNumber (Num 5)]], JArray [JArray [JNumber (Num 5)]])
   \<and> \<not> wellFormedMatrix (length threeStops) (JArray [JArray [JNumber (Num 5)]])
   \<and> snd (getDistanceMatrix oneByOneEnv threeStops) = Inr ([[Num 5]], [[Num 5]])
   \<and> snd (getDistanceMatrix oneByOneEnv threeStops)
       \<noteq> Inr (calculateEuclideanMatrices (mathLib oneByOneEnv) threeStops)"
proof -
  have 0: "INAVI_API_KEY noMatrixEnv = Some ''key''"
    by (simp add: noMatrixEnv_def)
  have 1: "inaviDistanceMatrix noMatrixEnv threeStops = Body noMatrixResponse"
    by (simp add: noMatrixEnv_def)
  have 2: "extractMatrices noMatrixResponse
       = Inr (JArray [JString ''x'', JNumber (Num 7)], JArray [JNull])"
    by (simp add: extractMatrices_def noMatrixResponse_def optProp_def getProp_def truthy_def)
  have 3: "\<not> wellFormedMatrix (length threeStops) (JArray [JString ''x'', JNumber (Num 7)])"
    "\<not> wellFormedMatrix (length threeStops) (JArray [JNull])"
    "\<not> wellFormedMatrix (length threeStops) (JArray [JArray [JNumber (Num 5)]])"
    by (simp_all add: wellFormedMatrix_def threeStops_def elements_def)
  have 4: "snd (getDistanceMatrix noMatrixEnv threeStops) = Inr ([[], []], [[]])"
    by (simp add: noMatrix_remote)
  have n: "length (fst (calculateEuclideanMatrices m threeStops)) = 3" for m
    using calculateEuclideanMatrices_shape(1)[of m threeStops] by (simp add: threeStops_def)
  have "fst (calculateEuclideanMatrices (mathLib noMatrixEnv) threeStops) \<noteq> [[], []]"
    using n[of "mathLib noMatrixEnv"] by auto
  then have "calculateEuclideanMatrices (mathLib noMatrixEnv) threeStops \<noteq> ([[], []], [[]])"
    by (metis fst_conv)
  then have 5: "snd (getDistanceMatrix noMatrixEnv threeStops)
       \<noteq> Inr (calculateEuclideanMatrices (mathLib noMatrixEnv) threeStops)"
    unfolding 4 by simp
  have 6: "inaviDistanceMatrix oneByOneEnv threeStops = Body oneByOneResponse"
    by (simp add: oneByOneEnv_def)
  have 7: "extractMatrices oneByOneResponse
       = Inr (JArray [JArray [JNumber (Num 5)]], JArray [JArray [JNumber (Num 5)]])"
    by (simp add: extractMatrices_def oneByOneResponse_def optProp_def getProp_def truthy_def)
  have 8: "snd (getDistanceMatrix oneByOneEnv threeStops) = Inr ([[Num 5]], [[Num 5]])"
    by (simp add: oneByOne_remote)
  have "fst (calculateEuclideanMatrices (mathLib oneByOneEnv) threeStops) \<noteq> [[Num 5]]"
    using n[of "mathLib oneByOneEnv"] by auto
  then have "calculateEuclideanMatrices (mathLib oneByOneEnv) threeStops \<noteq> ([[Num 5]], [[Num 5]])"
    by (metis fst_conv)
  then have 9: "snd (getDistanceMatrix oneByOneEnv threeStops)
       \<noteq> Inr (calculateEuclideanMatrices (mathLib oneByOneEnv) threeStops)"
    unfolding 8 by simp
  show ?thesis using 0 1 2 3 4 5 6 7 8 9 by blast
qed

text \<open>
  The matrices are not always square, zero on the diagonal, non-negative and integral.
  A remote response that passes the validation is returned with its own shape and
  entries: for three locations and a response whose distance matrix is the single row
  \<open>[-5, 1e400]\<close> the result has one row of two entries, \<open>-5\<close> on the diagonal and \<open>Infinity\<close>
  beside it.  The local fallback does not round: for two stops a third of a metre apart
  the distance entry is not an integer.  And with the double-precision values of sine and
  cosine the local entry of two antipodal places is \<open>NaN\<close>.
\<close>

theorem getDistanceMatrix_matrix_shape_counterexample:
  "getDistanceMatrix singleRowEnv threeStops
     = ([threeStops], Inr ([[Num (- 5), PosInf]], [[Num 5, Num 5]]))
   \<and> length threeStops = 3
   \<and> length (fst (projr (snd (getDistanceMatrix singleRowEnv threeStops)))) = 1
   \<and> length (fst (projr (snd (getDistanceMatrix singleRowEnv threeStops))) ! 0) = 2
   \<and> fst (projr (snd (getDistanceMatrix singleRowEnv threeStops))) ! 0 ! 0 = Num (- 5)
   \<and> fst (projr (snd (getDistanceMatrix singleRowEnv threeStops))) ! 0 ! 1 = PosInf
   \<and> \<not> isInteger PosInf
   \<and> getDistanceMatrix oneByOneEnv twoStops
       = ([], Inr (calculateEuclideanMatrices exactMath twoStops))
   \<and> \<not> isInteger (fst (calculateEuclideanMatrices exactMath twoStops) ! 0 ! 1)
   \<and> getDistanceMatrix roundedEnv antipodes
       = ([], Inr (calculateEuclideanMatrices roundedMath antipodes))
   \<and> fst (calculateEuclideanMatrices roundedMath antipodes) ! 0 ! 1 = NaN"
proof -
  have "6371000 * (3 / 1000000 * pi / 180) \<notin> \<int>"
    using stops_distance_bounds by (intro between_0_and_1_not_integer) simp_all
  then have "\<not> isInteger (Num (6371000 * (3 / 1000000 * pi / 180)))"
    by (simp add: isInteger_def)
  then have 1: "\<not> isInteger (fst (calculateEuclideanMatrices exactMath twoStops) ! 0 ! 1)"
    unfolding twoStops_entry stops_distance .
  have 2: "getDistanceMatrix oneByOneEnv twoStops
       = ([], Inr (calculateEuclideanMatrices exactMath twoStops))"
    using getDistanceMatrix_few_locations[of twoStops oneByOneEnv]
    by (simp add: twoStops_def oneByOneEnv_def)
  have 3: "getDistanceMatrix roundedEnv antipodes
       = ([], Inr (calculateEuclideanMatrices roundedMath antipodes))"
    using getDistanceMatrix_few_locations[of antipodes roundedEnv]
    by (simp add: antipodes_def roundedEnv_def)
  have 4: "\<not> isInteger PosInf" by (simp add: isInteger_def)
  have 5: "length threeStops = 3" by (simp add: threeStops_def)
  have 6: "length (fst (projr (snd (getDistanceMatrix singleRowEnv threeStops)))) = 1"
    "length (fst (projr (snd (getDistanceMatrix singleRowEnv threeStops))) ! 0) = 2"
    "fst (projr (snd (getDistanceMatrix singleRowEnv threeStops))) ! 0 ! 0 = Num (- 5)"
    "fst (projr (snd (getDistanceMatrix singleRowEnv threeStops))) ! 0 ! 1 = PosInf"
    unfolding singleRow_remote by simp_all
  show ?thesis
    using 1 2 3 4 5 6 antipodes_entry singleRow_remote by blast
qed

text \<open>
  Claim C5, amended.  A distance matrix returned by \<open>getDistanceMatrix\<close> is either the
  local fallback matrix, which is square with side the number of locations, zero on the
  diagonal, and holds everywhere a number that is not negative or \<open>NaN\<close> (the unrounded
  results of \<open>haversineDistance\<close>), or the matrix of a validated remote response with every
  entry replaced by \<open>Math.round(Number(v) || 0)\<close>, which is non-empty and holds integers
  and infinities; its shape, diagonal and signs are those of the response (claim C4).
\<close>

theorem getDistanceMatrix_matrix_shape:
  assumes "snd (getDistanceMatrix env locations) = Inr (dm, tm)"
  shows "(dm = fst (calculateEuclideanMatrices (mathLib env) locations)
          \<and> length dm = length locations
          \<and> (\<forall>i<length locations. length (dm ! i) = length locations \<and> dm ! i ! i = Num 0
                \<and> (\<forall>j<length locations.
                      dm ! i ! j = NaN \<or> (\<exists>d. dm ! i ! j = Num d \<and> 0 \<le> d))))
       \<or> (\<exists>data dj tj. inaviDistanceMatrix env locations = Body data
             \<and> extractMatrices data = Inr (dj, tj) \<and> validMatrices dj tj
             \<and> dm = intMatrix (coerceNumber env) (elements dj)
             \<and> 0 < length dm
             \<and> (\<forall>row\<in>set dm. \<forall>x\<in>set row. isInteger x \<or> x = PosInf \<or> x = NegInf))"
proof -
  from getDistanceMatrix_cases[OF assms]
  consider (local) "(dm, tm) = calculateEuclideanMatrices (mathLib env) locations"
    | (remote) data dj tj where "inaviDistanceMatrix env locations = Body data"
        "extractMatrices data = Inr (dj, tj)" "validMatrices dj tj"
        "(dm, tm) = (intMatrix (coerceNumber env) (elements dj),
                     intMatrix (coerceNumber env) (elements tj))"
    by blast
  then show ?thesis
  proof cases
    case local
    then have dm: "dm = fst (calculateEuclideanMatrices (mathLib env) locations)"
      by (metis fst_conv)
    have "length (dm ! i) = length locations \<and> dm ! i ! i = Num 0
            \<and> (\<forall>j<length locations. dm ! i ! j = NaN \<or> (\<exists>d. dm ! i ! j = Num d \<and> 0 \<le> d))"
      if "i < length locations" for i
    proof -
      have "dm ! i ! j = NaN \<or> (\<exists>d. dm ! i ! j = Num d \<and> 0 \<le> d)"
        if "j < length locations" for j
        using calculateEuclideanMatrices_entries(1)[OF \<open>i < length locations\<close> that, of "mathLib env"]
          haversineDistance_sign[of "mathLib env" "locations ! i" "locations ! j"]
        by (cases "i = j") (simp_all add: dm)
      then show ?thesis
        using calculateEuclideanMatrices_shape(2)[OF that, of "mathLib env"]
          calculateEuclideanMatrices_entries(1)[OF that that, of "mathLib env"]
        by (simp add: dm)
    qed
    then show ?thesis
      using dm calculateEuclideanMatrices_shape(1)[of "mathLib env" locations] by simp
  next
    case remote
    have dm: "dm = intMatrix (coerceNumber env) (elements dj)" using remote(4) by simp
    have "0 < length dm"
      using remote(3) by (simp add: dm intMatrix_def validMatrices_def)
    moreover have "\<forall>row\<in>set dm. \<forall>x\<in>set row. isInteger x \<or> x = PosInf \<or> x = NegInf"
      using intMatrix_integers unfolding dm by blast
    ultimately show ?thesis using remote(1,2,3) dm by blast
  qed
qed

theorem getDistanceMatrix_matrix_shape_witness:
  "snd (getDistanceMatrix unreachableEnv threeStops)
     = Inr (calculateEuclideanMatrices exactMath threeStops)
   \<and> length (fst (calculateEuclideanMatrices exactMath threeStops)) = 3
   \<and> length (fst (calculateEuclideanMatrices exactMath threeStops) ! 1) = 3
   \<and> fst (calculateEuclideanMatrices exactMath threeStops) ! 1 ! 1 = Num 0
   \<and> (fst (calculateEuclideanMatrices exactMath threeStops) ! 1 ! 2 = NaN
        \<or> (\<exists>d. fst (calculateEuclideanMatrices exactMath threeStops) ! 1 ! 2 = Num d \<and> 0 \<le> d))"
proof -
  have g: "snd (getDistanceMatrix unreachableEnv threeStops)
         = Inr (fst (calculateEuclideanMatrices exactMath threeStops),
                snd (calculateEuclideanMatrices exactMath threeStops))"
    using getDistanceMatrix_try_failed[of unreachableEnv threeStops FetchError]
      tryInavi_cases(1)[of unreachableEnv threeStops]
    by (simp add: unreachableEnv_def)
  have n: "length threeStops = 3" by (simp add: threeStops_def)
  have "inaviDistanceMatrix unreachableEnv threeStops \<noteq> Body data" for data
    by (simp add: unreachableEnv_def)
  with getDistanceMatrix_matrix_shape[OF g]
  have a: "\<forall>i<length threeStops.
          length (fst (calculateEuclideanMatrices exactMath threeStops) ! i) = length threeStops
          \<and> fst (calculateEuclideanMatrices exactMath threeStops) ! i ! i = Num 0
          \<and> (\<forall>j<length threeStops.
                fst (calculateEuclideanMatrices exactMath threeStops) ! i ! j = NaN
                \<or> (\<exists>d. fst (calculateEuclideanMatrices exactMath threeStops) ! i ! j = Num d
                        \<and> 0 \<le> d))"
    and b: "length (fst (calculateEuclideanMatrices exactMath threeStops)) = length threeStops"
    by blast+
  from a[rule_format, of 1] have c:
    "length (fst (calculateEuclideanMatrices exactMath threeStops) ! 1) = 3"
    "fst (calculateEuclideanMatrices exactMath threeStops) ! 1 ! 1 = Num 0"
    "\<forall>j<length threeStops.
        fst (calculateEuclideanMatrices exactMath threeStops) ! 1 ! j = NaN
        \<or> (\<exists>d. fst (calculateEuclideanMatrices exactMath threeStops) ! 1 ! j = Num d \<and> 0 \<le> d)"
    by (simp_all add: n)
  from c(3)[rule_format, of 2] have d:
    "fst (calculateEuclideanMatrices exactMath threeStops) ! 1 ! 2 = NaN
     \<or> (\<exists>d. fst (calculateEuclideanMatrices exactMath threeStops) ! 1 ! 2 = Num d \<and> 0 \<le> d)"
    by (simp add: n)
  show ?thesis using g b c(1,2) d by (simp add: n)
qed

text \<open>
  The fallback entries are not rounded by \<open>calculateEuclideanMatrices\<close>: for the two stops
  a third of a metre apart both the distance and the duration entry differ from their
  rounded values, which are 0.
\<close>

theorem fallback_entries_counterexample:
  "getDistanceMatrix unreachableEnv twoStops
     = ([], Inr (calculateEuclideanMatrices exactMath twoStops))
   \<and> twoStops = [stopA, stopB]
   \<and> fst (calculateEuclideanMatrices exactMath twoStops) ! 0 ! 1
        \<noteq> mathRound (haversineDistance exactMath stopA stopB)
   \<and> snd (calculateEuclideanMatrices exactMath twoStops) ! 0 ! 1
        \<noteq> mathRound (numDiv (fst (calculateEuclideanMatrices exactMath twoStops) ! 0 ! 1)
                             (Num (30000 / 3600)))"
proof -
  let ?d = "6371000 * (3 / 1000000 * pi / 180) :: real"
  have d: "0 < ?d" "?d < 1 / 2" using stops_distance_bounds by simp_all
  have "round ?d = 0"
    using d by (simp add: round_def floor_eq_iff)
  then have 1: "Num ?d \<noteq> mathRound (Num ?d)" using d by (simp add: mathRound_def)
  have q: "0 < ?d / (30000 / 3600)" "?d / (30000 / 3600) < 1 / 2"
    using d by simp_all
  then have "round (?d / (30000 / 3600)) = 0"
    by (simp add: round_def floor_eq_iff)
  then have 2: "numDiv (Num ?d) (Num avgSpeedMps)
                  \<noteq> mathRound (numDiv (Num ?d) (Num (30000 / 3600)))"
    using q by (simp add: avgSpeedMps_def mathRound_def)
  have "getDistanceMatrix unreachableEnv twoStops
          = ([], Inr (calculateEuclideanMatrices exactMath twoStops))"
    using getDistanceMatrix_few_locations[of twoStops unreachableEnv]
    by (simp add: twoStops_def unreachableEnv_def)
  then show ?thesis
    using 1 2 by (simp only: twoStops_entry stops_distance) (simp add: twoStops_def)
qed

text \<open>
  Claim C6, amended.  In the local fallback matrices, for distinct positions \<open>i\<close> and
  \<open>j\<close>, the distance entry is \<open>haversineDistance\<close> of the two locations and the duration
  entry is that distance divided by \<open>30000 / 3600\<close>, both unrounded.  The rounding is done
  by \<open>buildVrpRequest\<close>: the request built from the fallback matrices carries
  \<open>round (haversine)\<close> and \<open>round (haversine / (30000 / 3600))\<close>.
\<close>

theorem fallback_entries:
  assumes "i < length locations" and "j < length locations" and "i \<noteq> j"
  shows "fst (calculateEuclideanMatrices m locations) ! i ! j
           = haversineDistance m (locations ! i) (locations ! j)
       \<and> snd (calculateEuclideanMatrices m locations) ! i ! j
           = numDiv (haversineDistance m (locations ! i) (locations ! j)) (Num (30000 / 3600))
       \<and> distance_matrix (buildVrpRequest startTime endTime scooters hub truckCount
             (fst (calculateEuclideanMatrices m locations))
             (snd (calculateEuclideanMatrices m locations))) ! i ! j
           = mathRound (haversineDistance m (locations ! i) (locations ! j))
       \<and> duration_matrix (buildVrpRequest startTime endTime scooters hub truckCount
             (fst (calculateEuclideanMatrices m locations))
             (snd (calculateEuclideanMatrices m locations))) ! i ! j
           = mathRound (numDiv (haversineDistance m (locations ! i) (locations ! j))
                               (Num (30000 / 3600)))"
proof -
  let ?h = "haversineDistance m (locations ! i) (locations ! j)"
  let ?dm = "fst (calculateEuclideanMatrices m locations)"
  let ?tm = "snd (calculateEuclideanMatrices m locations)"
  have sp: "avgSpeedMps = 30000 / 3600" by (simp add: avgSpeedMps_def)
  have e1: "?dm ! i ! j = ?h"
    using calculateEuclideanMatrices_entries(1)[OF assms(1,2), of m] assms(3) by simp
  have e2: "?tm ! i ! j = numDiv ?h (Num (30000 / 3600))"
    using calculateEuclideanMatrices_entries(2)[OF assms(1,2), of m] assms(3)
    by (simp only: sp if_False)
  have r1: "distance_matrix (buildVrpRequest startTime endTime scooters hub truckCount ?dm ?tm) ! i ! j
              = mathRound (?dm ! i ! j)"
    using assms(1,2) calculateEuclideanMatrices_shape(1)[of m locations]
      calculateEuclideanMatrices_shape(2)[OF assms(1), of m]
    by (simp add: buildVrpRequest_def Let_def)
  have r2: "duration_matrix (buildVrpRequest startTime endTime scooters hub truckCount ?dm ?tm) ! i ! j
              = mathRound (?tm ! i ! j)"
    using assms(1,2) calculateEuclideanMatrices_shape(3)[of m locations]
      calculateEuclideanMatrices_shape(4)[OF assms(1), of m]
    by (simp add: buildVrpRequest_def Let_def)
  show ?thesis
    using e1 e2 r1 r2 by (simp only:)
qed

theorem fallback_entries_witness:
  "(0::nat) < length twoStops \<and> (1::nat) < length twoStops \<and> (0::nat) \<noteq> 1
   \<and> fst (calculateEuclideanMatrices exactMath twoStops) ! 0 ! 1
       = haversineDistance exactMath (twoStops ! 0) (twoStops ! 1)
   \<and> distance_matrix (buildVrpRequest '''' '''' [] \<lparr>hub_id = ''h'', hub_location = stopA, hub_name = ''Hub''\<rparr> 1
         (fst (calculateEuclideanMatrices exactMath twoStops))
         (snd (calculateEuclideanMatrices exactMath twoStops))) ! 0 ! 1
       = mathRound (haversineDistance exactMath (twoStops ! 0) (twoStops ! 1))"
  using fallback_entries[where i = 0 and j = 1 and locations = twoStops and startTime = "''''"
      and endTime = "''''" and scooters = "[]" and truckCount = 1 and m = exactMath
      and hub = "\<lparr>hub_id = ''h'', hub_location = stopA, hub_name = ''Hub''\<rparr>"]
  by (simp add: twoStops_def)

text \<open>
  Claim C10.  For a location list with fewer than 3 elements \<open>getDistanceMatrix\<close> sends no
  request to the matrix service, whatever the key, and returns the pair computed locally by
  \<open>calculateEuclideanMatrices\<close>: two \<open>n \<times> n\<close> matrices, \<open>n\<close> the number of locations, zero on
  the diagonal, holding \<open>haversineDistance\<close> of the two locations and that distance divided
  by \<open>30000 / 3600\<close> everywhere else.
\<close>

theorem getDistanceMatrix_local_below_three:
  assumes "length locations < 3"
  shows "fst (getDistanceMatrix env locations) = []
       \<and> (\<exists>dm tm. snd (getDistanceMatrix env locations) = Inr (dm, tm)
             \<and> (dm, tm) = calculateEuclideanMatrices (mathLib env) locations
             \<and> length dm = length locations \<and> length tm = length locations
             \<and> (\<forall>i<length locations.
                   length (dm ! i) = length locations \<and> length (tm ! i) = length locations
                   \<and> (\<forall>j<length locations.
                         dm ! i ! j
                           = (if i = j then Num 0
                              else haversineDistance (mathLib env) (locations ! i) (locations ! j))
                       \<and> tm ! i ! j
                           = (if i = j then Num 0
                              else numDiv (haversineDistance (mathLib env) (locations ! i)
                                             (locations ! j))
                                          (Num (30000 / 3600))))))"
proof -
  from calculateEuclideanMatrices_pair[of "mathLib env" locations]
  obtain dm tm where p: "calculateEuclideanMatrices (mathLib env) locations = (dm, tm)"
    and r: "length dm = length locations \<and> length tm = length locations
      \<and> (\<forall>i<length locations.
            length (dm ! i) = length locations \<and> length (tm ! i) = length locations
            \<and> (\<forall>j<length locations.
                  dm ! i ! j
                    = (if i = j then Num 0
                       else haversineDistance (mathLib env) (locations ! i) (locations ! j))
                \<and> tm ! i ! j
                    = (if i = j then Num 0
                       else numDiv (haversineDistance (mathLib env) (locations ! i) (locations ! j))
                                   (Num (30000 / 3600)))))"
    by blast
  have g: "getDistanceMatrix env locations = ([], Inr (dm, tm))"
    using getDistanceMatrix_few_locations[OF assms, of env] p by simp
  show ?thesis
    using g p r by simp
qed

theorem getDistanceMatrix_local_below_three_witness:
  "length twoStops < 3
   \<and> INAVI_API_KEY oneByOneEnv = Some ''key''
   \<and> fst (getDistanceMatrix oneByOneEnv twoStops) = []
   \<and> (\<exists>dm tm. snd (getDistanceMatrix oneByOneEnv twoStops) = Inr (dm, tm)
         \<and> length dm = 2 \<and> length (dm ! 0) = 2 \<and> length tm = 2 \<and> length (tm ! 0) = 2
         \<and> dm ! 0 ! 0 = Num 0
         \<and> dm ! 0 ! 1 = haversineDistance exactMath stopA stopB
         \<and> tm ! 0 ! 1 = numDiv (haversineDistance exactMath stopA stopB) (Num (30000 / 3600)))"
proof -
  have n: "length twoStops = 2" "twoStops ! 0 = stopA" "twoStops ! Suc 0 = stopB"
    "mathLib oneByOneEnv = exactMath"
    by (simp_all add: twoStops_def oneByOneEnv_def)
  have lt: "length twoStops < 3" by (simp add: n)
  from getDistanceMatrix_local_below_three[OF lt, of oneByOneEnv]
  obtain dm tm where m: "snd (getDistanceMatrix oneByOneEnv twoStops) = Inr (dm, tm)"
    and l: "length dm = length twoStops" "length tm = length twoStops"
    and e: "\<forall>i<length twoStops.
               length (dm ! i) = length twoStops \<and> length (tm ! i) = length twoStops
               \<and> (\<forall>j<length twoStops.
                     dm ! i ! j
                       = (if i = j then Num 0
                          else haversineDistance (mathLib oneByOneEnv) (twoStops ! i) (twoStops ! j))
                   \<and> tm ! i ! j
                       = (if i = j then Num 0
                          else numDiv (haversineDistance (mathLib oneByOneEnv) (twoStops ! i)
                                         (twoStops ! j))
                                      (Num (30000 / 3600))))"
    and f: "fst (getDistanceMatrix oneByOneEnv twoStops) = []"
    by blast
  have e0: "length (dm ! 0) = 2 \<and> length (tm ! 0) = 2
       \<and> dm ! 0 ! 0 = Num 0 \<and> dm ! 0 ! 1 = haversineDistance exactMath stopA stopB
       \<and> tm ! 0 ! 1 = numDiv (haversineDistance exactMath stopA stopB) (Num (30000 / 3600))"
    using e by (simp add: n)
  show ?thesis
    using lt f m l e0 by (simp add: n oneByOneEnv_def)
qed

section \<open>Claims about the optimisation\<close>

text \<open>
  Claim C7.  With 200 scooters the location list has 201 entries and is cut to 200, the
  depot and the first 199 scooters, and the solver path works on those 199 only
  (\<open>trySolve_uses_working_scooters\<close>).  The \<open>catch\<close> branch however hands the untruncated
  \<open>scooters\<close> to \<open>generateMockRoutes\<close>: when the solver cannot be reached, the single
  mock route collects all 200 scooters and its path holds the location of the 200th,
  which the cap had excluded.
\<close>

theorem solveVrp_truncation_skipped_in_mock_mode:
  "length (locationsOf fleet200 exampleHub) = 200
   \<and> workingScooters fleet200 exampleHub = take 199 fleet200
   \<and> fleet200 ! 199 \<notin> set (workingScooters fleet200 exampleHub)
   \<and> map scootersCollected (solveVrp offlineEnv fleet200 exampleHub 1) = [200]
   \<and> location (fleet200 ! 199) \<in> set (path (hd (solveVrp offlineEnv fleet200 exampleHub 1)))"
proof -
  let ?sorted = "sortBy (\<lambda>a b. numSub (penaltyOf b) (penaltyOf a)) fleet200"
  have ne: "fleet200 \<noteq> []" using fleet200_length by auto
  have s: "solveVrp offlineEnv fleet200 exampleHub 1 = [mockRoute exampleHub 0 ?sorted]"
    by (simp add: solveVrp_def trySolve_offline generateMockRoutes_one_truck[OF ne])
  have 1: "length (locationsOf fleet200 exampleHub) = 200"
    by (simp add: locationsOf_def Let_def fleet200_length)
  have 2: "workingScooters fleet200 exampleHub = take 199 fleet200"
    by (simp add: workingScooters_def Let_def fleet200_length)
  have 4: "map scootersCollected (solveVrp offlineEnv fleet200 exampleHub 1) = [200]"
    unfolding s by (simp add: mockRoute_def fleet200_length sortBy_length)
  have "fleet200 ! 199 \<in> set fleet200"
    by (rule nth_mem) (simp add: fleet200_length)
  then have "fleet200 ! 199 \<in> set ?sorted" by (simp only: sortBy_set)
  then have 5: "location (fleet200 ! 199) \<in> set (path (hd (solveVrp offlineEnv fleet200 exampleHub 1)))"
    unfolding s by (simp add: mockRoute_def)
  show ?thesis using 1 2 fleet200_last_not_working 4 5 by blast
qed

text \<open>
  Claim C8.  \<open>solveVrp\<close> adds up \<open>scooter.penaltyValue\<close>, a property that the scooters
  built by \<open>generateScenario\<close> of \<open>ScenarioGenerator.ts\<close> do not have.  Handed the list
  that \<open>generateScenario(10)\<close> returns, with the solver out of reach, it returns one route
  that collects scooters and whose \<open>totalScore\<close> is \<open>NaN\<close>, which equals nothing.  Handed
  two such scooters, one of each state, it returns one route that collects both and whose
  \<open>totalScore\<close>, \<open>revenueCollected\<close> and \<open>finesAvoided\<close> are all \<open>NaN\<close>, when the route is
  interpreted from the solver's response as well as when it comes from
  \<open>generateMockRoutes\<close>.  (With a finite \<open>penaltyValue\<close> on every scooter the three
  amounts are finite and the first is the sum of the other two, lemma
  \<open>solveVrp_totalScore_with_penaltyValue\<close>.)
\<close>

theorem solveVrp_totalScore_not_a_number:
  "(\<exists>st out r. generateScenario exampleEnv initialState 10 = (st, Inr out)
       \<and> solveVrp offlineEnv (map fromGenerator out) exampleHub 1 = [r]
       \<and> 0 < scootersCollected r \<and> totalScore r = NaN
       \<and> \<not> strictEquals (totalScore r) (numAdd (revenueCollected r) (finesAvoided r)))
   \<and> map scootersCollected
     (solveVrp solverEnv (map fromGenerator [generatedLowBattery, generatedHighRisk]) exampleHub 1) = [2]
   \<and> map totalScore
     (solveVrp solverEnv (map fromGenerator [generatedLowBattery, generatedHighRisk]) exampleHub 1) = [NaN]
   \<and> map revenueCollected
     (solveVrp solverEnv (map fromGenerator [generatedLowBattery, generatedHighRisk]) exampleHub 1) = [NaN]
   \<and> map finesAvoided
     (solveVrp solverEnv (map fromGenerator [generatedLowBattery, generatedHighRisk]) exampleHub 1) = [NaN]
   \<and> map scootersCollected
     (solveVrp offlineEnv (map fromGenerator [generatedLowBattery, generatedHighRisk]) exampleHub 1) = [2]
   \<and> map totalScore
     (solveVrp offlineEnv (map fromGenerator [generatedLowBattery, generatedHighRisk]) exampleHub 1) = [NaN]
   \<and> map revenueCollected
     (solveVrp offlineEnv (map fromGenerator [generatedLowBattery, generatedHighRisk]) exampleHub 1) = [NaN]
   \<and> map finesAvoided
     (solveVrp offlineEnv (map fromGenerator [generatedLowBattery, generatedHighRisk]) exampleHub 1) = [NaN]
   \<and> \<not> strictEquals NaN (numAdd NaN NaN)"
proof -
  let ?lb = "fromGenerator generatedLowBattery"
  let ?hr = "fromGenerator generatedHighRisk"
  let ?in = "map fromGenerator [generatedLowBattery, generatedHighRisk]"
  have inp: "?in = [?lb, ?hr]" by simp
  have f: "scooter_id ?lb = ''S-1''" "scooter_id ?hr = ''S-2''" "state ?lb = B" "state ?hr = C"
    "penaltyOf ?lb = NaN" "penaltyOf ?hr = NaN"
    by (simp_all add: fromGenerator_def generatedLowBattery_def generatedHighRisk_def penaltyOf_def)
  have cmp: "positive (numSub (penaltyOf ?hr) (penaltyOf ?lb)) = False"
    by (simp add: f numSub_def numNeg_def positive_def)
  have sorted: "sortBy (\<lambda>a b. numSub (penaltyOf b) (penaltyOf a)) [?lb, ?hr] = [?lb, ?hr]"
    by (simp add: sortBy_def cmp)
  have off: "solveVrp offlineEnv ?in exampleHub 1 = [mockRoute exampleHub 0 [?lb, ?hr]]"
    unfolding inp
    by (simp add: solveVrp_def trySolve_offline generateMockRoutes_one_truck sorted)
  have sums: "sumPenalty [?lb, ?hr] = NaN" "sumPenalty [?lb] = NaN" "sumPenalty [?hr] = NaN"
    by (simp_all add: sumPenalty_def f)
  have o: "map scootersCollected (solveVrp offlineEnv ?in exampleHub 1) = [2]"
    "map totalScore (solveVrp offlineEnv ?in exampleHub 1) = [NaN]"
    "map revenueCollected (solveVrp offlineEnv ?in exampleHub 1) = [NaN]"
    "map finesAvoided (solveVrp offlineEnv ?in exampleHub 1) = [NaN]"
    unfolding off by (simp_all add: mockRoute_def f sums)
  have loc: "locationsOf [?lb, ?hr] exampleHub = [stopA, stopB, \<lparr>lng = 127.01, lat = 37.5\<rparr>]"
    by (simp add: locationsOf_def Let_def exampleHub_def fromGenerator_def
          generatedLowBattery_def generatedHighRisk_def)
  have w: "workingScooters [?lb, ?hr] exampleHub = [?lb, ?hr]"
    by (simp add: workingScooters_def Let_def)
  have g: "snd (getDistanceMatrix (matrixEnv solverEnv) (locationsOf [?lb, ?hr] exampleHub))
         = Inr (calculateEuclideanMatrices exactMath (locationsOf [?lb, ?hr] exampleHub))"
    using getDistanceMatrix_try_failed[where e = FetchError and env = unreachableEnv
        and locations = "locationsOf [?lb, ?hr] exampleHub"]
    by (simp add: tryInavi_def solverEnv_def unreachableEnv_def)
  obtain dm tm where m: "calculateEuclideanMatrices exactMath (locationsOf [?lb, ?hr] exampleHub) = (dm, tm)"
    by (cases "calculateEuclideanMatrices exactMath (locationsOf [?lb, ?hr] exampleHub)")
  have l: "length dm = 3" "length tm = 3"
    using calculateEuclideanMatrices_shape(1,3)[of exactMath "locationsOf [?lb, ?hr] exampleHub"] m loc
    by simp_all
  have idx: "nameToIndex exampleHub [?lb, ?hr] ''Main Hub'' = Index 0"
    "nameToIndex exampleHub [?lb, ?hr] ''S-2'' = Index 2"
    "nameToIndex exampleHub [?lb, ?hr] ''S-1'' = Index 1"
    by (simp_all add: nameToIndex_def ownIndex_def exampleHub_def f)
  have fnd: "find (\<lambda>s. scooter_id s = ''S-2'') [?lb, ?hr] = Some ?hr"
    "find (\<lambda>s. scooter_id s = ''S-1'') [?lb, ?hr] = Some ?lb"
    "hub_name exampleHub = ''Main Hub''"
    by (simp_all add: f exampleHub_def)
  have "\<exists>acc. statsLoop exampleHub [?lb, ?hr] dm tm
            (consecutive [''Main Hub'', ''S-2'', ''S-1'', ''Main Hub'']) noStats = Inr acc
          \<and> visitedScooters acc = 2 \<and> totalScore' acc = NaN
          \<and> revenueCollected' acc = NaN \<and> finesAvoided' acc = NaN"
    by (simp add: consecutive_def idx addTravel_def l addVisit_def fnd f Let_def noStats_def)
  then obtain acc where acc: "statsLoop exampleHub [?lb, ?hr] dm tm
            (consecutive [''Main Hub'', ''S-2'', ''S-1'', ''Main Hub'']) noStats = Inr acc"
    "visitedScooters acc = 2" "totalScore' acc = NaN"
    "revenueCollected' acc = NaN" "finesAvoided' acc = NaN"
    by blast
  have "\<exists>r. parseRoute (inaviRouteTime solverEnv) [?lb, ?hr] exampleHub dm tm
             \<lparr>route_vehicle_name = ''Truck-1'',
              route_name = [''Main Hub'', ''S-2'', ''S-1'', ''Main Hub'']\<rparr> 0 = Inr r
           \<and> scootersCollected r = 2 \<and> totalScore r = NaN
           \<and> revenueCollected r = NaN \<and> finesAvoided r = NaN"
    using acc by (simp add: parseRoute_def Let_def)
  then obtain r where r: "parseRoute (inaviRouteTime solverEnv) [?lb, ?hr] exampleHub dm tm
             \<lparr>route_vehicle_name = ''Truck-1'',
              route_name = [''Main Hub'', ''S-2'', ''S-1'', ''Main Hub'']\<rparr> 0 = Inr r"
    "scootersCollected r = 2" "totalScore r = NaN" "revenueCollected r = NaN" "finesAvoided r = NaN"
    by blast
  have "trySolve solverEnv [?lb, ?hr] exampleHub 1 = Inr [r]"
    using g m r(1) w
    by (simp add: trySolve_def Let_def solverEnv_def parseVrpResponseWithGeometry_def)
  then have on: "solveVrp solverEnv ?in exampleHub 1 = [r]"
    unfolding inp by (simp add: solveVrp_def)
  have n: "\<not> strictEquals NaN (numAdd NaN NaN)" by (simp add: strictEquals_def)
  obtain st out where gen: "generateScenario exampleEnv initialState 10 = (st, Inr out)"
    using exampleEnv_returns[of 10] by blast
  have "out \<noteq> []"
    using generateScenario_nonempty[OF _ _ exampleEnv_shuffle gen] by simp
  then have ne: "map fromGenerator out \<noteq> []" by simp
  let ?r = "mockRoute exampleHub 0
              (sortBy (\<lambda>a b. numSub (penaltyOf b) (penaltyOf a)) (map fromGenerator out))"
  have one: "solveVrp offlineEnv (map fromGenerator out) exampleHub 1 = [?r]"
    by (simp add: solveVrp_def trySolve_offline generateMockRoutes_one_truck[OF ne])
  have pos: "0 < scootersCollected ?r"
    using ne by (simp add: mockRoute_def sortBy_length)
  have "?r \<in> set (solveVrp offlineEnv (map fromGenerator out) exampleHub 1)"
    unfolding one by simp
  then have nan: "totalScore ?r = NaN"
    using solveVrp_generated_scooters pos by blast
  then have "\<not> strictEquals (totalScore ?r) (numAdd (revenueCollected ?r) (finesAvoided ?r))"
    by (simp add: strictEquals_def)
  with gen one pos nan have first:
    "\<exists>st out r. generateScenario exampleEnv initialState 10 = (st, Inr out)
       \<and> solveVrp offlineEnv (map fromGenerator out) exampleHub 1 = [r]
       \<and> 0 < scootersCollected r \<and> totalScore r = NaN
       \<and> \<not> strictEquals (totalScore r) (numAdd (revenueCollected r) (finesAvoided r))"
    by blast
  show ?thesis
    using first o n r(2-5) unfolding on by simp
qed

end
